theory Spec2Isabelle
  imports Complex_Main "HOL-Library.Multiset"
begin

section \<open>Strings\<close>

text \<open>
  JavaScript strings are modelled as \<^typ>\<open>string\<close>. The model covers ASCII text: case
  folding acts on the letters A-Z only and the regular-expression class \<open>\s\<close> is the six
  ASCII white-space characters.
\<close>

definition toLowerChar :: "char \<Rightarrow> char" where
  "toLowerChar c =
     (case map_of (zip ''ABCDEFGHIJKLMNOPQRSTUVWXYZ'' ''abcdefghijklmnopqrstuvwxyz'') c of
        Some l \<Rightarrow> l
      | None \<Rightarrow> c)"

definition toLowerCase :: "string \<Rightarrow> string" where
  "toLowerCase s = map toLowerChar s"

definition isSpace :: "char \<Rightarrow> bool" where
  "isSpace c = (c \<in> set [CHR 0x09, CHR 0x0A, CHR 0x0B, CHR 0x0C, CHR 0x0D, CHR '' ''])"

definition isLowerAlnum :: "char \<Rightarrow> bool" where
  "isLowerAlnum c = (c \<in> set ''abcdefghijklmnopqrstuvwxyz0123456789'')"

definition isDigit :: "char \<Rightarrow> bool" where
  "isDigit c = (c \<in> set ''0123456789'')"

text \<open>\<open>s.trim()\<close>\<close>

definition trim :: "string \<Rightarrow> string" where
  "trim s = rev (dropWhile isSpace (rev (dropWhile isSpace s)))"

text \<open>\<open>s.replace(/\s+/g, ' ')\<close>: every maximal run of white space becomes one blank.\<close>

fun collapseFrom :: "bool \<Rightarrow> string \<Rightarrow> string" where
  "collapseFrom inRun [] = []"
| "collapseFrom inRun (c # cs) =
     (if isSpace c then (if inRun then collapseFrom True cs else CHR '' '' # collapseFrom True cs)
      else c # collapseFrom False cs)"

definition collapseSpaces :: "string \<Rightarrow> string" where
  "collapseSpaces s = collapseFrom False s"

text \<open>\<open>hay.includes(needle)\<close>\<close>

fun startsWith :: "string \<Rightarrow> string \<Rightarrow> bool" where
  "startsWith s [] = True"
| "startsWith [] (p # ps) = False"
| "startsWith (c # cs) (p # ps) = (c = p \<and> startsWith cs ps)"

fun strIncludes :: "string \<Rightarrow> string \<Rightarrow> bool" where
  "strIncludes [] needle = (needle = [])"
| "strIncludes (c # cs) needle = (startsWith (c # cs) needle \<or> strIncludes cs needle)"

text \<open>\<open>s.split(sep)\<close> for a one-character separator.\<close>

fun split :: "char \<Rightarrow> string \<Rightarrow> string list" where
  "split sep [] = [[]]"
| "split sep (c # cs) =
     (if c = sep then [] # split sep cs
      else (case split sep cs of w # ws \<Rightarrow> (c # w) # ws | [] \<Rightarrow> [[c]]))"

section \<open>Text and URL normalisation, name similarity\<close>

text \<open>
  \<open>normalizeText\<close>: lowercase, drop everything outside \<open>[a-z0-9\s]\<close>, collapse white
  space, trim.
\<close>

definition normalizeText :: "string \<Rightarrow> string" where
  "normalizeText str =
     trim (collapseSpaces (filter (\<lambda>c. isLowerAlnum c \<or> isSpace c) (toLowerCase str)))"

text \<open>\<open>url.split('?')[0].replace(/\/+$/, '').toLowerCase()\<close>\<close>

definition normalizeUrl :: "string \<Rightarrow> string" where
  "normalizeUrl url =
     toLowerCase (rev (dropWhile (\<lambda>c. c = CHR ''/'') (rev (takeWhile (\<lambda>c. c \<noteq> CHR ''?'') url))))"

text \<open>
  One pass of the inner loop of the two-row dynamic programme of \<open>similarity\<close>: for a
  fixed character \<open>ai\<close> of \<open>a\<close> it fills \<open>curr[1..lenB]\<close>. The third argument is the rest
  of the previous row starting at \<open>prev[j-1]\<close>, the fourth is \<open>curr[j-1]\<close>.
\<close>

fun lcsRow :: "char \<Rightarrow> string \<Rightarrow> nat list \<Rightarrow> nat \<Rightarrow> nat list" where
  "lcsRow ai [] prev left = []"
| "lcsRow ai (bj # bs) prev left =
     (case prev of
        pd # pu # rest \<Rightarrow>
          (let v = (if ai = bj then pd + 1 else max pu left)
           in v # lcsRow ai bs (pu # rest) v)
      | _ \<Rightarrow> [])"

definition lcsLen :: "string \<Rightarrow> string \<Rightarrow> nat" where
  "lcsLen a b =
     last (foldl (\<lambda>prev ai. 0 # lcsRow ai b prev 0) (replicate (length b + 1) 0) a)"

text \<open>
  The ratio is a quotient of two string lengths; the comparison with the threshold 0.75
  is exact in double precision for such operands, so rationals model it.
\<close>

definition similarity :: "string \<Rightarrow> string \<Rightarrow> rat" where
  "similarity a b =
     (if a = b then 1
      else if a = [] \<or> b = [] then 0
      else of_nat (lcsLen a b) / of_nat (max (length a) (length b)))"

definition NAME_SIMILARITY_THRESHOLD :: rat where
  "NAME_SIMILARITY_THRESHOLD = 3 / 4"

section \<open>Events\<close>

text \<open>
  An ISO timestamp is modelled by the value of \<open>new Date(s).getTime()\<close>: epoch
  milliseconds, or \<open>None\<close> for a string that does not parse (NaN). Comparisons with NaN
  are false.
\<close>

type_synonym datetime = "int option"

definition nanLess :: "int option \<Rightarrow> int option \<Rightarrow> bool" where
  "nanLess a b = (case (a, b) of (Some x, Some y) \<Rightarrow> x < y | _ \<Rightarrow> False)"

record Location =
  loc_name :: string
  loc_address :: string
  lat :: rat
  lng :: rat

record Price =
  price_min :: rat
  price_max :: rat
  currency :: string

record TimeSlot =
  slot_start :: datetime
  slot_end :: datetime

datatype Availability = available | limited | sold_out | unknown

record Event =
  event_id :: string
  name :: string
  description :: string
  category :: string
  location :: Location
  timeSlot :: TimeSlot
  price :: "Price option"
  rating :: "rat option"
  sourceUrl :: "string option"
  source :: string
  imageUrl :: "string option"
  reviewCount :: "nat option"
  availability :: Availability
  bookingRequired :: bool

text \<open>A JavaScript string is truthy when it is present and non-empty.\<close>

definition truthy :: "string option \<Rightarrow> bool" where
  "truthy s = (case s of None \<Rightarrow> False | Some t \<Rightarrow> t \<noteq> [])"

definition hasTimeOverlap :: "Event \<Rightarrow> Event \<Rightarrow> bool" where
  "hasTimeOverlap a b =
     (nanLess (slot_start (timeSlot a)) (slot_end (timeSlot b)) \<and>
      nanLess (slot_start (timeSlot b)) (slot_end (timeSlot a)))"

definition scoreEventCompleteness :: "Event \<Rightarrow> nat" where
  "scoreEventCompleteness e =
     (if price e \<noteq> None then 2 else 0) +
     (if rating e \<noteq> None then 2 else 0) +
     (if truthy (imageUrl e) then 1 else 0) +
     (case reviewCount e of None \<Rightarrow> 0 | Some n \<Rightarrow> if n > 0 then 1 else 0) +
     (if length (description e) > 50 then 1 else 0)"

definition hasSameUrl :: "Event \<Rightarrow> Event \<Rightarrow> bool" where
  "hasSameUrl a b =
     (if \<not> truthy (sourceUrl a) \<or> \<not> truthy (sourceUrl b) then False
      else normalizeUrl (the (sourceUrl a)) = normalizeUrl (the (sourceUrl b)))"

section \<open>Deduplication\<close>

text \<open>The test \<open>isDuplicate\<close> of the inner loop of \<open>deduplicateEventsTool\<close>.\<close>

definition isDuplicate :: "Event \<Rightarrow> Event \<Rightarrow> bool" where
  "isDuplicate best candidate =
     (hasSameUrl best candidate \<or>
      (similarity (normalizeText (name best)) (normalizeText (name candidate))
         \<ge> NAME_SIMILARITY_THRESHOLD
       \<and> hasTimeOverlap best candidate))"

text \<open>
  The inner loop \<open>for (j = i + 1; ...)\<close>. Its argument is the list of the later events
  whose index is not in the set \<open>merged\<close>; it returns the final \<open>best\<close> and the later
  events that are still unmerged, in their order. Adding \<open>j\<close> to \<open>merged\<close> is dropping the
  candidate from that list.
\<close>

fun scanLater :: "Event \<Rightarrow> Event list \<Rightarrow> Event \<times> Event list" where
  "scanLater best [] = (best, [])"
| "scanLater best (candidate # later) =
     (if isDuplicate best candidate then
        scanLater
          (if scoreEventCompleteness candidate > scoreEventCompleteness best
           then candidate else best)
          later
      else
        (case scanLater best later of (b, rest) \<Rightarrow> (b, candidate # rest)))"

lemma length_scanLater: "length (snd (scanLater best later)) \<le> length later"
proof (induction later arbitrary: best)
  case Nil
  show ?case by simp
next
  case (Cons c later)
  show ?case
  proof (cases "isDuplicate best c")
    case True
    then show ?thesis
      using Cons.IH [of c] Cons.IH [of best] by (simp add: le_SucI)
  next
    case False
    then show ?thesis
      using Cons.IH [of best] by (auto split: prod.splits)
  qed
qed

lemma scanLater_shorter: "scanLater best later = (b, rest) \<Longrightarrow> length rest \<le> length later"
  using length_scanLater [of best later] by simp

text \<open>The outer loop \<open>for (i = 0; ...)\<close> over the events not yet merged.\<close>

function dedupLoop :: "Event list \<Rightarrow> Event list" where
  "dedupLoop [] = []"
| "dedupLoop (e # es) =
     (case scanLater e es of (best, rest) \<Rightarrow> best # dedupLoop rest)"
  by pat_completeness auto
termination
  by (relation "measure length") (auto simp: less_Suc_eq_le dest: scanLater_shorter [OF sym])

record DedupResult =
  events :: "Event list"
  originalCount :: nat
  deduplicatedCount :: nat
  removedCount :: nat

definition deduplicateEvents :: "Event list \<Rightarrow> DedupResult" where
  "deduplicateEvents evs =
     (let originalCount = length evs in
      if originalCount \<le> 1 then
        \<lparr>events = evs, originalCount = originalCount,
         deduplicatedCount = originalCount, removedCount = 0\<rparr>
      else
        (let result = dedupLoop evs in
         \<lparr>events = result, originalCount = originalCount,
          deduplicatedCount = length result,
          removedCount = originalCount - length result\<rparr>))"

section \<open>Discovery: merge, deduplicate, inject\<close>

text \<open>The event that \<open>mergeAndDeduplicateEvents\<close> builds in place.\<close>

definition hallyuConEvent :: Event where
  "hallyuConEvent =
     \<lparr>event_id = ''inject_hallyucon_mar26'',
      name = ''HallyuCon Mar '' @ [CHR 0x27] @ ''26'',
      description = ''The ultimate Korean pop culture convention - K-pop, K-drama, Korean beauty, fashion, and food all in one place. Over 70 vendors, live stage performances, Random Play Dance, and more. Free RSVP gives entry on both days.'',
      category = ''cultural'',
      location =
        \<lparr>loc_name = ''Suntec Singapore Convention & Exhibition Centre, Hall 404'',
         loc_address = ''1 Raffles Blvd, Suntec City, Singapore 039593'',
         lat = 12932 / 10000, lng = 1038573 / 10000\<rparr>,
      timeSlot = \<lparr>slot_start = Some 1772856000000, slot_end = Some 1772884800000\<rparr>,
      price = Some \<lparr>price_min = 0, price_max = 0, currency = ''SGD''\<rparr>,
      rating = Some (9 / 2),
      sourceUrl =
        Some ''https://www.eventbrite.sg/e/hallyucon-mar-26-rsvp-registration-tickets-1978865860057'',
      source = ''eventbrite'',
      imageUrl = None,
      reviewCount = None,
      availability = available,
      bookingRequired = True\<rparr>"

record DedupStats =
  stat_originalCount :: nat
  stat_deduplicatedCount :: nat
  stat_removedCount :: nat

record DiscoveryOutput =
  discovered :: "Event list"
  dedupStats :: "DedupStats option"

text \<open>
  \<open>mergeAndDeduplicateEvents\<close>. \<open>toolResult\<close> is what the call of the deduplication tool
  hands back for the merged raw events: \<open>Some\<close> of its result, or \<open>None\<close> when the tool
  wrapper answers with something that has no \<open>events\<close> field, in which case the raw
  events are kept. The fields threaded through from the intent step are left out.
\<close>

definition injectPriority :: "Event list \<Rightarrow> Event list" where
  "injectPriority allEvents =
     (if \<not> list_ex (\<lambda>e. event_id e = event_id hallyuConEvent
                          \<or> sourceUrl e = sourceUrl hallyuConEvent) allEvents
      then allEvents @ [hallyuConEvent]
      else allEvents)"

definition mergeWith :: "(Event list \<Rightarrow> DedupResult option) \<Rightarrow> Event list \<Rightarrow> Event list \<Rightarrow> DiscoveryOutput" where
  "mergeWith tool eventbrite eventfinda =
     (let rawEvents = eventbrite @ eventfinda in
      case tool rawEvents of
        Some dr \<Rightarrow>
          \<lparr>discovered = injectPriority (events dr),
           dedupStats = Some \<lparr>stat_originalCount = originalCount dr,
                              stat_deduplicatedCount = deduplicatedCount dr,
                              stat_removedCount = removedCount dr\<rparr>\<rparr>
      | None \<Rightarrow> \<lparr>discovered = injectPriority rawEvents, dedupStats = None\<rparr>)"

definition mergeAndDeduplicateEvents :: "Event list \<Rightarrow> Event list \<Rightarrow> DiscoveryOutput" where
  "mergeAndDeduplicateEvents eventbrite eventfinda =
     mergeWith (\<lambda>evs. Some (deduplicateEvents evs)) eventbrite eventfinda"

section \<open>Sample events\<close>

text \<open>Concrete events on which the functions above are evaluated.\<close>

definition sampleEvent ::
  "string \<Rightarrow> string \<Rightarrow> string option \<Rightarrow> int \<Rightarrow> int \<Rightarrow> Price option \<Rightarrow> Event" where
  "sampleEvent i n u s e p =
     \<lparr>event_id = i, name = n, description = [], category = ''other'',
      location = \<lparr>loc_name = ''Singapore'', loc_address = ''Singapore'', lat = 0, lng = 0\<rparr>,
      timeSlot = \<lparr>slot_start = Some s, slot_end = Some e\<rparr>,
      price = p, rating = None, sourceUrl = u, source = ''eventbrite'',
      imageUrl = None, reviewCount = None, availability = unknown, bookingRequired = True\<rparr>"

definition dupA :: Event where
  "dupA = sampleEvent ''a'' ''Jazz Night'' (Some ''https://x.com/e/1'') 0 10 None"

definition dupB :: Event where
  "dupB = sampleEvent ''b'' ''Food Fair'' None 0 10 None"

definition dupC :: Event where
  "dupC = sampleEvent ''c'' ''food fair!'' (Some ''https://x.com/e/1/?ref=2'') 5 15
            (Some \<lparr>price_min = 0, price_max = 5, currency = ''SGD''\<rparr>)"

section \<open>Numbers, time strings and array sorting\<close>

definition digitChar :: "nat \<Rightarrow> char" where
  "digitChar n = ''0123456789'' ! n"

function showNat :: "nat \<Rightarrow> string" where
  "showNat n = (if n < 10 then [digitChar n] else showNat (n div 10) @ [digitChar (n mod 10)])"
  by pat_completeness auto
termination
  by (relation "measure id") auto

declare showNat.simps [simp del]

text \<open>\<open>n.toString().padStart(2, '0')\<close> for a natural number.\<close>

definition pad2 :: "nat \<Rightarrow> string" where
  "pad2 n = (if n < 10 then CHR ''0'' # showNat n else showNat n)"

text \<open>
  A JavaScript number, as far as the scheduler meets one: NaN, the two infinities, or a
  finite value. Finite values are exact rationals; the rounding and the range of binary64
  are not part of the model. The operations are those the scheduler uses.
\<close>

datatype JsNumber = NaN | NegInfinity | Finite rat | PosInfinity

fun jsNeg :: "JsNumber \<Rightarrow> JsNumber" where
  "jsNeg NaN = NaN"
| "jsNeg NegInfinity = PosInfinity"
| "jsNeg (Finite r) = Finite (- r)"
| "jsNeg PosInfinity = NegInfinity"

fun jsAdd :: "JsNumber \<Rightarrow> JsNumber \<Rightarrow> JsNumber" where
  "jsAdd (Finite a) (Finite b) = Finite (a + b)"
| "jsAdd NaN b = NaN"
| "jsAdd a NaN = NaN"
| "jsAdd PosInfinity NegInfinity = NaN"
| "jsAdd NegInfinity PosInfinity = NaN"
| "jsAdd PosInfinity b = PosInfinity"
| "jsAdd NegInfinity b = NegInfinity"
| "jsAdd (Finite a) b = b"

definition jsSub :: "JsNumber \<Rightarrow> JsNumber \<Rightarrow> JsNumber" where
  "jsSub a b = jsAdd a (jsNeg b)"

text \<open>\<open>a * c\<close> for a finite constant \<open>c > 0\<close>.\<close>

fun jsTimes :: "JsNumber \<Rightarrow> rat \<Rightarrow> JsNumber" where
  "jsTimes (Finite a) c = Finite (a * c)"
| "jsTimes a c = a"

fun jsLess :: "JsNumber \<Rightarrow> JsNumber \<Rightarrow> bool" where
  "jsLess (Finite a) (Finite b) = (a < b)"
| "jsLess NaN b = False"
| "jsLess a NaN = False"
| "jsLess a NegInfinity = False"
| "jsLess PosInfinity b = False"
| "jsLess NegInfinity b = True"
| "jsLess (Finite a) PosInfinity = True"

definition jsGreater :: "JsNumber \<Rightarrow> JsNumber \<Rightarrow> bool" where
  "jsGreater a b = jsLess b a"

definition isFiniteNumber :: "JsNumber \<Rightarrow> bool" where
  "isFiniteNumber a = (case a of Finite r \<Rightarrow> True | _ \<Rightarrow> False)"

definition finiteValue :: "JsNumber \<Rightarrow> rat" where
  "finiteValue a = (case a of Finite r \<Rightarrow> r | _ \<Rightarrow> 0)"

text \<open>
  \<open>Number(s)\<close> for a string: white space around the text is skipped, the empty text is 0,
  and the text must be a whole numeric literal: a decimal literal with an optional sign,
  fraction and exponent, \<open>Infinity\<close> with an optional sign, or an unsigned hexadecimal,
  octal or binary integer. Anything else is NaN.
\<close>

definition digitsValue :: "int \<Rightarrow> string \<Rightarrow> int" where
  "digitsValue radix s =
     foldl (\<lambda>n c. n * radix
                   + (if isDigit c then of_char c - 48
                      else if c \<in> set ''abcdef'' then of_char c - 87
                      else of_char c - 55)) 0 s"

definition isDigits :: "string \<Rightarrow> bool" where
  "isDigits s = (s \<noteq> [] \<and> list_all isDigit s)"

definition power10 :: "int \<Rightarrow> rat" where
  "power10 e = (if e \<ge> 0 then 10 ^ nat e else 1 / 10 ^ nat (- e))"

text \<open>The exponent part that may follow the digits: nothing, or \<open>e\<close>, a sign and digits.\<close>

definition exponentPart :: "string \<Rightarrow> int option" where
  "exponentPart s =
     (if s = [] then Some 0
      else if hd s = CHR ''e'' \<or> hd s = CHR ''E'' then
        (let r = tl s in
         if r \<noteq> [] \<and> hd r = CHR ''+'' then
           (if isDigits (tl r) then Some (digitsValue 10 (tl r)) else None)
         else if r \<noteq> [] \<and> hd r = CHR ''-'' then
           (if isDigits (tl r) then Some (- digitsValue 10 (tl r)) else None)
         else if isDigits r then Some (digitsValue 10 r) else None)
      else None)"

definition unsignedDecimal :: "string \<Rightarrow> JsNumber" where
  "unsignedDecimal s =
     (if s = ''Infinity'' then PosInfinity
      else
        (let intPart = takeWhile isDigit s;
             rest = dropWhile isDigit s;
             hasDot = (rest \<noteq> [] \<and> hd rest = CHR ''.'');
             fracPart = (if hasDot then takeWhile isDigit (tl rest) else []);
             rest2 = (if hasDot then dropWhile isDigit (tl rest) else rest)
         in if intPart = [] \<and> fracPart = [] then NaN
            else
              (case exponentPart rest2 of
                 None \<Rightarrow> NaN
               | Some e \<Rightarrow>
                   Finite (of_int (digitsValue 10 (intPart @ fracPart))
                           * power10 (e - int (length fracPart))))))"

definition signedDecimal :: "string \<Rightarrow> JsNumber" where
  "signedDecimal s =
     (if s \<noteq> [] \<and> hd s = CHR ''+'' then unsignedDecimal (tl s)
      else if s \<noteq> [] \<and> hd s = CHR ''-'' then jsNeg (unsignedDecimal (tl s))
      else unsignedDecimal s)"

definition nonDecimalInteger :: "string \<Rightarrow> int option" where
  "nonDecimalInteger s =
     (let prefix = take 2 s; digits = drop 2 s in
      if digits = [] then None
      else if (prefix = ''0x'' \<or> prefix = ''0X'')
              \<and> list_all (\<lambda>c. c \<in> set ''0123456789abcdefABCDEF'') digits
        then Some (digitsValue 16 digits)
      else if (prefix = ''0o'' \<or> prefix = ''0O'') \<and> list_all (\<lambda>c. c \<in> set ''01234567'') digits
        then Some (digitsValue 8 digits)
      else if (prefix = ''0b'' \<or> prefix = ''0B'') \<and> list_all (\<lambda>c. c \<in> set ''01'') digits
        then Some (digitsValue 2 digits)
      else None)"

definition Number :: "string \<Rightarrow> JsNumber" where
  "Number s =
     (let t = trim s in
      if t = [] then Finite 0
      else (case nonDecimalInteger t of
              Some n \<Rightarrow> Finite (of_int n)
            | None \<Rightarrow> signedDecimal t))"

text \<open>
  \<open>xs.sort((a, b) => key(a) - key(b))\<close>. When every key is a finite number the comparator
  is consistent and the result is the stable sort by key. When a key is NaN or infinite
  some difference is NaN, the comparator is not consistent, and ECMAScript leaves the
  order to the engine: \<open>engine\<close> is given the keys in the order of the array and answers
  with the order in which it leaves the indices.
\<close>

definition sortByKey :: "(JsNumber list \<Rightarrow> nat list) \<Rightarrow> ('a \<Rightarrow> JsNumber) \<Rightarrow> 'a list \<Rightarrow> 'a list" where
  "sortByKey engine key xs =
     (if list_all (\<lambda>x. isFiniteNumber (key x)) xs then sort_key (\<lambda>x. finiteValue (key x)) xs
      else map (\<lambda>i. xs ! i) (engine (map key xs)))"

text \<open>An engine whose sort rearranges the array, whatever the comparator.\<close>

definition permutes :: "(JsNumber list \<Rightarrow> nat list) \<Rightarrow> bool" where
  "permutes engine = (\<forall>keys. mset (engine keys) = mset [0..<length keys])"

text \<open>The engine that leaves an array it cannot order as it is.\<close>

definition inPlace :: "JsNumber list \<Rightarrow> nat list" where
  "inPlace keys = [0..<length keys]"

section \<open>Itinerary scheduler: data\<close>

text \<open>
  The times of a draft item are the strings the planning agent wrote. \<open>parseTime\<close> splits
  at the colons and reads the first two pieces with \<open>Number\<close>; a missing second piece
  counts as 0.
\<close>

definition parseTime :: "string \<Rightarrow> JsNumber" where
  "parseTime time =
     (let parts = split (CHR '':'') time;
          h = Number (hd parts);
          m = (case tl parts of [] \<Rightarrow> Finite 0 | p # ps \<Rightarrow> Number p)
      in jsAdd (jsTimes h 60) m)"

text \<open>
  \<open>formatTime\<close>, for the minute counts it is applied to in what the model keeps: whole
  and not negative.
\<close>

definition formatTime :: "nat \<Rightarrow> string" where
  "formatTime minutes = pad2 ((minutes div 60) mod 24) @ '':'' @ pad2 (minutes mod 60)"

definition SGT_OFFSET_MINUTES :: int where
  "SGT_OFFSET_MINUTES = 8 * 60"

text \<open>\<open>getUTCHours() * 60 + getUTCMinutes()\<close> of an instant given in epoch milliseconds.\<close>

definition utcMinutesOfDay :: "int \<Rightarrow> int" where
  "utcMinutesOfDay ms = ((ms div 3600000) mod 24) * 60 + (ms div 60000) mod 60"

text \<open>The time of an unparsable timestamp is the text \<open>NaN:NaN\<close>.\<close>

definition extractTimeFromISO :: "datetime \<Rightarrow> string" where
  "extractTimeFromISO isoString =
     (case isoString of
        None \<Rightarrow> ''NaN:NaN''
      | Some ms \<Rightarrow> formatTime (nat ((utcMinutesOfDay ms + SGT_OFFSET_MINUTES) mod (24 * 60))))"

text \<open>
  The \<open>date\<close> argument is \<open>YYYY-MM-DD\<close> or a full ISO string. \<open>DateOnly d\<close> carries the
  instant of \<open>YYYY-MM-DDT00:00:00Z\<close>; \<open>IsoDateTime d t\<close> carries that instant for the part
  before \<open>T\<close> and the instant \<open>t\<close> the whole string denotes.
\<close>

datatype DateArg = DateOnly int | IsoDateTime int int

fun datePart :: "DateArg \<Rightarrow> int" where
  "datePart (DateOnly d) = d"
| "datePart (IsoDateTime d t) = d"

fun itineraryDate :: "DateArg \<Rightarrow> datetime" where
  "itineraryDate (DateOnly d) = Some d"
| "itineraryDate (IsoDateTime d t) = Some t"

text \<open>
  \<open>buildDatetime\<close> prints \<open><date>T<HH>:<MM>:00.000Z\<close> after moving the Singapore time to
  UTC; the model gives the instant that string denotes, \<open>None\<close> when it denotes none. A
  negative UTC minute count wraps to the previous day. The two fields are two digits each
  and name a time of day only when the minute count is whole, not negative and at most
  \<open>24 * 60\<close> (\<open>T24:00\<close> is the end of the day).
\<close>

definition isWhole :: "rat \<Rightarrow> bool" where
  "isWhole r = (of_int \<lfloor>r\<rfloor> = r)"

definition buildDatetime :: "DateArg \<Rightarrow> string \<Rightarrow> datetime" where
  "buildDatetime dateStr timeStr =
     (let sgtMinutes = parseTime timeStr;
          utcMinutes = jsSub sgtMinutes (Finite (of_int SGT_OFFSET_MINUTES))
      in if jsLess utcMinutes (Finite 0) then
           (case jsAdd utcMinutes (Finite (24 * 60)) of
              Finite wrapped \<Rightarrow>
                if isWhole wrapped \<and> 0 \<le> wrapped
                then Some (datePart dateStr - 86400000 + \<lfloor>wrapped\<rfloor> * 60000)
                else None
            | _ \<Rightarrow> None)
         else
           (case utcMinutes of
              Finite minutes \<Rightarrow>
                if isWhole minutes \<and> minutes \<le> 24 * 60
                then Some (datePart dateStr + \<lfloor>minutes\<rfloor> * 60000)
                else None
            | _ \<Rightarrow> None))"

definition MAX_ITINERARY_ITEMS :: nat where
  "MAX_ITINERARY_ITEMS = 4"

definition HARD_END_CUTOFF_MINUTES :: rat where
  "HARD_END_CUTOFF_MINUTES = 23 * 60"

definition MAX_GAP_MINUTES :: rat where
  "MAX_GAP_MINUTES = 45"

definition MAX_PLAN_SPAN_HOURS :: rat where
  "MAX_PLAN_SPAN_HOURS = 8"

record LLMLocation =
  lloc_name :: string
  lloc_address :: string
  lloc_area :: "string option"

datatype LLMTravelMode = llm_walk | llm_mrt | llm_taxi | llm_bus | llm_none

record TravelFromPrevious =
  travel_durationMinutes :: rat
  travel_mode :: LLMTravelMode
  travel_description :: string

record LLMPlanItem =
  item_name :: string
  item_description :: string
  item_category :: string
  isMainEvent :: bool
  startTime :: string
  endTime :: string
  durationMinutes :: rat
  item_location :: LLMLocation
  estimatedCostPerPerson :: rat
  priceCategory :: string
  travelFromPrevious :: "TravelFromPrevious option"
  vibeNotes :: "string option"
  item_bookingRequired :: bool
  item_sourceUrl :: "string option"

record LLMPlan =
  itineraryName :: string
  plan_items :: "LLMPlanItem list"
  totalEstimatedCostPerPerson :: rat
  budgetStatus :: string
  budgetNotes :: "string option"
  overallVibe :: "string option"
  practicalTips :: "string list option"
  weatherConsideration :: "string option"

text \<open>
  The constraints of \<open>LLMPlanSchema\<close> that the record types do not already express: the
  lower bounds of the numbers and the two enumerations kept as strings. \<open>parseLLMPlan\<close>
  gets \<open>None\<close> for a raw plan that is not of the shape of the schema; it returns \<open>None\<close>
  where the source throws.
\<close>

definition validItem :: "LLMPlanItem \<Rightarrow> bool" where
  "validItem i =
     (durationMinutes i \<ge> 0 \<and> estimatedCostPerPerson i \<ge> 0 \<and>
      priceCategory i \<in> set [''free'', ''budget'', ''moderate'', ''premium'', ''luxury''] \<and>
      (case travelFromPrevious i of None \<Rightarrow> True | Some t \<Rightarrow> travel_durationMinutes t \<ge> 0))"

definition validPlan :: "LLMPlan \<Rightarrow> bool" where
  "validPlan p =
     (plan_items p \<noteq> [] \<and> list_all validItem (plan_items p) \<and> totalEstimatedCostPerPerson p \<ge> 0
      \<and> budgetStatus p \<in> set [''within_budget'', ''slightly_over'', ''over_budget''])"

definition parseLLMPlan :: "LLMPlan option \<Rightarrow> LLMPlan option" where
  "parseLLMPlan rawPlan =
     (case rawPlan of
        None \<Rightarrow> None
      | Some p \<Rightarrow> if validPlan p then Some p else None)"

record RankedEvent =
  rk_event :: Event
  score :: rat
  reasoning :: "string option"

datatype TravelMode = tm_walk | tm_public_transport | tm_taxi | tm_drive

fun mapTravelMode :: "LLMTravelMode \<Rightarrow> TravelMode option" where
  "mapTravelMode llm_walk = Some tm_walk"
| "mapTravelMode llm_mrt = Some tm_public_transport"
| "mapTravelMode llm_bus = Some tm_public_transport"
| "mapTravelMode llm_taxi = Some tm_taxi"
| "mapTravelMode llm_none = None"

text \<open>
  Identifiers \<open>item-<index>-<now>\<close> and \<open>item-fallback-<index>-<now>\<close>; the parts of the
  joined \<open>notes\<close> text; the warnings, one constructor for each message template with the
  values it interpolates (a minute count where the message prints \<open>formatTime\<close> of it), and
  \<open>Message\<close> for a fixed text.
\<close>

datatype ItemId = ItemIndexed nat nat | ItemFallback nat nat

datatype NotePart =
    VibeNote string
  | GettingThere string
  | PriceTier string
  | RankedNote nat rat
  | FallbackNote nat string

datatype Warning =
    Message string
  | ItemCapWarning nat
  | UnmatchedMainEvent string
  | TimeCorrection string string string string string
  | TimeOverlap "string option" JsNumber string string
  | TightTransition JsNumber "string option" string rat
  | ExcessiveGap JsNumber "string option" JsNumber string string
  | Dropped string string
  | MainPastCutoff string string
  | PlanSpanTooLong rat
  | BudgetOverrun rat rat
  | SlightlyOverBudget rat rat
  | ToolFailed string

record ItineraryItem =
  it_id :: ItemId
  it_event :: Event
  scheduledTime :: TimeSlot
  travelTimeFromPrevious :: "rat option"
  travelMode :: "TravelMode option"
  it_status :: string
  it_notes :: "NotePart list"

datatype ItineraryStatus = draft | approved | rejected

record Itinerary =
  itin_id :: nat
  itin_name :: string
  itin_date :: datetime
  it_items :: "ItineraryItem list"
  totalCost :: rat
  totalDuration :: rat
  itin_status :: ItineraryStatus
  createdAt :: nat
  updatedAt :: nat

record PlanMetadata =
  meta_itineraryName :: string
  meta_overallVibe :: "string option"
  meta_practicalTips :: "string list option"
  meta_weatherConsideration :: "string option"
  meta_budgetStatus :: string
  meta_budgetNotes :: "string option"
  meta_totalEstimatedCostPerPerson :: rat
  itemCount :: nat
  mainEventCount :: nat
  generatedActivityCount :: nat

record PlanOutput =
  out_itinerary :: Itinerary
  out_planMetadata :: PlanMetadata
  out_warnings :: "Warning list"

section \<open>Itinerary scheduler: matching\<close>

definition hexDigit :: "nat \<Rightarrow> char" where
  "hexDigit n = ''0123456789ABCDEF'' ! n"

definition isUnreserved :: "char \<Rightarrow> bool" where
  "isUnreserved c =
     (c \<in> set (''ABCDEFGHIJKLMNOPQRSTUVWXYZabcdefghijklmnopqrstuvwxyz0123456789-_.!~*()''
               @ [CHR 0x27]))"

definition encodeURIComponent :: "string \<Rightarrow> string" where
  "encodeURIComponent s =
     concat (map (\<lambda>c. if isUnreserved c then [c]
                       else [CHR ''%'', hexDigit (of_char c div 16), hexDigit (of_char c mod 16)]) s)"

text \<open>
  A JavaScript \<open>Map\<close> with string keys: an association list in insertion order; \<open>set\<close> on
  a key that is present replaces the value in place.
\<close>

fun mapSet :: "(string \<times> 'v) list \<Rightarrow> string \<Rightarrow> 'v \<Rightarrow> (string \<times> 'v) list" where
  "mapSet [] k v = [(k, v)]"
| "mapSet ((k', v') # m) k v = (if k' = k then (k, v) # m else (k', v') # mapSet m k v)"

definition buildEventsByName :: "RankedEvent list \<Rightarrow> (string \<times> RankedEvent) list" where
  "buildEventsByName rankedEvents =
     foldl (\<lambda>m r. mapSet m (trim (toLowerCase (name (rk_event r)))) r) [] rankedEvents"

text \<open>\<open>normalize\<close> of the scheduler: the same expression as \<open>normalizeText\<close>.\<close>

definition normalize :: "string \<Rightarrow> string" where
  "normalize s =
     trim (collapseSpaces (filter (\<lambda>c. isLowerAlnum c \<or> isSpace c) (toLowerCase s)))"

text \<open>\<open>new Set(norm.split(' ').filter(w => w.length > 2))\<close>, as a list without repetition.\<close>

definition significantWords :: "string \<Rightarrow> string list" where
  "significantWords normStr = remdups (filter (\<lambda>w. length w > 2) (split (CHR '' '') normStr))"

text \<open>
  Strategy 4 of \<open>fuzzyMatchEvent\<close>: the loop over the map with \<open>bestMatch\<close> and
  \<open>bestOverlap\<close>. The ratio is a quotient of two small naturals, for which the comparison
  with the double 0.6 agrees with the comparison of the exact quotient with 3/5.
\<close>

fun bestWordOverlap ::
  "string list \<Rightarrow> (string \<times> RankedEvent) list \<Rightarrow> RankedEvent option \<Rightarrow> nat \<Rightarrow> RankedEvent option" where
  "bestWordOverlap llmWords [] bestMatch bestOverlap = bestMatch"
| "bestWordOverlap llmWords ((key, val) # rest) bestMatch bestOverlap =
     (let keyWords = significantWords (normalize key);
          overlap = length (filter (\<lambda>w. w \<in> set keyWords) llmWords);
          overlapRatio =
            (of_nat overlap :: rat) / of_nat (max (max (length llmWords) (length keyWords)) 1)
      in if overlapRatio \<ge> 3 / 5 \<and> overlap > bestOverlap
         then bestWordOverlap llmWords rest (Some val) overlap
         else bestWordOverlap llmWords rest bestMatch bestOverlap)"

definition fuzzyMatchEvent :: "string \<Rightarrow> (string \<times> RankedEvent) list \<Rightarrow> RankedEvent option" where
  "fuzzyMatchEvent llmName eventsByName =
     (let llmNorm = normalize llmName in
      case map_of eventsByName (trim (toLowerCase llmName)) of
        Some exact \<Rightarrow> Some exact
      | None \<Rightarrow>
          (case find (\<lambda>(key, val). normalize key = llmNorm) eventsByName of
             Some (key, val) \<Rightarrow> Some val
           | None \<Rightarrow>
               (case find (\<lambda>(key, val). strIncludes llmNorm (normalize key)
                                       \<or> strIncludes (normalize key) llmNorm) eventsByName of
                  Some (key, val) \<Rightarrow> Some val
                | None \<Rightarrow> bestWordOverlap (significantWords llmNorm) eventsByName None 0)))"

section \<open>Itinerary scheduler: fallback and item cap\<close>

text \<open>
  Readings of the clock (\<open>Date.now()\<close>, \<open>new Date()\<close>) are arguments. In the messages a
  dash outside ASCII is written \<open>-\<close>.
\<close>

definition buildFallbackItinerary ::
  "RankedEvent list \<Rightarrow> DateArg \<Rightarrow> nat \<Rightarrow> nat \<Rightarrow> nat \<Rightarrow> PlanOutput" where
  "buildFallbackItinerary rankedEvents date now itemNow idNow =
     (let fallbackItems =
            map (\<lambda>(i, r).
                   \<lparr>it_id = ItemFallback i itemNow,
                    it_event = rk_event r,
                    scheduledTime = timeSlot (rk_event r),
                    travelTimeFromPrevious = None,
                    travelMode = None,
                    it_status = ''planned'',
                    it_notes = [FallbackNote (i + 1)
                                  (case reasoning r of None \<Rightarrow> [] | Some t \<Rightarrow> t)]\<rparr>)
                (enumerate 0 (take 1 rankedEvents))
      in \<lparr>out_itinerary =
            \<lparr>itin_id = idNow,
             itin_name = ''Your Plan (simplified)'',
             itin_date = itineraryDate date,
             it_items = fallbackItems,
             totalCost =
               foldl (\<lambda>sum r. sum + (case price (rk_event r) of None \<Rightarrow> 0 | Some p \<Rightarrow> price_max p))
                 0 (take 1 rankedEvents),
             totalDuration = 0,
             itin_status = draft,
             createdAt = now,
             updatedAt = now\<rparr>,
          out_planMetadata =
            \<lparr>meta_itineraryName = ''Simplified Plan'',
             meta_overallVibe = None,
             meta_practicalTips = None,
             meta_weatherConsideration = None,
             meta_budgetStatus = ''within_budget'',
             meta_budgetNotes = Some ''LLM plan validation failed - showing ranked events only'',
             meta_totalEstimatedCostPerPerson = 0,
             itemCount = length fallbackItems,
             mainEventCount = length fallbackItems,
             generatedActivityCount = 0\<rparr>,
          out_warnings = [Message ''LLM plan validation failed - showing top ranked events as fallback'']\<rparr>)"

text \<open>
  \<open>applyItemCap\<close>. The sort is by \<open>parseTime\<close> of the start time. The warnings array is
  passed and returned.
\<close>

definition applyItemCap ::
  "(JsNumber list \<Rightarrow> nat list) \<Rightarrow> LLMPlan \<Rightarrow> Warning list \<Rightarrow> LLMPlan \<times> Warning list" where
  "applyItemCap engine plan warnings =
     (if length (plan_items plan) \<le> MAX_ITINERARY_ITEMS then (plan, warnings)
      else
        (let warnings' = warnings @ [ItemCapWarning (length (plan_items plan))];
             mainItems = filter (\<lambda>i. isMainEvent i) (plan_items plan);
             complementaryItems = filter (\<lambda>i. \<not> isMainEvent i) (plan_items plan);
             remainingSlots = int MAX_ITINERARY_ITEMS - int (length mainItems);
             trimmedItems = mainItems @ take (nat (max 0 remainingSlots)) complementaryItems
         in (plan\<lparr>plan_items := sortByKey engine (\<lambda>i. parseTime (startTime i)) trimmedItems\<rparr>,
             warnings')))"

section \<open>Itinerary scheduler: item conversion\<close>

text \<open>The event synthesised for an item without a matched real event.\<close>

definition generatedEvent :: "LLMPlanItem \<Rightarrow> nat \<Rightarrow> nat \<Rightarrow> datetime \<Rightarrow> datetime \<Rightarrow> Event" where
  "generatedEvent item index now startDatetime endDatetime =
     \<lparr>event_id = ''generated-'' @ showNat index @ ''-'' @ showNat now,
      name = item_name item,
      description = item_description item,
      category = item_category item,
      location =
        \<lparr>loc_name = lloc_name (item_location item),
         loc_address = lloc_address (item_location item),
         lat = 13521 / 10000, lng = 1038198 / 10000\<rparr>,
      timeSlot = \<lparr>slot_start = startDatetime, slot_end = endDatetime\<rparr>,
      price = Some \<lparr>price_min = estimatedCostPerPerson item,
                     price_max = estimatedCostPerPerson item, currency = ''SGD''\<rparr>,
      rating = None,
      sourceUrl =
        (case item_sourceUrl item of
           Some u \<Rightarrow> Some u
         | None \<Rightarrow>
             Some (''https://www.google.com/search?q=''
                   @ encodeURIComponent (item_name item @ '' Singapore''))),
      source = (if isMainEvent item then ''discovered'' else ''planned''),
      imageUrl = None,
      reviewCount = None,
      availability = unknown,
      bookingRequired = item_bookingRequired item\<rparr>"

text \<open>\<open>rankedEvents.indexOf(matchedReal) + 1\<close>, with equality of values for identity.\<close>

fun indexOfPlus1 :: "'a list \<Rightarrow> 'a \<Rightarrow> nat" where
  "indexOfPlus1 [] x = 0"
| "indexOfPlus1 (y # ys) x =
     (if y = x then 1 else (case indexOfPlus1 ys x of 0 \<Rightarrow> 0 | Suc k \<Rightarrow> Suc (Suc k)))"

text \<open>
  The block of \<open>convertLLMItemToItineraryItem\<close> that checks the gap to the previous
  item. \<open>prevEndMinutes\<close> is \<open>None\<close> for \<open>null\<close>.
\<close>

definition gapWarnings ::
  "LLMPlanItem \<Rightarrow> string \<Rightarrow> JsNumber option \<Rightarrow> string option \<Rightarrow> rat \<Rightarrow> Warning list" where
  "gapWarnings item actualStartTime prevEndMinutes prevItemName travelMinutes =
     (let startMinutes = parseTime actualStartTime in
      case prevEndMinutes of
        None \<Rightarrow> []
      | Some prevEnd \<Rightarrow>
          (let gap = jsSub startMinutes prevEnd in
           if jsLess gap (Finite 0) then
             [TimeOverlap prevItemName prevEnd (item_name item) actualStartTime]
           else if jsLess gap (Finite 5) \<and> travelMinutes > 0 then
             [TightTransition gap prevItemName (item_name item) travelMinutes]
           else if jsGreater gap (Finite MAX_GAP_MINUTES) then
             [ExcessiveGap gap prevItemName prevEnd (item_name item) actualStartTime]
           else []))"

definition noteParts :: "LLMPlanItem \<Rightarrow> RankedEvent option \<Rightarrow> RankedEvent list \<Rightarrow> NotePart list" where
  "noteParts item matchedReal rankedEvents =
     (if truthy (vibeNotes item) then [VibeNote (the (vibeNotes item))] else []) @
     (case travelFromPrevious item of
        None \<Rightarrow> []
      | Some t \<Rightarrow> if travel_description t \<noteq> [] then [GettingThere (travel_description t)] else []) @
     (if priceCategory item \<noteq> [] then [PriceTier (priceCategory item)] else []) @
     (case matchedReal of
        None \<Rightarrow> []
      | Some m \<Rightarrow> [RankedNote (indexOfPlus1 rankedEvents m) (score m)])"

text \<open>
  \<open>convertLLMItemToItineraryItem\<close>. The result \<open>None\<close> is the \<open>null\<close> of a dropped item;
  the second component is the warnings array after the call. \<open>clock\<close> holds the two
  readings of \<open>Date.now()\<close> (for the item id and for the id of a generated event).
  \<open>forced\<close> is the time slot of the real event when \<open>matchedReal && item.isMainEvent\<close>
  holds.
\<close>

definition convertLLMItemToItineraryItem ::
  "LLMPlanItem \<Rightarrow> nat \<Rightarrow> RankedEvent option \<Rightarrow> DateArg \<Rightarrow> RankedEvent list \<Rightarrow>
   JsNumber option \<Rightarrow> string option \<Rightarrow> nat \<times> nat \<Rightarrow> Warning list \<Rightarrow>
   (ItineraryItem \<times> JsNumber) option \<times> Warning list" where
  "convertLLMItemToItineraryItem item index matchedReal date rankedEvents
     prevEndMinutes prevItemName clock warnings =
     (let itemId = ItemIndexed index (fst clock);
          forced =
            (case matchedReal of
               Some m \<Rightarrow> if isMainEvent item then Some (timeSlot (rk_event m)) else None
             | None \<Rightarrow> None);
          warnings1 =
            (case forced of
               Some realSlot \<Rightarrow>
                 (let realStartHHMM = extractTimeFromISO (slot_start realSlot);
                      realEndHHMM = extractTimeFromISO (slot_end realSlot)
                  in if startTime item \<noteq> realStartHHMM \<or> endTime item \<noteq> realEndHHMM
                     then warnings @ [TimeCorrection (item_name item) (startTime item) (endTime item)
                                        realStartHHMM realEndHHMM]
                     else warnings)
             | None \<Rightarrow> warnings);
          startDatetime =
            (case forced of
               Some realSlot \<Rightarrow> slot_start realSlot
             | None \<Rightarrow> buildDatetime date (startTime item));
          endDatetime =
            (case forced of
               Some realSlot \<Rightarrow> slot_end realSlot
             | None \<Rightarrow> buildDatetime date (endTime item));
          event =
            (case matchedReal of
               Some m \<Rightarrow> rk_event m
             | None \<Rightarrow> generatedEvent item index (snd clock) startDatetime endDatetime);
          travelMinutes =
            (case travelFromPrevious item of None \<Rightarrow> 0 | Some t \<Rightarrow> travel_durationMinutes t);
          travelMode' =
            (case travelFromPrevious item of None \<Rightarrow> None | Some t \<Rightarrow> mapTravelMode (travel_mode t));
          actualStartTime =
            (case forced of
               Some realSlot \<Rightarrow> extractTimeFromISO startDatetime
             | None \<Rightarrow> startTime item);
          actualEndTime =
            (case forced of
               Some realSlot \<Rightarrow> extractTimeFromISO endDatetime
             | None \<Rightarrow> endTime item);
          warnings2 =
            warnings1 @ gapWarnings item actualStartTime prevEndMinutes prevItemName travelMinutes;
          endMinutes = parseTime actualEndTime
      in if jsGreater endMinutes (Finite HARD_END_CUTOFF_MINUTES) \<and> \<not> isMainEvent item then
           (None, warnings2 @ [Dropped (item_name item) actualEndTime])
         else
           (Some
              (\<lparr>it_id = itemId,
                it_event = event,
                scheduledTime = \<lparr>slot_start = startDatetime, slot_end = endDatetime\<rparr>,
                travelTimeFromPrevious = (if travelMinutes > 0 then Some travelMinutes else None),
                travelMode = travelMode',
                it_status = ''planned'',
                it_notes = noteParts item matchedReal rankedEvents\<rparr>,
               endMinutes),
            if jsGreater endMinutes (Finite HARD_END_CUTOFF_MINUTES) \<and> isMainEvent item
            then warnings2 @ [MainPastCutoff (item_name item) actualEndTime]
            else warnings2))"

section \<open>Itinerary scheduler: validation and the tool\<close>

text \<open>
  \<open>validateTimeSequencing\<close> sorts by \<open>new Date(start).getTime()\<close>, which is NaN for a
  start that is no timestamp, and hands back the sorted array with the warnings.
\<close>

definition getTime :: "datetime \<Rightarrow> JsNumber" where
  "getTime d = (case d of None \<Rightarrow> NaN | Some ms \<Rightarrow> Finite (of_int ms))"

definition validateTimeSequencing ::
  "(JsNumber list \<Rightarrow> nat list) \<Rightarrow> ItineraryItem list \<Rightarrow> Warning list
     \<Rightarrow> ItineraryItem list \<times> Warning list" where
  "validateTimeSequencing engine its warnings =
     (let sorted_items = sortByKey engine (\<lambda>it. getTime (slot_start (scheduledTime it))) its in
      if length sorted_items < 2 then (sorted_items, warnings)
      else
        (case (slot_start (scheduledTime (hd sorted_items)),
               slot_end (scheduledTime (last sorted_items))) of
           (Some firstStart, Some lastEnd) \<Rightarrow>
             (let totalSpanHours = (of_int (lastEnd - firstStart) :: rat) / (1000 * 60 * 60) in
              if totalSpanHours > MAX_PLAN_SPAN_HOURS
              then (sorted_items, warnings @ [PlanSpanTooLong totalSpanHours])
              else (sorted_items, warnings))
         | _ \<Rightarrow> (sorted_items, warnings)))"

text \<open>Amounts of money are rationals; \<open>budgetMax * 1.2\<close> is \<open>budgetMax * 6 / 5\<close>.\<close>

definition validateBudget :: "rat \<Rightarrow> rat option \<Rightarrow> Warning list \<Rightarrow> Warning list" where
  "validateBudget totalCostPerPerson budgetMax warnings =
     (case budgetMax of
        None \<Rightarrow> warnings
      | Some b \<Rightarrow>
          if totalCostPerPerson > b * (6 / 5) then warnings @ [BudgetOverrun totalCostPerPerson b]
          else if totalCostPerPerson > b then warnings @ [SlightlyOverBudget totalCostPerPerson b]
          else warnings)"

text \<open>The state of the loop of step 3 of the tool.\<close>

record LoopState =
  ls_items :: "ItineraryItem list"
  ls_totalCostPerPerson :: rat
  ls_totalDurationMinutes :: rat
  ls_prevEndMinutes :: "JsNumber option"
  ls_warnings :: "Warning list"

definition loopBody ::
  "(string \<times> RankedEvent) list \<Rightarrow> RankedEvent list \<Rightarrow> DateArg \<Rightarrow> (nat \<Rightarrow> nat \<times> nat) \<Rightarrow>
   LLMPlanItem list \<Rightarrow> nat \<Rightarrow> LLMPlanItem \<Rightarrow> LoopState \<Rightarrow> LoopState" where
  "loopBody eventsByName rankedEvents date clock allItems i item st =
     (let matchedReal =
            (if isMainEvent item then fuzzyMatchEvent (item_name item) eventsByName else None);
          warnings1 =
            (if isMainEvent item \<and> matchedReal = None
             then ls_warnings st @ [UnmatchedMainEvent (item_name item)]
             else ls_warnings st);
          prevItemName = (if i = 0 then None else Some (item_name (allItems ! (i - 1))))
      in case convertLLMItemToItineraryItem item i matchedReal date rankedEvents
                (ls_prevEndMinutes st) prevItemName (clock i) warnings1 of
           (None, warnings2) \<Rightarrow> st\<lparr>ls_warnings := warnings2\<rparr>
         | (Some (itineraryItem, endMinutes), warnings2) \<Rightarrow>
             \<lparr>ls_items = ls_items st @ [itineraryItem],
              ls_totalCostPerPerson = ls_totalCostPerPerson st + estimatedCostPerPerson item,
              ls_totalDurationMinutes =
                ls_totalDurationMinutes st + durationMinutes item +
                (case travelFromPrevious item of None \<Rightarrow> 0 | Some t \<Rightarrow> travel_durationMinutes t),
              ls_prevEndMinutes = Some endMinutes,
              ls_warnings = warnings2\<rparr>)"

fun convertLoop ::
  "(string \<times> RankedEvent) list \<Rightarrow> RankedEvent list \<Rightarrow> DateArg \<Rightarrow> (nat \<Rightarrow> nat \<times> nat) \<Rightarrow>
   LLMPlanItem list \<Rightarrow> nat \<Rightarrow> LLMPlanItem list \<Rightarrow> LoopState \<Rightarrow> LoopState" where
  "convertLoop eventsByName rankedEvents date clock allItems i [] st = st"
| "convertLoop eventsByName rankedEvents date clock allItems i (item # rest) st =
     convertLoop eventsByName rankedEvents date clock allItems (Suc i) rest
       (loopBody eventsByName rankedEvents date clock allItems i item st)"

text \<open>
  \<open>planItineraryTool.execute\<close>. \<open>engine\<close> is the array sort of the engine, \<open>clock i\<close> are
  the two readings of \<open>Date.now()\<close> while item \<open>i\<close> is converted, \<open>now\<close> is the \<open>new Date()\<close>
  at the start and \<open>idNow\<close> the reading for the itinerary id.
\<close>

definition planItineraryTool ::
  "(JsNumber list \<Rightarrow> nat list) \<Rightarrow> LLMPlan option \<Rightarrow> RankedEvent list \<Rightarrow> DateArg \<Rightarrow> rat option \<Rightarrow> rat \<Rightarrow>
   (nat \<Rightarrow> nat \<times> nat) \<Rightarrow> nat \<Rightarrow> nat \<Rightarrow> PlanOutput" where
  "planItineraryTool engine rawPlan rankedEvents date budgetMax partySize clock now idNow =
     (case parseLLMPlan rawPlan of
        None \<Rightarrow> buildFallbackItinerary rankedEvents date now (fst (clock 0)) idNow
      | Some parsed \<Rightarrow>
          (let eventsByName = buildEventsByName rankedEvents;
               capped = applyItemCap engine parsed [];
               plan = fst capped;
               st = convertLoop eventsByName rankedEvents date clock (plan_items plan) 0
                      (plan_items plan)
                      \<lparr>ls_items = [], ls_totalCostPerPerson = 0, ls_totalDurationMinutes = 0,
                       ls_prevEndMinutes = None, ls_warnings = snd capped\<rparr>;
               sequenced = validateTimeSequencing engine (ls_items st) (ls_warnings st);
               itineraryItems = fst sequenced;
               warnings = validateBudget (ls_totalCostPerPerson st) budgetMax (snd sequenced);
               mainCount = length (filter (\<lambda>it. source (it_event it) \<noteq> ''planned'') itineraryItems);
               generatedCount = length itineraryItems - mainCount
           in \<lparr>out_itinerary =
                 \<lparr>itin_id = idNow,
                  itin_name = itineraryName plan,
                  itin_date = itineraryDate date,
                  it_items = itineraryItems,
                  totalCost = ls_totalCostPerPerson st * partySize,
                  totalDuration = ls_totalDurationMinutes st,
                  itin_status = draft,
                  createdAt = now,
                  updatedAt = now\<rparr>,
               out_planMetadata =
                 \<lparr>meta_itineraryName = itineraryName plan,
                  meta_overallVibe = overallVibe plan,
                  meta_practicalTips = practicalTips plan,
                  meta_weatherConsideration = weatherConsideration plan,
                  meta_budgetStatus = budgetStatus plan,
                  meta_budgetNotes = budgetNotes plan,
                  meta_totalEstimatedCostPerPerson = ls_totalCostPerPerson st,
                  itemCount = length itineraryItems,
                  mainEventCount = mainCount,
                  generatedActivityCount = generatedCount\<rparr>,
               out_warnings = warnings\<rparr>))"

section \<open>Sample draft plans\<close>

definition sampleItem :: "string \<Rightarrow> bool \<Rightarrow> string \<Rightarrow> string \<Rightarrow> LLMPlanItem" where
  "sampleItem n main st en =
     \<lparr>item_name = n, item_description = [], item_category = ''other'', isMainEvent = main,
      startTime = st, endTime = en, durationMinutes = 60,
      item_location = \<lparr>lloc_name = ''Somewhere'', lloc_address = ''Singapore'', lloc_area = None\<rparr>,
      estimatedCostPerPerson = 10, priceCategory = ''moderate'', travelFromPrevious = None,
      vibeNotes = None, item_bookingRequired = False, item_sourceUrl = None\<rparr>"

definition samplePlan :: "LLMPlanItem list \<Rightarrow> LLMPlan" where
  "samplePlan its =
     \<lparr>itineraryName = ''Day out'', plan_items = its, totalEstimatedCostPerPerson = 0,
      budgetStatus = ''within_budget'', budgetNotes = None, overallVibe = None,
      practicalTips = None, weatherConsideration = None\<rparr>"

text \<open>The ranked list of the samples: the HallyuCon event, 12:00 to 20:00 Singapore time.\<close>

definition sampleRanked :: "RankedEvent list" where
  "sampleRanked = [\<lparr>rk_event = hallyuConEvent, score = 9 / 10, reasoning = None\<rparr>]"

text \<open>7 March 2026.\<close>

definition sampleDate :: DateArg where
  "sampleDate = DateOnly 1772841600000"

definition sampleClock :: "nat \<Rightarrow> nat \<times> nat" where
  "sampleClock i = (1000 + i, 1000 + i)"

text \<open>A draft of five items, every one flagged as a main event.\<close>

definition fiveMainPlan :: LLMPlan where
  "fiveMainPlan =
     samplePlan
       [sampleItem ''HallyuCon Mar 26'' True ''12:00'' ''20:00'',
        sampleItem ''Alpha'' True ''09:00'' ''10:00'',
        sampleItem ''Bravo'' True ''10:00'' ''11:00'',
        sampleItem ''Charlie'' True ''20:30'' ''21:30'',
        sampleItem ''Delta'' True ''21:30'' ''22:30'']"

text \<open>
  A draft of six items, two main and four complementary; the main event is proposed at
  13:00 to 19:00, one complementary item ends at 23:30.
\<close>

definition sixItemPlan :: LLMPlan where
  "sixItemPlan =
     samplePlan
       [sampleItem ''Brunch'' False ''10:00'' ''11:00'',
        sampleItem ''HallyuCon Mar 26'' True ''13:00'' ''19:00'',
        sampleItem ''Late drinks'' False ''22:00'' ''23:30'',
        sampleItem ''Night show'' True ''22:30'' ''23:45'',
        sampleItem ''Coffee'' False ''11:15'' ''11:45'',
        sampleItem ''Walk'' False ''20:15'' ''21:00'']"

text \<open>
  The main item of \<open>sixItemPlan\<close> and the ranked event it matches; a real event from 20:00
  to 00:30 of the next day (Singapore time) and a draft of that one main event.
\<close>

definition sampleMainItem :: LLMPlanItem where
  "sampleMainItem = sampleItem ''HallyuCon Mar 26'' True ''13:00'' ''19:00''"

definition sampleMatch :: RankedEvent where
  "sampleMatch = \<lparr>rk_event = hallyuConEvent, score = 9 / 10, reasoning = None\<rparr>"

definition lateNightRanked :: "RankedEvent list" where
  "lateNightRanked =
     [\<lparr>rk_event = hallyuConEvent\<lparr>timeSlot :=
          \<lparr>slot_start = Some 1772884800000, slot_end = Some 1772901000000\<rparr>\<rparr>,
       score = 9 / 10, reasoning = None\<rparr>]"

definition lateNightPlan :: LLMPlan where
  "lateNightPlan = samplePlan [sampleItem ''HallyuCon Mar 26'' True ''20:00'' ''00:30'']"

text \<open>
  8 March 2026, and a draft of the one main event at the hours the real event has on
  7 March; a draft with a complementary item whose end is written with a suffix.
\<close>

definition nextDay :: DateArg where
  "nextDay = DateOnly 1772928000000"

definition otherDayPlan :: LLMPlan where
  "otherDayPlan = samplePlan [sampleItem ''HallyuCon Mar 26'' True ''12:00'' ''20:00'']"

definition suffixPlan :: LLMPlan where
  "suffixPlan = samplePlan [sampleItem ''Supper'' False ''22:00'' ''11:30 PM'']"

section \<open>Discovery HTTP layer: retry wrapper\<close>

definition MAX_RETRIES :: nat where
  "MAX_RETRIES = 3"

definition BASE_DELAY_MS :: int where
  "BASE_DELAY_MS = 1100"

text \<open>
  A thrown value is an \<open>Error\<close> object with its message, or some other value with its
  \<open>String(...)\<close> text. A response has its status, the \<open>Retry-After\<close> header (\<open>None\<close> for
  \<open>null\<close>) and the outcome of reading its body with \<open>response.text()\<close>. One call of
  \<open>fetch\<close> answers with a response or throws.
\<close>

datatype Thrown = ErrorObject string | OtherValue string

record Response =
  resp_status :: nat
  resp_retryAfter :: "string option"
  resp_text :: "Thrown + string"

datatype FetchOutcome = Responded Response | Threw Thrown

definition resp_ok :: "Response \<Rightarrow> bool" where
  "resp_ok r = (200 \<le> resp_status r \<and> resp_status r \<le> 299)"

text \<open>
  \<open>parseInt(s, 10)\<close>: white space is skipped, a sign is read, then the longest run of
  digits; \<open>None\<close> is NaN.
\<close>

definition digitValue :: "char \<Rightarrow> int" where
  "digitValue c = int (of_char c) - 48"

definition parseDigits :: "string \<Rightarrow> int option" where
  "parseDigits s =
     (case takeWhile isDigit s of
        [] \<Rightarrow> None
      | ds \<Rightarrow> Some (foldl (\<lambda>acc c. acc * 10 + digitValue c) 0 ds))"

definition parseInt10 :: "string \<Rightarrow> int option" where
  "parseInt10 s =
     (case dropWhile isSpace s of
        [] \<Rightarrow> None
      | c # cs \<Rightarrow>
          if c = CHR ''-'' then map_option uminus (parseDigits cs)
          else if c = CHR ''+'' then parseDigits cs
          else parseDigits (c # cs))"

definition backoff :: "nat \<Rightarrow> int" where
  "backoff attempt = BASE_DELAY_MS * 2 ^ attempt"

text \<open>
  What one iteration of the loop of \<open>fetchWithRetry\<close> does with the outcome of its call of
  \<open>fetch\<close>: return the response, throw, or go on to the next iteration, after a sleep
  (\<open>Some ms\<close>, with \<open>ms = None\<close> for NaN) or without one, and with \<open>lastError\<close> set or
  left as it is.
\<close>

datatype Step =
    Return Response
  | Throw Thrown
  | Continue "int option option" "Thrown option"

text \<open>The \<open>catch\<close> block.\<close>

definition catchBlock :: "nat \<Rightarrow> nat \<Rightarrow> Thrown \<Rightarrow> Step" where
  "catchBlock attempt retries error =
     (case error of
        ErrorObject message \<Rightarrow>
          if startsWith message ''HTTP request failed'' then Throw error
          else Continue (if attempt < retries then Some (Some (backoff attempt)) else None)
                 (Some error)
      | OtherValue text \<Rightarrow>
          Continue (if attempt < retries then Some (Some (backoff attempt)) else None)
            (Some (ErrorObject text)))"

definition attemptBody :: "nat \<Rightarrow> nat \<Rightarrow> FetchOutcome \<Rightarrow> Step" where
  "attemptBody attempt retries outcome =
     (case outcome of
        Threw error \<Rightarrow> catchBlock attempt retries error
      | Responded response \<Rightarrow>
          if resp_ok response then Return response
          else if resp_status response = 429 then
            Continue
              (Some (if truthy (resp_retryAfter response)
                     then map_option (\<lambda>n. n * 1000) (parseInt10 (the (resp_retryAfter response)))
                     else Some (backoff attempt)))
              None
          else if resp_status response \<ge> 500 then Continue (Some (Some (backoff attempt))) None
          else
            (case resp_text response of
               Inl error \<Rightarrow> catchBlock attempt retries error
             | Inr errorText \<Rightarrow>
                 catchBlock attempt retries
                   (ErrorObject (''HTTP request failed ('' @ showNat (resp_status response)
                                 @ ''): '' @ errorText))))"

record FetchRun =
  run_result :: "Thrown + Response"
  run_calls :: nat
  run_sleeps :: "int option list"

text \<open>
  The loop \<open>for (attempt = 0; attempt <= retries; attempt++)\<close>; \<open>fetch k\<close> is the outcome
  of the call of \<open>fetch\<close> in iteration \<open>k\<close>. The result records how often \<open>fetch\<close> was
  called and the arguments of the calls of \<open>sleep\<close>, in order.
\<close>

function fetchLoop ::
  "(nat \<Rightarrow> FetchOutcome) \<Rightarrow> nat \<Rightarrow> nat \<Rightarrow> Thrown option \<Rightarrow> int option list \<Rightarrow> FetchRun" where
  "fetchLoop fetch retries attempt lastError sleeps =
     (if attempt \<le> retries then
        (case attemptBody attempt retries (fetch attempt) of
           Return response \<Rightarrow>
             \<lparr>run_result = Inr response, run_calls = Suc attempt, run_sleeps = sleeps\<rparr>
         | Throw error \<Rightarrow>
             \<lparr>run_result = Inl error, run_calls = Suc attempt, run_sleeps = sleeps\<rparr>
         | Continue slept failed \<Rightarrow>
             fetchLoop fetch retries (Suc attempt)
               (case failed of None \<Rightarrow> lastError | Some e \<Rightarrow> Some e)
               (case slept of None \<Rightarrow> sleeps | Some ms \<Rightarrow> sleeps @ [ms]))
      else
        \<lparr>run_result =
           Inl (case lastError of
                  Some e \<Rightarrow> e
                | None \<Rightarrow> ErrorObject ''HTTP request failed after retries''),
         run_calls = attempt, run_sleeps = sleeps\<rparr>)"
  by pat_completeness auto
termination
  by (relation "measure (\<lambda>(fetch, retries, attempt, lastError, sleeps). Suc retries - attempt)") auto

declare fetchLoop.simps [simp del]

definition fetchWithRetry :: "(nat \<Rightarrow> FetchOutcome) \<Rightarrow> nat \<Rightarrow> FetchRun" where
  "fetchWithRetry fetch retries = fetchLoop fetch retries 0 None []"

text \<open>
  Sample servers: one that always answers 503, and one that answers 429 with
  \<open>Retry-After: 2\<close> first and 404 afterwards.
\<close>

definition always503 :: "nat \<Rightarrow> FetchOutcome" where
  "always503 k = Responded \<lparr>resp_status = 503, resp_retryAfter = None, resp_text = Inr []\<rparr>"

definition limitedThenMissing :: "nat \<Rightarrow> FetchOutcome" where
  "limitedThenMissing k =
     (if k = 0 then Responded \<lparr>resp_status = 429, resp_retryAfter = Some ''2'', resp_text = Inr []\<rparr>
      else Responded \<lparr>resp_status = 404, resp_retryAfter = None, resp_text = Inr ''nope''\<rparr>)"

section \<open>Execution engine: one booking\<close>

datatype ActionType = check_availability | reserve | book | register | info_only

datatype BookingStatus =
    success | failed | skipped | bs_sold_out | waitlist | login_required | captcha_blocked
  | payment_required | custom_fields_required | page_error | timeout | no_action_manual
  | no_source_url

record BookingResult =
  br_eventId :: string
  br_eventName :: string
  actionType :: ActionType
  status :: BookingStatus
  confirmationNumber :: "string option"
  screenshotPath :: "string option"
  br_error :: "string option"
  br_timestamp :: nat

text \<open>
  \<open>checkBlockingConditions\<close>; the result \<open>None\<close> is \<open>null\<close>, the page looks bookable.
\<close>

definition checkBlockingConditions :: "string \<Rightarrow> BookingStatus option" where
  "checkBlockingConditions snapshotLower =
     (if strIncludes snapshotLower ''sold out'' \<or> strIncludes snapshotLower ''sold_out''
         \<or> strIncludes snapshotLower ''no tickets available''
      then Some bs_sold_out
      else if strIncludes snapshotLower ''join waitlist''
         \<or> strIncludes snapshotLower ''join the waitlist''
         \<or> strIncludes snapshotLower ''waitlist only''
         \<or> strIncludes snapshotLower ''add to waitlist''
      then Some waitlist
      else if strIncludes snapshotLower ''captcha'' \<or> strIncludes snapshotLower ''recaptcha''
         \<or> strIncludes snapshotLower ''hcaptcha''
      then Some captcha_blocked
      else if strIncludes snapshotLower ''must sign in''
         \<or> strIncludes snapshotLower ''please log in''
         \<or> strIncludes snapshotLower ''login required''
      then Some login_required
      else None)"

definition blockingMessage :: "BookingStatus \<Rightarrow> string" where
  "blockingMessage b =
     (if b = bs_sold_out then ''Event is sold out''
      else if b = waitlist then ''Event is at capacity - only waitlist available''
      else if b = captcha_blocked then ''Captcha detected - cannot proceed with automated booking''
      else ''Login required to book this event'')"

subsection \<open>The confirmation patterns\<close>

text \<open>
  \<open>allPageText.match(/#(\d{8,15})/)\<close>: the leftmost \<open>#\<close> that at least eight digits
  follow; the capture is the first fifteen of them at most.
\<close>

fun matchOrderNumber :: "string \<Rightarrow> string option" where
  "matchOrderNumber [] = None"
| "matchOrderNumber (c # cs) =
     (if c = CHR ''#'' \<and> length (takeWhile isDigit cs) \<ge> 8
      then Some (take 15 (takeWhile isDigit cs))
      else matchOrderNumber cs)"

text \<open>
  The second pattern,
  \<open>/(?:confirmation|order|booking|reference|ticket)\s*(?:#|number|no\.?|id|:)\s*:?\s*([A-Z0-9][A-Z0-9-]{3,19})/i\<close>,
  read at one position of the text. \<open>stripPrefixCI p s\<close> is the rest of \<open>s\<close> after the
  lower-case word \<open>p\<close>, compared without regard to case. The alternatives are tried in the
  order of the pattern, and the first that leads to a capture wins; a white-space run is
  skipped whole, since none of the parts that follow can begin with white space, and the
  optional dot and colon are taken when present, since the capture cannot begin with them.
\<close>

fun stripPrefixCI :: "string \<Rightarrow> string \<Rightarrow> string option" where
  "stripPrefixCI [] s = Some s"
| "stripPrefixCI (p # ps) [] = None"
| "stripPrefixCI (p # ps) (c # cs) = (if toLowerChar c = p then stripPrefixCI ps cs else None)"

definition isAlnumCI :: "char \<Rightarrow> bool" where
  "isAlnumCI c = isLowerAlnum (toLowerChar c)"

definition captureCode :: "string \<Rightarrow> string option" where
  "captureCode s =
     (case s of
        [] \<Rightarrow> None
      | c # cs \<Rightarrow>
          (let more = takeWhile (\<lambda>x. isAlnumCI x \<or> x = CHR ''-'') cs in
           if isAlnumCI c \<and> length more \<ge> 3 then Some (c # take 19 more) else None))"

definition afterDelimiter :: "string \<Rightarrow> string option" where
  "afterDelimiter s =
     (let s1 = dropWhile isSpace s;
          s2 = (case s1 of c # cs \<Rightarrow> if c = CHR '':'' then cs else s1 | [] \<Rightarrow> s1)
      in captureCode (dropWhile isSpace s2))"

fun firstCapture :: "string list \<Rightarrow> string \<Rightarrow> string option" where
  "firstCapture [] s = None"
| "firstCapture (d # ds) s =
     (case stripPrefixCI d s of
        Some rest \<Rightarrow>
          (case afterDelimiter rest of
             Some code \<Rightarrow> Some code
           | None \<Rightarrow> firstCapture ds s)
      | None \<Rightarrow> firstCapture ds s)"

definition afterKeyword :: "string \<Rightarrow> string option" where
  "afterKeyword s =
     firstCapture [''#'', ''number'', ''no.'', ''no'', ''id'', '':''] (dropWhile isSpace s)"

fun firstKeyword :: "string list \<Rightarrow> string \<Rightarrow> string option" where
  "firstKeyword [] s = None"
| "firstKeyword (k # ks) s =
     (case stripPrefixCI k s of
        Some rest \<Rightarrow>
          (case afterKeyword rest of
             Some code \<Rightarrow> Some code
           | None \<Rightarrow> firstKeyword ks s)
      | None \<Rightarrow> firstKeyword ks s)"

definition matchConfirmationAt :: "string \<Rightarrow> string option" where
  "matchConfirmationAt s =
     firstKeyword [''confirmation'', ''order'', ''booking'', ''reference'', ''ticket''] s"

text \<open>The leftmost position at which the pattern matches.\<close>

fun matchConfirmation :: "string \<Rightarrow> string option" where
  "matchConfirmation [] = matchConfirmationAt []"
| "matchConfirmation (c # cs) =
     (case matchConfirmationAt (c # cs) of
        Some code \<Rightarrow> Some code
      | None \<Rightarrow> matchConfirmation cs)"

text \<open>\<open>/^[a-z]+$/i.test(code)\<close>\<close>

definition onlyLetters :: "string \<Rightarrow> bool" where
  "onlyLetters code =
     (code \<noteq> [] \<and> list_all (\<lambda>c. toLowerChar c \<in> set ''abcdefghijklmnopqrstuvwxyz'') code)"

definition successPhrases :: "string list" where
  "successPhrases =
     [''thanks for your order'', ''your order is confirmed'',
      ''you'' @ [CHR 0x27] @ ''re going'', ''registration confirmed'',
      ''successfully registered'', ''take me to my tickets'']"

text \<open>The part of \<open>extractConfirmation\<close> that reads the collected page text.\<close>

definition confirmationIn :: "string \<Rightarrow> string option" where
  "confirmationIn allPageText =
     (if allPageText = [] then None
      else
        (case matchOrderNumber allPageText of
           Some orderNumber \<Rightarrow> Some orderNumber
         | None \<Rightarrow>
             (case matchConfirmation allPageText of
                Some code \<Rightarrow>
                  if \<not> onlyLetters code then Some code
                  else if list_ex (strIncludes (toLowerCase allPageText)) successPhrases
                  then Some ''CONFIRMED'' else None
              | None \<Rightarrow>
                  if list_ex (strIncludes (toLowerCase allPageText)) successPhrases
                  then Some ''CONFIRMED'' else None)))"

subsection \<open>The automation backend\<close>

text \<open>
  The browser and the knowledge base are outside the program. Every call has an outcome:
  it throws (\<open>Inl\<close>, with the thrown value) or returns. The outcomes of the calls of one
  booking are the fields of \<open>Backend\<close>; the two helpers \<open>adjustTicketQuantity\<close> and
  \<open>runCheckoutLoop\<close>, which only drive the browser, stand with their own outcome.
  \<open>JSON.parse\<close> of the text of the frames is a string, another value, or a syntax error.
\<close>

record CmdResult =
  cmd_success :: bool
  cmd_output :: string
  cmd_error :: "string option"

record ClickResult =
  click_success :: bool
  matchedText :: "string option"

datatype Json = JsonString string | JsonOther | JsonSyntaxError

record Backend =
  searchActionManuals :: "Thrown + string"
  extractDomain :: "string option"
  getActionManual :: "Thrown + string"
  browserOpen :: "Thrown + CmdResult"
  browserSnapshot :: "Thrown + CmdResult"
  clickBookingButton :: "Thrown + ClickResult"
  adjustTicketQuantity :: "Thrown + unit"
  runCheckoutLoop :: "Thrown + bool"
  browserScreenshot :: "Thrown + unit"
  browserText :: "Thrown + CmdResult"
  iframeText :: "Thrown + CmdResult"
  jsonParse :: "string \<Rightarrow> Json"

text \<open>\<open>fetchActionManual\<close>: whether a manual was found, or the value thrown.\<close>

definition fetchActionManual :: "Backend \<Rightarrow> Thrown + bool" where
  "fetchActionManual b =
     (case searchActionManuals b of
        Inl e \<Rightarrow> Inl e
      | Inr actionManualText \<Rightarrow>
          (let hasManual = \<not> strIncludes actionManualText ''No action manuals found'' in
           if hasManual \<and> truthy (extractDomain b) then
             (case getActionManual b of Inl e \<Rightarrow> Inl e | Inr detailed \<Rightarrow> Inr hasManual)
           else Inr hasManual))"

text \<open>
  \<open>extractConfirmation\<close>, in two parts: the text it collects from the page and its
  frames, and the reading of that text.
\<close>

definition collectPageText :: "Backend \<Rightarrow> Thrown + string" where
  "collectPageText b =
     (case browserText b of
        Inl e \<Rightarrow> Inl e
      | Inr textResult \<Rightarrow>
          (case iframeText b of
             Inl e \<Rightarrow> Inl e
           | Inr iframeTextResult \<Rightarrow>
               (let pageText = (if cmd_success textResult then cmd_output textResult else [])
                in Inr
                   (if cmd_success iframeTextResult \<and> cmd_output iframeTextResult \<noteq> [] then
                      (case jsonParse b (cmd_output iframeTextResult) of
                         JsonString t \<Rightarrow> pageText @ '' '' @ t
                       | JsonOther \<Rightarrow> pageText
                       | JsonSyntaxError \<Rightarrow> pageText @ '' '' @ cmd_output iframeTextResult)
                    else pageText))))"

definition extractConfirmation :: "Backend \<Rightarrow> Thrown + string option" where
  "extractConfirmation b =
     (case collectPageText b of
        Inl e \<Rightarrow> Inl e
      | Inr allPageText \<Rightarrow> Inr (confirmationIn allPageText))"

record UserProfile =
  profile_name :: string
  profile_email :: string
  profile_phone :: string

record BookingInput =
  in_eventId :: string
  in_eventName :: string
  in_sourceUrl :: string
  in_partySize :: nat
  in_userProfile :: UserProfile
  in_eventSource :: string
  in_bookingRequired :: bool

definition thrownMessage :: "Thrown \<Rightarrow> string \<Rightarrow> string" where
  "thrownMessage e fallback = (case e of ErrorObject m \<Rightarrow> m | OtherValue v \<Rightarrow> fallback)"

text \<open>A call returned, it did not throw.\<close>

definition returned :: "'e + 'a \<Rightarrow> bool" where
  "returned outcome = (case outcome of Inl e \<Rightarrow> False | Inr v \<Rightarrow> True)"

text \<open>The \<open>catch\<close> block of the tool.\<close>

definition bookingFailed :: "BookingInput \<Rightarrow> nat \<Rightarrow> Thrown \<Rightarrow> BookingResult" where
  "bookingFailed inp timestamp e =
     \<lparr>br_eventId = in_eventId inp, br_eventName = in_eventName inp, actionType = book,
      status = failed, confirmationNumber = None, screenshotPath = None,
      br_error = Some (thrownMessage e ''Unknown booking error''), br_timestamp = timestamp\<rparr>"

text \<open>
  Steps 5 to 7 after the blocking check: the booking button, the checkout loop, the
  screenshot, the extraction and the final status. \<open>now\<close> is the reading of the clock in
  the name of the screenshot.
\<close>

definition finishBooking :: "BookingInput \<Rightarrow> Backend \<Rightarrow> nat \<Rightarrow> nat \<Rightarrow> bool \<Rightarrow> BookingResult" where
  "finishBooking inp b timestamp now hasManual =
     (case clickBookingButton b of
        Inl e \<Rightarrow> bookingFailed inp timestamp e
      | Inr textClickResult \<Rightarrow>
          (case (if click_success textClickResult then adjustTicketQuantity b else Inr ()) of
             Inl e \<Rightarrow> bookingFailed inp timestamp e
           | Inr u \<Rightarrow>
               if \<not> click_success textClickResult \<and> \<not> hasManual then
                 \<lparr>br_eventId = in_eventId inp, br_eventName = in_eventName inp,
                  actionType = info_only, status = no_action_manual,
                  confirmationNumber = None, screenshotPath = None,
                  br_error = Some ''No booking button found and no action manual available'',
                  br_timestamp = timestamp\<rparr>
               else
                 (case runCheckoutLoop b of
                    Inl e \<Rightarrow> bookingFailed inp timestamp e
                  | Inr submitted \<Rightarrow>
                      (case browserScreenshot b of
                         Inl e \<Rightarrow> bookingFailed inp timestamp e
                       | Inr u' \<Rightarrow>
                           (case extractConfirmation b of
                              Inl e \<Rightarrow> bookingFailed inp timestamp e
                            | Inr confirmation \<Rightarrow>
                                \<lparr>br_eventId = in_eventId inp, br_eventName = in_eventName inp,
                                 actionType = book,
                                 status = (if truthy confirmation then success else failed),
                                 confirmationNumber = confirmation,
                                 screenshotPath =
                                   Some (''/tmp/booking-'' @ in_eventId inp @ ''-''
                                         @ showNat now @ ''.png''),
                                 br_error = None, br_timestamp = timestamp\<rparr>)))))"

text \<open>\<open>executeBookingTool.execute\<close>.\<close>

definition executeBookingTool :: "BookingInput \<Rightarrow> Backend \<Rightarrow> nat \<Rightarrow> nat \<Rightarrow> BookingResult" where
  "executeBookingTool inp b timestamp now =
     (if in_sourceUrl inp = [] \<or> trim (in_sourceUrl inp) = [] then
        \<lparr>br_eventId = in_eventId inp, br_eventName = in_eventName inp,
         actionType = info_only, status = no_source_url,
         confirmationNumber = None, screenshotPath = None,
         br_error = Some ''No booking URL available - this is a generated/suggested activity'',
         br_timestamp = timestamp\<rparr>
      else if \<not> in_bookingRequired inp then
        \<lparr>br_eventId = in_eventId inp, br_eventName = in_eventName inp,
         actionType = info_only, status = skipped,
         confirmationNumber = None, screenshotPath = None, br_error = None,
         br_timestamp = timestamp\<rparr>
      else
        (case fetchActionManual b of
           Inl e \<Rightarrow> bookingFailed inp timestamp e
         | Inr hasManual \<Rightarrow>
             (case browserOpen b of
                Inl e \<Rightarrow> bookingFailed inp timestamp e
              | Inr openResult \<Rightarrow>
                  if \<not> cmd_success openResult then
                    \<lparr>br_eventId = in_eventId inp, br_eventName = in_eventName inp,
                     actionType = book, status = page_error,
                     confirmationNumber = None, screenshotPath = None,
                     br_error = Some (''Failed to open browser: ''
                                      @ (case cmd_error openResult of
                                           None \<Rightarrow> ''undefined'' | Some m \<Rightarrow> m)),
                     br_timestamp = timestamp\<rparr>
                  else
                    (case browserSnapshot b of
                       Inl e \<Rightarrow> bookingFailed inp timestamp e
                     | Inr snapshotResult \<Rightarrow>
                         (let pageSnapshot =
                                (if cmd_success snapshotResult then cmd_output snapshotResult else [])
                          in case checkBlockingConditions (toLowerCase pageSnapshot) of
                               Some blockingStatus \<Rightarrow>
                                 \<lparr>br_eventId = in_eventId inp, br_eventName = in_eventName inp,
                                  actionType = book, status = blockingStatus,
                                  confirmationNumber = None, screenshotPath = None,
                                  br_error = Some (blockingMessage blockingStatus),
                                  br_timestamp = timestamp\<rparr>
                             | None \<Rightarrow> finishBooking inp b timestamp now hasManual)))))"

text \<open>
  A sample booking: every step before the extraction goes through, the page shows the
  given text at the end, and the checkout loop came to its end without seeing a
  confirmation.
\<close>

definition sampleBookingInput :: BookingInput where
  "sampleBookingInput =
     \<lparr>in_eventId = ''inject_hallyucon_mar26'', in_eventName = ''HallyuCon'',
      in_sourceUrl = ''https://www.eventbrite.sg/e/hallyucon'', in_partySize = 2,
      in_userProfile =
        \<lparr>profile_name = ''Guest'', profile_email = [], profile_phone = []\<rparr>,
      in_eventSource = ''eventbrite'', in_bookingRequired = True\<rparr>"

definition sampleBackend :: "string \<Rightarrow> Backend" where
  "sampleBackend finalText =
     \<lparr>searchActionManuals = Inr ''No action manuals found'',
      extractDomain = Some ''eventbrite.sg'',
      getActionManual = Inr [],
      browserOpen = Inr \<lparr>cmd_success = True, cmd_output = ''opened'', cmd_error = None\<rparr>,
      browserSnapshot =
        Inr \<lparr>cmd_success = True, cmd_output = ''HallyuCon - Reserve a spot'', cmd_error = None\<rparr>,
      clickBookingButton = Inr \<lparr>click_success = True, matchedText = Some ''reserve a spot''\<rparr>,
      adjustTicketQuantity = Inr (),
      runCheckoutLoop = Inr False,
      browserScreenshot = Inr (),
      browserText = Inr \<lparr>cmd_success = True, cmd_output = finalText, cmd_error = None\<rparr>,
      iframeText = Inr \<lparr>cmd_success = False, cmd_output = [], cmd_error = None\<rparr>,
      jsonParse = (\<lambda>t. JsonSyntaxError)\<rparr>"

section \<open>Pipeline steps: ranking, approval gate, execution\<close>

text \<open>
  The steps are the mappers of the workflow. What they call outside these sources is a
  parameter of the model: the trace bus behind \<open>emitTrace\<close>, the approval registry, the
  context registry, the ranking tool, the recommendation agent and the wrapper around the
  booking tool. A trace event is named by the place that emits it; \<open>emitTrace\<close> answers
  \<open>None\<close> when it returns and \<open>Some e\<close> when it throws \<open>e\<close>. Writes to the console and the
  fire-and-forget updates of the context (\<open>void ... .catch(() => {})\<close>) are left out.
\<close>

datatype TracePoint =
    RankingStarted
  | RankingCompleted
  | ApprovalRequired
  | ApprovalApproved
  | ApprovalRejected
  | ExecutionSkipped
  | ExecutionStarted
  | BookingItem nat
  | BookingItemDone nat
  | ExecutionCompleted

record Budget =
  budget_min :: "rat option"
  budget_max :: "rat option"

record Constraints =
  c_partySize :: "nat option"
  c_budget :: "Budget option"

record FormData =
  occasion :: "string option"
  preferFreeEvents :: bool

record FilterStats =
  totalInput :: nat
  passedFilters :: nat
  finalCount :: nat

subsection \<open>Ranking step\<close>

record AgentEnrichment =
  preferredCategories :: "string list option"
  excludedCategories :: "string list option"

record RankInput =
  rin_events :: "Event list"
  rin_intentSummary :: "string option"
  rin_agentReasoning :: "string option"
  rin_constraints :: "Constraints option"
  rin_agentEnrichment :: "AgentEnrichment option"
  rin_dedupStats :: "DedupStats option"
  rin_formData :: "FormData option"

record RankRequest =
  rq_events :: "Event list"
  rq_budgetMin :: "rat option"
  rq_budgetMax :: "rat option"
  rq_preferredCategories :: "string list option"
  rq_excludedCategories :: "string list option"
  rq_preferFreeEvents :: bool

text \<open>
  What \<open>rankEventsTool.execute\<close> hands back: nothing or an object with an \<open>error\<close> key, or
  the ranked events with the filter statistics.
\<close>

datatype RankResult = RankError | Ranked "RankedEvent list" FilterStats

text \<open>
  A value that \<open>JSON.parse\<close> returns; an object is the list of its own properties.
  \<open>getProperty v k\<close> is \<open>v[k]\<close> for a value that is not \<open>null\<close> and a key that no prototype
  defines; \<open>None\<close> is \<open>undefined\<close>.
\<close>

datatype JsonValue =
    JNull
  | JBool bool
  | JNum rat
  | JStr string
  | JArr "JsonValue list"
  | JObj "(string \<times> JsonValue) list"

definition getProperty :: "JsonValue \<Rightarrow> string \<Rightarrow> JsonValue option" where
  "getProperty v k = (case v of JObj properties \<Rightarrow> map_of properties k | _ \<Rightarrow> None)"

definition nullish :: "JsonValue option \<Rightarrow> bool" where
  "nullish v = (v = None \<or> v = Some JNull)"

text \<open>
  The conversion to a string in a template literal throws a TypeError for an object that
  has a property \<open>toString\<close> of its own (no JSON value can be called), also when the
  object is reached through the elements of an array; it returns for every other value.
\<close>

fun printable :: "JsonValue \<Rightarrow> bool" where
  "printable (JObj properties) = (map_of properties ''toString'' = None)"
| "printable (JArr elements) = list_all printable elements"
| "printable v = True"

text \<open>A TypeError of the engine; the message, which is the engine's, is not modelled.\<close>

definition typeError :: Thrown where
  "typeError = ErrorObject ''TypeError''"

record RankOutput =
  rout_events :: "Event list"
  rout_rankedEvents :: "RankedEvent list option"
  rout_filterStats :: "FilterStats option"
  rout_dedupStats :: "DedupStats option"
  rout_intentSummary :: "string option"
  rout_agentReasoning :: "JsonValue option"
  rout_recommendationNarrative :: "JsonValue option"
  rout_constraints :: "Constraints option"
  rout_formData :: "FormData option"

definition unranked :: "RankInput \<Rightarrow> RankOutput" where
  "unranked inputData =
     \<lparr>rout_events = rin_events inputData, rout_rankedEvents = None, rout_filterStats = None,
      rout_dedupStats = rin_dedupStats inputData,
      rout_intentSummary = rin_intentSummary inputData,
      rout_agentReasoning = map_option JStr (rin_agentReasoning inputData),
      rout_recommendationNarrative = None, rout_constraints = None, rout_formData = None\<rparr>"

definition rankRequest :: "RankInput \<Rightarrow> RankRequest" where
  "rankRequest inputData =
     (let budget = (case rin_constraints inputData of None \<Rightarrow> None | Some c \<Rightarrow> c_budget c)
      in \<lparr>rq_events = rin_events inputData,
          rq_budgetMin = (case budget of None \<Rightarrow> None | Some b \<Rightarrow> budget_min b),
          rq_budgetMax = (case budget of None \<Rightarrow> None | Some b \<Rightarrow> budget_max b),
          rq_preferredCategories =
            (case rin_agentEnrichment inputData of
               None \<Rightarrow> None | Some a \<Rightarrow> preferredCategories a),
          rq_excludedCategories =
            (case rin_agentEnrichment inputData of
               None \<Rightarrow> None | Some a \<Rightarrow> excludedCategories a),
          rq_preferFreeEvents =
            (case rin_formData inputData of None \<Rightarrow> False | Some f \<Rightarrow> preferFreeEvents f)\<rparr>)"

text \<open>
  The value of the variable \<open>agentNarrative\<close> after the two nested \<open>try\<close> blocks. The agent
  is asked about the three top picks; \<open>recommendationAgent\<close> gives the text of its answer or
  what the call (or the reading of the text) throws, \<open>parseJson\<close> is \<open>JSON.parse\<close> with
  \<open>None\<close> for a syntax error. The inner \<open>try\<close> prints the \<open>narrative\<close> and the \<open>confidence\<close> of
  the parsed value; when that throws, as a syntax error does, the raw text becomes the
  narrative.
\<close>

definition agentNarrative ::
  "(RankedEvent list \<Rightarrow> FilterStats \<Rightarrow> Thrown + string) \<Rightarrow> (string \<Rightarrow> JsonValue option)
     \<Rightarrow> RankedEvent list \<Rightarrow> FilterStats \<Rightarrow> JsonValue" where
  "agentNarrative recommendationAgent parseJson topPicks stats =
     (case recommendationAgent topPicks stats of
        Inl err \<Rightarrow> JObj []
      | Inr response \<Rightarrow>
          (let text = trim response;
               printed = (\<lambda>v. nullish v \<or> printable (the v))
           in case parseJson text of
                None \<Rightarrow> JObj [(''narrative'', JStr text)]
              | Some parsed \<Rightarrow>
                  if parsed \<noteq> JNull \<and> printed (getProperty parsed ''narrative'')
                     \<and> printed (getProperty parsed ''confidence'')
                  then parsed
                  else JObj [(''narrative'', JStr text)]))"

text \<open>
  Building the last trace event calls \<open>agentNarrative.tradeoffs?.map(...)\<close> and, for every
  top pick, \<open>agentNarrative.topPickReasoning?.find(a => a.eventName === r.event.name)\<close>,
  outside any \<open>try\<close>. A value that is there and is no array has no such method, and the
  callback of \<open>find\<close> reads a property of each element up to the first match: either throws
  a TypeError for the wrong shape.
\<close>

definition tradeoffsThrow :: "JsonValue \<Rightarrow> bool" where
  "tradeoffsThrow narrative =
     (case getProperty narrative ''tradeoffs'' of
        None \<Rightarrow> False
      | Some JNull \<Rightarrow> False
      | Some (JArr elements) \<Rightarrow> False
      | Some v \<Rightarrow> True)"

fun findThrows :: "JsonValue list \<Rightarrow> string \<Rightarrow> bool" where
  "findThrows [] eventName = False"
| "findThrows (a # rest) eventName =
     (if a = JNull then True
      else if getProperty a ''eventName'' = Some (JStr eventName) then False
      else findThrows rest eventName)"

definition topPickReasoningThrows :: "JsonValue \<Rightarrow> RankedEvent list \<Rightarrow> bool" where
  "topPickReasoningThrows narrative topPicks =
     (topPicks \<noteq> [] \<and>
      (case getProperty narrative ''topPickReasoning'' of
         None \<Rightarrow> False
       | Some JNull \<Rightarrow> False
       | Some (JArr elements) \<Rightarrow> list_ex (\<lambda>r. findThrows elements (name (rk_event r))) topPicks
       | Some v \<Rightarrow> True))"

definition rankAndRecommend ::
  "(TracePoint \<Rightarrow> Thrown option) \<Rightarrow> (RankRequest \<Rightarrow> Thrown + RankResult)
     \<Rightarrow> (RankedEvent list \<Rightarrow> FilterStats \<Rightarrow> Thrown + string) \<Rightarrow> (string \<Rightarrow> JsonValue option)
     \<Rightarrow> RankInput \<Rightarrow> Thrown + RankOutput" where
  "rankAndRecommend emitTrace rankEventsTool recommendationAgent parseJson inputData =
     (if length (rin_events inputData) = 0 then Inr (unranked inputData)
      else
        (case emitTrace RankingStarted of
           Some e \<Rightarrow> Inl e
         | None \<Rightarrow>
             (case rankEventsTool (rankRequest inputData) of
                Inl e \<Rightarrow> Inl e
              | Inr RankError \<Rightarrow> Inr (unranked inputData)
              | Inr (Ranked rankedEvents stats) \<Rightarrow>
                  (let topPicks = take 3 rankedEvents;
                       narrative = agentNarrative recommendationAgent parseJson topPicks stats
                   in if tradeoffsThrow narrative \<or> topPickReasoningThrows narrative topPicks
                      then Inl typeError
                      else
                        (case emitTrace RankingCompleted of
                           Some e \<Rightarrow> Inl e
                         | None \<Rightarrow>
                             (let top3 = take 1 rankedEvents
                              in Inr \<lparr>rout_events = rin_events inputData,
                                      rout_rankedEvents = Some top3,
                                      rout_filterStats = Some stats,
                                      rout_dedupStats = rin_dedupStats inputData,
                                      rout_intentSummary = rin_intentSummary inputData,
                                      rout_agentReasoning =
                                        (if nullish (getProperty narrative ''narrative'')
                                         then map_option JStr (rin_agentReasoning inputData)
                                         else getProperty narrative ''narrative''),
                                      rout_recommendationNarrative =
                                        getProperty narrative ''narrative'',
                                      rout_constraints = rin_constraints inputData,
                                      rout_formData = rin_formData inputData\<rparr>))))))"

subsection \<open>The data handed from the planning step to the approval gate and on\<close>

text \<open>
  The approval gate only reads the itinerary to describe it in a trace event, so the
  record leaves its type open; the execution step fixes it to what it declares.
\<close>

record 'itin PipelineData =
  pd_events :: "Event list"
  pd_rankedEvents :: "RankedEvent list option"
  pd_filterStats :: "FilterStats option"
  pd_dedupStats :: "DedupStats option"
  pd_intentSummary :: "string option"
  pd_agentReasoning :: "string option"
  pd_recommendationNarrative :: "string option"
  pd_itinerary :: "'itin option"
  pd_planMetadata :: "PlanMetadata option"
  pd_planWarnings :: "string list option"
  pd_bookingResults :: "BookingResult list option"
  pd_constraints :: "Constraints option"
  pd_formData :: "FormData option"

subsection \<open>Approval gate\<close>

text \<open>
  \<open>waitForApproval\<close> is the promise of the approval registry: it resolves with the
  decision, or rejects.
\<close>

definition awaitApproval ::
  "(TracePoint \<Rightarrow> Thrown option) \<Rightarrow> (Thrown + bool) \<Rightarrow> 'itin PipelineData
     \<Rightarrow> Thrown + 'itin PipelineData" where
  "awaitApproval emitTrace waitForApproval inputData =
     (case pd_itinerary inputData of
        None \<Rightarrow> Inr (inputData\<lparr>pd_bookingResults := None\<rparr>)
      | Some itinerary \<Rightarrow>
          (case emitTrace ApprovalRequired of
             Some e \<Rightarrow> Inl e
           | None \<Rightarrow>
               (case waitForApproval of
                  Inl e \<Rightarrow> Inl e
                | Inr decision \<Rightarrow>
                    if decision then
                      (case emitTrace ApprovalApproved of
                         Some e \<Rightarrow> Inl e
                       | None \<Rightarrow> Inr (inputData\<lparr>pd_bookingResults := None\<rparr>))
                    else
                      (case emitTrace ApprovalRejected of
                         Some e \<Rightarrow> Inl e
                       | None \<Rightarrow>
                           Inr (inputData
                                 \<lparr>pd_itinerary := None, pd_planMetadata := None,
                                  pd_planWarnings := Some [''Plan rejected by user''],
                                  pd_bookingResults := None\<rparr>)))))"

subsection \<open>Execution step\<close>

record ExecEvent =
  ex_id :: string
  ex_name :: string
  ex_sourceUrl :: "string option"
  ex_source :: string
  ex_category :: "string option"
  ex_bookingRequired :: "bool option"

record ExecItem =
  exi_id :: string
  exi_event :: ExecEvent
  exi_notes :: "string option"

text \<open>The itinerary as the step declares it; \<open>None\<close> is an itinerary without \<open>items\<close>.\<close>

record ExecItinerary =
  exec_items :: "ExecItem list option"

definition bookable :: "ExecItem \<Rightarrow> bool" where
  "bookable item =
     (ex_source (exi_event item) \<noteq> ''planned''
      \<and> (case ex_sourceUrl (exi_event item) of
            None \<Rightarrow> False
          | Some url \<Rightarrow> url \<noteq> [] \<and> trim url \<noteq> []))"

text \<open>
  What \<open>executeBookingTool.execute\<close> does with one request: it throws, or it hands back
  something that is no booking result (nothing, or a validation error without
  \<open>eventId\<close>), or a booking result. The automation behind it is a state \<open>'w\<close> that every
  call reads and changes.
\<close>

datatype ToolOutcome = ToolThrew Thrown | ToolInvalid | ToolResult BookingResult

record 'w ExecState =
  world :: 'w
  calls :: "BookingInput list"
  results :: "BookingResult list"

definition bookingRequest :: "nat \<Rightarrow> UserProfile \<Rightarrow> ExecItem \<Rightarrow> BookingInput" where
  "bookingRequest partySize userProfile item =
     \<lparr>in_eventId = ex_id (exi_event item), in_eventName = ex_name (exi_event item),
      in_sourceUrl = (case ex_sourceUrl (exi_event item) of None \<Rightarrow> [] | Some u \<Rightarrow> u),
      in_partySize = partySize,
      in_userProfile =
        \<lparr>profile_name = profile_name userProfile, profile_email = profile_email userProfile,
         profile_phone = profile_phone userProfile\<rparr>,
      in_eventSource = ex_source (exi_event item),
      in_bookingRequired =
        (case ex_bookingRequired (exi_event item) of None \<Rightarrow> True | Some r \<Rightarrow> r)\<rparr>"

definition itemFailed :: "ExecItem \<Rightarrow> string \<Rightarrow> nat \<Rightarrow> BookingResult" where
  "itemFailed item message timestamp =
     \<lparr>br_eventId = ex_id (exi_event item), br_eventName = ex_name (exi_event item),
      actionType = book, status = failed, confirmationNumber = None, screenshotPath = None,
      br_error = Some message, br_timestamp = timestamp\<rparr>"

text \<open>
  The \<open>try\<close> and \<open>catch\<close> of one turn of the loop, for the item at index \<open>i\<close>. The trace
  event after the push of a result is inside the \<open>try\<close>.
\<close>

definition attemptItem ::
  "(TracePoint \<Rightarrow> Thrown option) \<Rightarrow> (BookingInput \<Rightarrow> 'w \<Rightarrow> ToolOutcome \<times> 'w) \<Rightarrow> (nat \<Rightarrow> nat)
     \<Rightarrow> nat \<Rightarrow> UserProfile \<Rightarrow> nat \<Rightarrow> ExecItem \<Rightarrow> 'w ExecState \<Rightarrow> 'w ExecState" where
  "attemptItem emitTrace tool clock partySize userProfile i item st =
     (let request = bookingRequest partySize userProfile item;
          (rawResult, w) = tool request (world st);
          st1 = st\<lparr>world := w, calls := calls st @ [request]\<rparr>
      in case rawResult of
           ToolThrew err \<Rightarrow>
             st1\<lparr>results := results st1
                    @ [itemFailed item (thrownMessage err ''Unknown error'') (clock i)]\<rparr>
         | ToolInvalid \<Rightarrow>
             st1\<lparr>results := results st1
                    @ [itemFailed item ''Tool returned validation error'' (clock i)]\<rparr>
         | ToolResult result \<Rightarrow>
             (let bookingResult =
                    \<lparr>br_eventId = br_eventId result, br_eventName = br_eventName result,
                     actionType = actionType result, status = status result,
                     confirmationNumber = confirmationNumber result,
                     screenshotPath = screenshotPath result, br_error = br_error result,
                     br_timestamp = br_timestamp result\<rparr>;
                  st2 = st1\<lparr>results := results st1 @ [bookingResult]\<rparr>
              in case emitTrace (BookingItemDone i) of
                   None \<Rightarrow> st2
                 | Some err \<Rightarrow>
                     st2\<lparr>results := results st2
                            @ [itemFailed item (thrownMessage err ''Unknown error'') (clock i)]\<rparr>))"

text \<open>
  The \<open>for\<close> loop over the bookable items from index \<open>i\<close> on. The trace event that opens a
  turn is outside the \<open>try\<close>: when it throws, the step throws; the state reached is
  handed back with it.
\<close>

fun bookingLoop ::
  "(TracePoint \<Rightarrow> Thrown option) \<Rightarrow> (BookingInput \<Rightarrow> 'w \<Rightarrow> ToolOutcome \<times> 'w) \<Rightarrow> (nat \<Rightarrow> nat)
     \<Rightarrow> nat \<Rightarrow> UserProfile \<Rightarrow> nat \<Rightarrow> ExecItem list \<Rightarrow> 'w ExecState
     \<Rightarrow> Thrown option \<times> 'w ExecState" where
  "bookingLoop emitTrace tool clock partySize userProfile i [] st = (None, st)"
| "bookingLoop emitTrace tool clock partySize userProfile i (item # rest) st =
     (case emitTrace (BookingItem i) of
        Some e \<Rightarrow> (Some e, st)
      | None \<Rightarrow>
          bookingLoop emitTrace tool clock partySize userProfile (i + 1) rest
            (attemptItem emitTrace tool clock partySize userProfile i item st))"

definition defaultProfile :: UserProfile where
  "defaultProfile = \<lparr>profile_name = ''Guest'', profile_email = [], profile_phone = []\<rparr>"

text \<open>
  The step. Its answer is what it returns or throws, together with the state of the
  automation and the requests made of the booking tool, in the order they were made.
  \<open>getUserProfile\<close> is the awaited \<open>getCustomData('userProfile')\<close> of the context, \<open>None\<close>
  when there is no context or no profile.
\<close>

definition executeBookings ::
  "(TracePoint \<Rightarrow> Thrown option) \<Rightarrow> (Thrown + UserProfile option)
     \<Rightarrow> (BookingInput \<Rightarrow> 'w \<Rightarrow> ToolOutcome \<times> 'w) \<Rightarrow> (nat \<Rightarrow> nat)
     \<Rightarrow> ExecItinerary PipelineData \<Rightarrow> 'w
     \<Rightarrow> (Thrown + ExecItinerary PipelineData) \<times> 'w ExecState" where
  "executeBookings emitTrace getUserProfile tool clock inputData w =
     (let partySize =
            (case pd_constraints inputData of
               None \<Rightarrow> 1
             | Some c \<Rightarrow> (case c_partySize c of None \<Rightarrow> 1 | Some n \<Rightarrow> n));
          st0 = \<lparr>world = w, calls = [], results = []\<rparr>;
          items =
            (case pd_itinerary inputData of
               None \<Rightarrow> []
             | Some itinerary \<Rightarrow> (case exec_items itinerary of None \<Rightarrow> [] | Some its \<Rightarrow> its))
      in if length items = 0 then (Inr inputData, st0)
         else
           (let bookableItems = filter bookable items;
                output = (\<lambda>bookingResults.
                   inputData\<lparr>pd_bookingResults := Some bookingResults,
                             pd_constraints := None, pd_formData := None\<rparr>)
            in if length bookableItems = 0 then
                 (case emitTrace ExecutionSkipped of
                    Some e \<Rightarrow> (Inl e, st0)
                  | None \<Rightarrow> (Inr (output []), st0))
               else
                 (case emitTrace ExecutionStarted of
                    Some e \<Rightarrow> (Inl e, st0)
                  | None \<Rightarrow>
                      (case getUserProfile of
                         Inl e \<Rightarrow> (Inl e, st0)
                       | Inr profile \<Rightarrow>
                           (let userProfile =
                                  (case profile of None \<Rightarrow> defaultProfile | Some p \<Rightarrow> p)
                            in case bookingLoop emitTrace tool clock partySize userProfile 0
                                      bookableItems st0 of
                                 (Some e, st) \<Rightarrow> (Inl e, st)
                               | (None, st) \<Rightarrow>
                                   (case emitTrace ExecutionCompleted of
                                      Some e \<Rightarrow> (Inl e, st)
                                    | None \<Rightarrow> (Inr (output (results st)), st)))))))"

section \<open>Sample runs of the pipeline steps\<close>

text \<open>A trace bus that never throws.\<close>

definition quietBus :: "TracePoint \<Rightarrow> Thrown option" where
  "quietBus point = None"

definition jazzNight :: Event where
  "jazzNight = sampleEvent ''evt-1'' ''Jazz Night'' (Some ''https://x.com/e/1'') 0 10 None"

definition foodFair :: Event where
  "foodFair = sampleEvent ''evt-2'' ''Food Fair'' (Some ''https://x.com/e/2'') 0 10 None"

definition sampleRankInput :: RankInput where
  "sampleRankInput =
     \<lparr>rin_events = [jazzNight, foodFair], rin_intentSummary = Some ''Plan an outing'',
      rin_agentReasoning = None,
      rin_constraints =
        Some \<lparr>c_partySize = Some 2,
              c_budget = Some \<lparr>budget_min = None, budget_max = Some 50\<rparr>\<rparr>,
      rin_agentEnrichment = None, rin_dedupStats = None, rin_formData = None\<rparr>"

text \<open>
  Two answers of the ranking tool: one in which the hard filters drop every event, one
  that scores both events.
\<close>

definition filteringRanker :: "RankRequest \<Rightarrow> Thrown + RankResult" where
  "filteringRanker request =
     Inr (Ranked []
       \<lparr>totalInput = length (rq_events request), passedFilters = 0, finalCount = 0\<rparr>)"

definition scoredEvents :: "RankedEvent list" where
  "scoredEvents =
     [\<lparr>rk_event = foodFair, score = 4 / 5, reasoning = None\<rparr>,
      \<lparr>rk_event = jazzNight, score = 1 / 2, reasoning = None\<rparr>]"

definition scoringRanker :: "RankRequest \<Rightarrow> Thrown + RankResult" where
  "scoringRanker request =
     Inr (Ranked scoredEvents
       \<lparr>totalInput = length (rq_events request), passedFilters = 2, finalCount = 2\<rparr>)"

definition silentAgent :: "RankedEvent list \<Rightarrow> FilterStats \<Rightarrow> Thrown + string" where
  "silentAgent topPicks stats = Inl (ErrorObject ''agent unavailable'')"

definition noJson :: "string \<Rightarrow> JsonValue option" where
  "noJson text = None"

text \<open>
  An itinerary of three items: a discovered event, an activity the planner made up, and
  a second discovered event.
\<close>

definition execItem :: "string \<Rightarrow> string \<Rightarrow> string \<Rightarrow> string option \<Rightarrow> ExecItem" where
  "execItem i n s u =
     \<lparr>exi_id = ''item-'' @ i,
      exi_event = \<lparr>ex_id = i, ex_name = n, ex_sourceUrl = u, ex_source = s,
                   ex_category = None, ex_bookingRequired = None\<rparr>,
      exi_notes = None\<rparr>"

definition sampleItems :: "ExecItem list" where
  "sampleItems =
     [execItem ''evt-1'' ''Jazz Night'' ''eventbrite'' (Some ''https://x.com/e/1''),
      execItem ''gen-1'' ''Dinner nearby'' ''planned'' None,
      execItem ''evt-2'' ''Food Fair'' ''eventfinda'' (Some ''https://x.com/e/2'')]"

definition sampleData :: "ExecItinerary PipelineData" where
  "sampleData =
     \<lparr>pd_events = [jazzNight, foodFair], pd_rankedEvents = None, pd_filterStats = None,
      pd_dedupStats = None, pd_intentSummary = None, pd_agentReasoning = None,
      pd_recommendationNarrative = None,
      pd_itinerary = Some \<lparr>exec_items = Some sampleItems\<rparr>,
      pd_planMetadata = None, pd_planWarnings = Some [],
      pd_bookingResults = None,
      pd_constraints = Some \<lparr>c_partySize = Some 2, c_budget = None\<rparr>,
      pd_formData = None\<rparr>"

text \<open>
  A booking tool that throws on its first call and answers every later one with a
  validation error; the state counts the calls.
\<close>

definition crashingTool :: "BookingInput \<Rightarrow> nat \<Rightarrow> ToolOutcome \<times> nat" where
  "crashingTool request n =
     (if n = 0 then ToolThrew (ErrorObject ''browser crashed'') else ToolInvalid, n + 1)"

definition sampleTimes :: "nat \<Rightarrow> nat" where
  "sampleTimes i = 1000 + i"

text \<open>
  A trace bus with a listener that throws at one event, and a booking tool that confirms
  every request.
\<close>

definition failingAt :: "TracePoint \<Rightarrow> TracePoint \<Rightarrow> Thrown option" where
  "failingAt bad point = (if point = bad then Some (ErrorObject ''listener failed'') else None)"

definition confirmingTool :: "BookingInput \<Rightarrow> nat \<Rightarrow> ToolOutcome \<times> nat" where
  "confirmingTool request n =
     (ToolResult
        \<lparr>br_eventId = in_eventId request, br_eventName = in_eventName request,
         actionType = book, status = success, confirmationNumber = Some ''CONFIRMED'',
         screenshotPath = None, br_error = None, br_timestamp = 2000 + n\<rparr>,
      n + 1)"

section \<open>Properties of the deduplicator\<close>

lemma dup_samples:
  "\<not> isDuplicate dupA dupB" "isDuplicate dupA dupC" "isDuplicate dupC dupB"
  "scoreEventCompleteness dupA = 0" "scoreEventCompleteness dupB = 0"
  "scoreEventCompleteness dupC = 2"
  by code_simp+

lemma deduplicateEvents_events:
  "events (deduplicateEvents x) = (if length x \<le> 1 then x else dedupLoop x)"
  by (simp add: deduplicateEvents_def Let_def)

lemma deduplicateEvents_removed:
  "removedCount (deduplicateEvents x) =
     (if length x \<le> 1 then 0 else length x - length (dedupLoop x))"
  by (simp add: deduplicateEvents_def Let_def)

text \<open>
  C1. The claim is not met by the code. In \<open>[dupA, dupB, dupC]\<close> the events \<open>dupA\<close> and
  \<open>dupC\<close> share a URL, \<open>dupB\<close> and \<open>dupC\<close> share a name and overlap in time, and \<open>dupC\<close> is
  the most complete. The scan for \<open>dupA\<close> passes \<open>dupB\<close> (no duplicate of \<open>dupA\<close>), then
  replaces its survivor by \<open>dupC\<close>; \<open>dupB\<close> is never compared with the new survivor. The
  first run returns \<open>[dupC, dupB]\<close>, a list that still holds a pair of duplicates by the
  test of the tool itself; the second run merges the two and reports one removal.
\<close>

theorem dedup_not_idempotent:
  "events (deduplicateEvents [dupA, dupB, dupC]) = [dupC, dupB]
   \<and> isDuplicate dupC dupB
   \<and> events (deduplicateEvents (events (deduplicateEvents [dupA, dupB, dupC]))) = [dupC]
   \<and> events (deduplicateEvents (events (deduplicateEvents [dupA, dupB, dupC])))
       \<noteq> events (deduplicateEvents [dupA, dupB, dupC])
   \<and> removedCount (deduplicateEvents (events (deduplicateEvents [dupA, dupB, dupC]))) = 1"
  by (simp add: deduplicateEvents_events deduplicateEvents_removed dup_samples)

section \<open>Properties of the discovery merge\<close>

lemma injectPriority_nonempty: "injectPriority xs \<noteq> []"
  by (cases xs) (simp_all add: injectPriority_def)

lemma injectPriority_present:
  "list_ex (\<lambda>e. event_id e = event_id hallyuConEvent \<or> sourceUrl e = sourceUrl hallyuConEvent)
     (injectPriority xs)"
  by (simp add: injectPriority_def)

lemma hallyuCon_fields:
  "event_id hallyuConEvent = ''inject_hallyucon_mar26''"
  "sourceUrl hallyuConEvent =
     Some ''https://www.eventbrite.sg/e/hallyucon-mar-26-rsvp-registration-tickets-1978865860057''"
  "price hallyuConEvent = Some \<lparr>price_min = 0, price_max = 0, currency = ''SGD''\<rparr>"
  by (simp_all add: hallyuConEvent_def)

text \<open>
  C9. The discovery merge step appends the hard-coded HallyuCon event (id
  \<open>inject_hallyucon_mar26\<close>, a fixed Eventbrite URL, price 0) to the deduplicated list
  exactly when no event of that list has its id or its source URL. So the output list is
  never empty, always holds an event with that id or URL, and for two sources that return
  nothing it is the injected event alone, an event that no source returned.
\<close>

theorem discovery_injects_hallyucon:
  "discovered (mergeAndDeduplicateEvents eb ef) =
     (if list_ex (\<lambda>e. event_id e = ''inject_hallyucon_mar26'' \<or>
                       sourceUrl e = Some ''https://www.eventbrite.sg/e/hallyucon-mar-26-rsvp-registration-tickets-1978865860057'')
           (events (deduplicateEvents (eb @ ef)))
      then events (deduplicateEvents (eb @ ef))
      else events (deduplicateEvents (eb @ ef)) @ [hallyuConEvent])
   \<and> discovered (mergeAndDeduplicateEvents eb ef) \<noteq> []
   \<and> list_ex (\<lambda>e. event_id e = ''inject_hallyucon_mar26'' \<or>
                   sourceUrl e = Some ''https://www.eventbrite.sg/e/hallyucon-mar-26-rsvp-registration-tickets-1978865860057'')
         (discovered (mergeAndDeduplicateEvents eb ef))
   \<and> discovered (mergeAndDeduplicateEvents [] []) = [hallyuConEvent]
   \<and> event_id hallyuConEvent = ''inject_hallyucon_mar26''
   \<and> price hallyuConEvent = Some \<lparr>price_min = 0, price_max = 0, currency = ''SGD''\<rparr>"
proof -
  let ?d = "events (deduplicateEvents (eb @ ef))"
  have out: "discovered (mergeAndDeduplicateEvents eb ef) = injectPriority ?d"
    by (simp add: mergeAndDeduplicateEvents_def mergeWith_def Let_def)
  have empty: "discovered (mergeAndDeduplicateEvents [] []) = [hallyuConEvent]"
    by (simp add: mergeAndDeduplicateEvents_def mergeWith_def deduplicateEvents_def
        injectPriority_def)
  show ?thesis
    using injectPriority_nonempty [of ?d] injectPriority_present [of ?d] empty
    by (simp add: out hallyuCon_fields) (simp add: injectPriority_def hallyuCon_fields)
qed

theorem discovery_injects_hallyucon_witness:
  "discovered (mergeAndDeduplicateEvents [hallyuConEvent] []) = [hallyuConEvent]
   \<and> discovered (mergeAndDeduplicateEvents [hallyuConEvent\<lparr>event_id := ''e1'', sourceUrl := None\<rparr>] [])
       = [hallyuConEvent\<lparr>event_id := ''e1'', sourceUrl := None\<rparr>, hallyuConEvent]"
  using discovery_injects_hallyucon [of "[hallyuConEvent]" "[]"]
    discovery_injects_hallyucon [of "[hallyuConEvent\<lparr>event_id := ''e1'', sourceUrl := None\<rparr>]" "[]"]
  by (simp add: deduplicateEvents_def hallyuCon_fields)

section \<open>Properties of the itinerary scheduler\<close>

lemma mset_sortByKey:
  assumes "permutes engine"
  shows "mset (sortByKey engine key xs) = mset xs"
proof (cases "list_all (\<lambda>x. isFiniteNumber (key x)) xs")
  case True
  then show ?thesis by (simp add: sortByKey_def)
next
  case False
  have "mset (map (\<lambda>i. xs ! i) (engine (map key xs)))
      = image_mset (\<lambda>i. xs ! i) (mset (engine (map key xs)))"
    by simp
  also have "\<dots> = image_mset (\<lambda>i. xs ! i) (mset [0..<length xs])"
    using assms by (simp add: permutes_def)
  also have "\<dots> = mset (map (\<lambda>i. xs ! i) [0..<length xs])"
    by simp
  also have "\<dots> = mset xs"
    by (simp add: map_nth)
  finally show ?thesis
    using False by (simp add: sortByKey_def)
qed

lemma set_sortByKey: "permutes engine \<Longrightarrow> set (sortByKey engine key xs) = set xs"
  using mset_sortByKey [of engine key xs] by (metis set_mset_mset)

lemma length_sortByKey: "permutes engine \<Longrightarrow> length (sortByKey engine key xs) = length xs"
  using mset_sortByKey [of engine key xs] by (metis size_mset)

lemma sorted_sortByKey:
  "list_all (\<lambda>x. isFiniteNumber (key x)) xs \<Longrightarrow>
     sorted (map (\<lambda>x. finiteValue (key x)) (sortByKey engine key xs))"
  by (simp add: sortByKey_def)

lemma permutes_inPlace: "permutes inPlace"
  by (simp add: permutes_def inPlace_def)

text \<open>
  The position of the capped list an item of the itinerary was made from, as its id names
  it; a draft item that the conversion drops.
\<close>

definition origin :: "ItineraryItem \<Rightarrow> nat" where
  "origin it = (case it_id it of ItemIndexed k t \<Rightarrow> k | ItemFallback k t \<Rightarrow> k)"

definition endsPastCutoff :: "LLMPlanItem \<Rightarrow> bool" where
  "endsPastCutoff item = jsGreater (parseTime (endTime item)) (Finite HARD_END_CUTOFF_MINUTES)"

definition isDropped :: "LLMPlanItem \<Rightarrow> bool" where
  "isDropped item = (\<not> isMainEvent item \<and> endsPastCutoff item)"

lemma convert_warnings_mono:
  "set ws \<subseteq> set (snd (convertLLMItemToItineraryItem item i m date ranked prevEnd prevName c ws))"
  by (auto simp: convertLLMItemToItineraryItem_def Let_def split: option.splits)

lemma loopBody_dropped:
  assumes "isDropped item"
  shows "ls_items (loopBody byName ranked date clock allItems i item st) = ls_items st"
    and "Dropped (item_name item) (endTime item)
           \<in> set (ls_warnings (loopBody byName ranked date clock allItems i item st))"
  using assms
  by (auto simp: loopBody_def convertLLMItemToItineraryItem_def Let_def isDropped_def
      endsPastCutoff_def)

lemma loopBody_kept:
  assumes "\<not> isDropped item"
  shows "\<exists>it. ls_items (loopBody byName ranked date clock allItems i item st) = ls_items st @ [it]
           \<and> it_id it = ItemIndexed i (fst (clock i))"
  using assms
  by (auto simp: loopBody_def convertLLMItemToItineraryItem_def Let_def isDropped_def
      endsPastCutoff_def split: option.splits)

lemma loopBody_origins:
  "map origin (ls_items (loopBody byName ranked date clock allItems i item st))
     = map origin (ls_items st) @ (if isDropped item then [] else [i])"
proof (cases "isDropped item")
  case True
  then show ?thesis by (simp add: loopBody_dropped(1))
next
  case False
  from loopBody_kept [OF this, of byName ranked date clock allItems i st]
  obtain it where "ls_items (loopBody byName ranked date clock allItems i item st) = ls_items st @ [it]"
    "it_id it = ItemIndexed i (fst (clock i))"
    by blast
  then show ?thesis using False by (simp add: origin_def)
qed

lemma loopBody_ids:
  assumes "\<forall>it\<in>set (ls_items st). it_id it = ItemIndexed (origin it) (fst (clock (origin it)))"
  shows "\<forall>it\<in>set (ls_items (loopBody byName ranked date clock allItems i item st)).
           it_id it = ItemIndexed (origin it) (fst (clock (origin it)))"
proof (cases "isDropped item")
  case True
  then show ?thesis using assms by (simp add: loopBody_dropped(1))
next
  case False
  from loopBody_kept [OF this, of byName ranked date clock allItems i st]
  obtain it where "ls_items (loopBody byName ranked date clock allItems i item st) = ls_items st @ [it]"
    "it_id it = ItemIndexed i (fst (clock i))"
    by blast
  then show ?thesis using assms by (auto simp: origin_def)
qed

lemma convertLoop_origins:
  assumes "allItems = pre @ its" "i = length pre"
  shows "map origin (ls_items (convertLoop byName ranked date clock allItems i its st))
     = map origin (ls_items st) @ filter (\<lambda>k. \<not> isDropped (allItems ! k)) [i..<i + length its]"
  using assms
proof (induction its arbitrary: pre i st)
  case Nil
  then show ?case by simp
next
  case (Cons item rest)
  have nth: "allItems ! i = item"
    using Cons.prems by simp
  have next_pre: "allItems = (pre @ [item]) @ rest" "Suc i = length (pre @ [item])"
    using Cons.prems by simp_all
  have upt: "[i..<i + length (item # rest)] = i # [Suc i..<Suc i + length rest]"
    by (subst upt_rec) simp
  show ?case
    unfolding upt
    by (simp add: Cons.IH [OF next_pre] loopBody_origins nth)
qed

lemma convertLoop_ids:
  assumes "\<forall>it\<in>set (ls_items st). it_id it = ItemIndexed (origin it) (fst (clock (origin it)))"
  shows "\<forall>it\<in>set (ls_items (convertLoop byName ranked date clock allItems i its st)).
           it_id it = ItemIndexed (origin it) (fst (clock (origin it)))"
  using assms
proof (induction its arbitrary: i st)
  case Nil
  then show ?case by simp
next
  case (Cons item rest)
  show ?case
    using Cons.IH [OF loopBody_ids [OF Cons.prems, of byName ranked date allItems i item], of "Suc i"]
    by simp
qed

lemma fst_validateTimeSequencing:
  "fst (validateTimeSequencing engine its ws)
     = sortByKey engine (\<lambda>it. getTime (slot_start (scheduledTime it))) its"
  by (auto simp: validateTimeSequencing_def Let_def split: option.splits prod.splits)

lemma applyItemCap_items:
  "plan_items (fst (applyItemCap engine plan ws)) =
     (if length (plan_items plan) \<le> 4 then plan_items plan
      else sortByKey engine (\<lambda>i. parseTime (startTime i))
             (filter isMainEvent (plan_items plan) @
              take (4 - length (filter isMainEvent (plan_items plan)))
                (filter (\<lambda>i. \<not> isMainEvent i) (plan_items plan))))"
proof -
  have "nat (max 0 (4 - int (length (filter isMainEvent (plan_items plan)))))
          = 4 - length (filter isMainEvent (plan_items plan))"
    by simp
  then show ?thesis
    by (simp add: applyItemCap_def MAX_ITINERARY_ITEMS_def Let_def)
qed

lemma applyItemCap_length:
  assumes "permutes engine"
  shows "length (plan_items (fst (applyItemCap engine plan ws)))
     \<le> max 4 (length (filter isMainEvent (plan_items plan)))"
  by (auto simp: applyItemCap_items length_sortByKey [OF assms] min_def max_def)

lemma tool_items:
  "parseLLMPlan raw = Some plan \<Longrightarrow>
   it_items (out_itinerary (planItineraryTool engine raw ranked date budgetMax partySize clock now idNow)) =
     sortByKey engine (\<lambda>it. getTime (slot_start (scheduledTime it)))
      (ls_items (convertLoop (buildEventsByName ranked) ranked date clock
       (plan_items (fst (applyItemCap engine plan []))) 0 (plan_items (fst (applyItemCap engine plan [])))
       \<lparr>ls_items = [], ls_totalCostPerPerson = 0, ls_totalDurationMinutes = 0,
        ls_prevEndMinutes = None, ls_warnings = snd (applyItemCap engine plan [])\<rparr>))"
  by (simp add: planItineraryTool_def Let_def fst_validateTimeSequencing)


lemma tool_origins:
  assumes "parseLLMPlan raw = Some plan" and "permutes engine"
  shows "mset (map origin (it_items (out_itinerary
            (planItineraryTool engine raw ranked date budgetMax partySize clock now idNow))))
       = mset (filter (\<lambda>k. \<not> isDropped (plan_items (fst (applyItemCap engine plan [])) ! k))
                 [0..<length (plan_items (fst (applyItemCap engine plan [])))])"
proof -
  let ?capped = "plan_items (fst (applyItemCap engine plan []))"
  let ?final = "convertLoop (buildEventsByName ranked) ranked date clock ?capped 0 ?capped
       \<lparr>ls_items = [], ls_totalCostPerPerson = 0, ls_totalDurationMinutes = 0,
        ls_prevEndMinutes = None, ls_warnings = snd (applyItemCap engine plan [])\<rparr>"
  have "mset (map origin (sortByKey engine (\<lambda>it. getTime (slot_start (scheduledTime it)))
            (ls_items ?final)))
      = image_mset origin (mset (sortByKey engine (\<lambda>it. getTime (slot_start (scheduledTime it)))
            (ls_items ?final)))"
    by simp
  also have "\<dots> = image_mset origin (mset (ls_items ?final))"
    by (simp only: mset_sortByKey [OF assms(2)])
  also have "\<dots> = mset (map origin (ls_items ?final))"
    by simp
  also have "\<dots> = mset (filter (\<lambda>k. \<not> isDropped (?capped ! k)) [0..<length ?capped])"
    using convertLoop_origins [of ?capped "[]" ?capped 0 "buildEventsByName ranked" ranked date clock]
    by simp
  finally show ?thesis
    by (simp only: tool_items [OF assms(1)])
qed

lemma tool_ids:
  assumes "parseLLMPlan raw = Some plan" and "permutes engine"
  shows "\<forall>it\<in>set (it_items (out_itinerary
            (planItineraryTool engine raw ranked date budgetMax partySize clock now idNow))).
           it_id it = ItemIndexed (origin it) (fst (clock (origin it)))"
  using convertLoop_ids [of "\<lparr>ls_items = [], ls_totalCostPerPerson = 0, ls_totalDurationMinutes = 0,
        ls_prevEndMinutes = None, ls_warnings = snd (applyItemCap engine plan [])\<rparr>" clock
      "buildEventsByName ranked" ranked date "plan_items (fst (applyItemCap engine plan []))" 0
      "plan_items (fst (applyItemCap engine plan []))"]
  by (simp add: tool_items [OF assms(1)] set_sortByKey [OF assms(2)])

lemma tool_sorted:
  assumes "parseLLMPlan raw = Some plan" and "permutes engine"
    and "\<forall>it\<in>set (it_items (out_itinerary
            (planItineraryTool engine raw ranked date budgetMax partySize clock now idNow))).
           slot_start (scheduledTime it) \<noteq> None"
  shows "sorted (map (\<lambda>it. the (slot_start (scheduledTime it)))
           (it_items (out_itinerary
              (planItineraryTool engine raw ranked date budgetMax partySize clock now idNow))))"
proof -
  let ?capped = "plan_items (fst (applyItemCap engine plan []))"
  let ?final = "convertLoop (buildEventsByName ranked) ranked date clock ?capped 0 ?capped
       \<lparr>ls_items = [], ls_totalCostPerPerson = 0, ls_totalDurationMinutes = 0,
        ls_prevEndMinutes = None, ls_warnings = snd (applyItemCap engine plan [])\<rparr>"
  let ?key = "\<lambda>it. getTime (slot_start (scheduledTime it))"
  have valid: "\<forall>it\<in>set (ls_items ?final). slot_start (scheduledTime it) \<noteq> None"
    using assms(3) by (simp add: tool_items [OF assms(1)] set_sortByKey [OF assms(2)])
  then have fin: "list_all (\<lambda>it. isFiniteNumber (?key it)) (ls_items ?final)"
    by (auto simp: list_all_iff getTime_def isFiniteNumber_def)
  have srt: "sorted (map (\<lambda>it. finiteValue (?key it)) (sortByKey engine ?key (ls_items ?final)))"
    using sorted_sortByKey [OF fin] .
  have eq: "map (\<lambda>it. finiteValue (?key it)) (sortByKey engine ?key (ls_items ?final))
      = map (\<lambda>it. (of_int (the (slot_start (scheduledTime it))) :: rat))
          (sortByKey engine ?key (ls_items ?final))"
    using valid by (auto simp: set_sortByKey [OF assms(2)] getTime_def finiteValue_def)
  have "sorted (map (\<lambda>it. (of_int (the (slot_start (scheduledTime it))) :: rat))
          (sortByKey engine ?key (ls_items ?final)))"
    using srt unfolding eq .
  then have "sorted (map (\<lambda>it. the (slot_start (scheduledTime it)))
          (sortByKey engine ?key (ls_items ?final)))"
    by (simp add: sorted_wrt_map)
  then show ?thesis
    by (simp only: tool_items [OF assms(1)])
qed

text \<open>
  C2, as stated, fails: the cap keeps every main event, so a draft with more than four
  main events yields more than four items. \<open>fiveMainPlan\<close> passes validation, its five
  items are all flagged as main events, and the itinerary has five items.
\<close>

theorem item_cap_exceeded_by_main_events:
  "parseLLMPlan (Some fiveMainPlan) = Some fiveMainPlan
   \<and> length (filter isMainEvent (plan_items fiveMainPlan)) = 5
   \<and> length (it_items (out_itinerary
         (planItineraryTool inPlace (Some fiveMainPlan) sampleRanked sampleDate None 1
            sampleClock 5 6))) = 5"
  by code_simp

text \<open>
  C2, amended. For every valid draft plan the returned itinerary has at most \<open>max 4 m\<close>
  items, where \<open>m\<close> is the number of items of the draft flagged as main events (so at
  most 4 when the draft has at most 4 main events). Its items are made, one for one and
  each with the position in its id, from the items of the capped list that are main
  events or do not end after the 23:00 cut-off. The capped list is the draft itself when
  the draft has at most 4 items; when it has more, the capped list holds all main items of
  the draft and the first \<open>4 - m\<close> complementary items in their original order (none when
  \<open>m\<close> is 4 or more), and it is in ascending order of start time whenever every start
  time in it is a finite number for \<open>parseTime\<close>. The returned items are in ascending
  order of their scheduled start whenever every scheduled start is a timestamp. All this
  for an engine whose array sort rearranges the array.
\<close>

theorem item_cap_keeps_main_events:
  assumes "parseLLMPlan raw = Some plan" and "permutes engine"
  shows "length (it_items (out_itinerary
            (planItineraryTool engine raw ranked date budgetMax partySize clock now idNow)))
           \<le> max 4 (length (filter isMainEvent (plan_items plan)))
       \<and> mset (map origin (it_items (out_itinerary
            (planItineraryTool engine raw ranked date budgetMax partySize clock now idNow))))
           = mset (filter (\<lambda>k. \<not> isDropped (plan_items (fst (applyItemCap engine plan [])) ! k))
                     [0..<length (plan_items (fst (applyItemCap engine plan [])))])
       \<and> (\<forall>it\<in>set (it_items (out_itinerary
            (planItineraryTool engine raw ranked date budgetMax partySize clock now idNow))).
             it_id it = ItemIndexed (origin it) (fst (clock (origin it))))
       \<and> (length (plan_items plan) \<le> 4 \<longrightarrow>
            plan_items (fst (applyItemCap engine plan [])) = plan_items plan)
       \<and> (length (plan_items plan) > 4 \<longrightarrow>
            mset (filter isMainEvent (plan_items (fst (applyItemCap engine plan []))))
              = mset (filter isMainEvent (plan_items plan))
          \<and> mset (filter (\<lambda>i. \<not> isMainEvent i) (plan_items (fst (applyItemCap engine plan []))))
              = mset (take (4 - length (filter isMainEvent (plan_items plan)))
                        (filter (\<lambda>i. \<not> isMainEvent i) (plan_items plan)))
          \<and> ((\<forall>i\<in>set (plan_items (fst (applyItemCap engine plan []))).
                 isFiniteNumber (parseTime (startTime i))) \<longrightarrow>
               sorted (map (\<lambda>i. finiteValue (parseTime (startTime i)))
                 (plan_items (fst (applyItemCap engine plan []))))))
       \<and> ((\<forall>it\<in>set (it_items (out_itinerary
              (planItineraryTool engine raw ranked date budgetMax partySize clock now idNow))).
              slot_start (scheduledTime it) \<noteq> None) \<longrightarrow>
            sorted (map (\<lambda>it. the (slot_start (scheduledTime it)))
              (it_items (out_itinerary
                 (planItineraryTool engine raw ranked date budgetMax partySize clock now idNow)))))"
proof -
  let ?capped = "plan_items (fst (applyItemCap engine plan []))"
  let ?out = "planItineraryTool engine raw ranked date budgetMax partySize clock now idNow"
  let ?M = "filter isMainEvent (plan_items plan)"
  let ?T = "take (4 - length ?M) (filter (\<lambda>i. \<not> isMainEvent i) (plan_items plan))"
  let ?key = "\<lambda>i. parseTime (startTime i)"
  have origins: "mset (map origin (it_items (out_itinerary ?out)))
       = mset (filter (\<lambda>k. \<not> isDropped (?capped ! k)) [0..<length ?capped])"
    using assms by (rule tool_origins)
  have "length (it_items (out_itinerary ?out))
      = length (filter (\<lambda>k. \<not> isDropped (?capped ! k)) [0..<length ?capped])"
    using origins by (metis length_map size_mset)
  also have "\<dots> \<le> length ?capped"
    using length_filter_le [of "\<lambda>k. \<not> isDropped (?capped ! k)" "[0..<length ?capped]"] by simp
  finally have bound: "length (it_items (out_itinerary ?out)) \<le> max 4 (length ?M)"
    using applyItemCap_length [OF assms(2), of plan "[]"] by linarith
  have ids: "\<forall>it\<in>set (it_items (out_itinerary ?out)).
      it_id it = ItemIndexed (origin it) (fst (clock (origin it)))"
    using assms by (rule tool_ids)
  have small: "?capped = plan_items plan" if "length (plan_items plan) \<le> 4"
    using that by (simp add: applyItemCap_items)
  have srt: "mset (filter P (sortByKey engine ?key xs)) = mset (filter P xs)"
    for P and xs :: "LLMPlanItem list"
    using mset_sortByKey [OF assms(2), of ?key xs] by (metis mset_filter)
  have TT: "filter (\<lambda>i. \<not> isMainEvent i) ?T = ?T"
    by (rule filter_True) (auto dest: in_set_takeD)
  have TM: "filter isMainEvent ?T = []"
    by (auto simp: filter_empty_conv dest: in_set_takeD)
  have MM: "filter isMainEvent ?M = ?M" and MT: "filter (\<lambda>i. \<not> isMainEvent i) ?M = []"
    by (simp_all add: filter_empty_conv)
  have kept_main: "mset (filter isMainEvent (sortByKey engine ?key (?M @ ?T))) = mset ?M"
    unfolding srt filter_append TM MM by simp
  have kept_comp: "mset (filter (\<lambda>i. \<not> isMainEvent i) (sortByKey engine ?key (?M @ ?T))) = mset ?T"
    unfolding srt filter_append TT MT by simp
  have capped_sorted: "sorted (map (\<lambda>i. finiteValue (?key i)) (sortByKey engine ?key (?M @ ?T)))"
    if "\<forall>i\<in>set (sortByKey engine ?key (?M @ ?T)). isFiniteNumber (?key i)"
  proof -
    have "list_all (\<lambda>i. isFiniteNumber (?key i)) (?M @ ?T)"
      using that unfolding set_sortByKey [OF assms(2)] by (simp add: list_all_iff)
    then show ?thesis
      by (rule sorted_sortByKey)
  qed
  have large: "mset (filter isMainEvent ?capped) = mset ?M
      \<and> mset (filter (\<lambda>i. \<not> isMainEvent i) ?capped) = mset ?T
      \<and> ((\<forall>i\<in>set ?capped. isFiniteNumber (?key i)) \<longrightarrow>
            sorted (map (\<lambda>i. finiteValue (?key i)) ?capped))"
    if "length (plan_items plan) > 4"
    using that kept_main kept_comp capped_sorted
    by (simp add: applyItemCap_items del: mset_filter)
  have sorted_out: "sorted (map (\<lambda>it. the (slot_start (scheduledTime it)))
      (it_items (out_itinerary ?out)))"
    if "\<forall>it\<in>set (it_items (out_itinerary ?out)). slot_start (scheduledTime it) \<noteq> None"
    using tool_sorted [OF assms that] .
  show ?thesis
    using bound origins ids small large sorted_out by blast
qed

theorem item_cap_keeps_main_events_witness:
  "parseLLMPlan (Some sixItemPlan) = Some sixItemPlan
   \<and> length (filter isMainEvent (plan_items sixItemPlan)) = 2
   \<and> map item_name (plan_items (fst (applyItemCap inPlace sixItemPlan [])))
       = [''Brunch'', ''HallyuCon Mar 26'', ''Late drinks'', ''Night show'']
   \<and> length (it_items (out_itinerary
         (planItineraryTool inPlace (Some sixItemPlan) sampleRanked sampleDate None 1
            sampleClock 5 6))) \<le> 4
   \<and> mset (map origin (it_items (out_itinerary
         (planItineraryTool inPlace (Some sixItemPlan) sampleRanked sampleDate None 1
            sampleClock 5 6)))) = mset [0, 1, 3]
   \<and> sorted (map (\<lambda>it. the (slot_start (scheduledTime it)))
        (it_items (out_itinerary
           (planItineraryTool inPlace (Some sixItemPlan) sampleRanked sampleDate None 1
              sampleClock 5 6))))"
proof -
  have h: "parseLLMPlan (Some sixItemPlan) = Some sixItemPlan"
    by code_simp
  have m: "length (filter isMainEvent (plan_items sixItemPlan)) = 2"
    by code_simp
  have n: "map item_name (plan_items (fst (applyItemCap inPlace sixItemPlan [])))
       = [''Brunch'', ''HallyuCon Mar 26'', ''Late drinks'', ''Night show'']"
    by code_simp
  have kept: "filter (\<lambda>k. \<not> isDropped (plan_items (fst (applyItemCap inPlace sixItemPlan [])) ! k))
       [0..<length (plan_items (fst (applyItemCap inPlace sixItemPlan [])))] = [0, 1, 3]"
    by code_simp
  have starts: "\<forall>it\<in>set (it_items (out_itinerary
         (planItineraryTool inPlace (Some sixItemPlan) sampleRanked sampleDate None 1
            sampleClock 5 6))). slot_start (scheduledTime it) \<noteq> None"
    by code_simp
  note inst = item_cap_keeps_main_events
    [OF h permutes_inPlace, of sampleRanked sampleDate None 1 sampleClock 5 6]
  have b: "length (it_items (out_itinerary
         (planItineraryTool inPlace (Some sixItemPlan) sampleRanked sampleDate None 1
            sampleClock 5 6))) \<le> 4"
    using inst [THEN conjunct1] m by simp
  have o: "mset (map origin (it_items (out_itinerary
         (planItineraryTool inPlace (Some sixItemPlan) sampleRanked sampleDate None 1
            sampleClock 5 6)))) = mset [0, 1, 3]"
    using inst [THEN conjunct2, THEN conjunct1] by (simp only: kept)
  have s: "sorted (map (\<lambda>it. the (slot_start (scheduledTime it)))
        (it_items (out_itinerary
           (planItineraryTool inPlace (Some sixItemPlan) sampleRanked sampleDate None 1
              sampleClock 5 6))))"
    using inst [THEN conjunct2, THEN conjunct2, THEN conjunct2, THEN conjunct2, THEN conjunct2]
      starts
    by (rule mp)
  show ?thesis
    using h m n b o s by (intro conjI)
qed

lemma loopBody_items:
  "ls_items (loopBody byName ranked date clock allItems i item st) = ls_items st
   \<or> (\<exists>it. ls_items (loopBody byName ranked date clock allItems i item st) = ls_items st @ [it])"
  using loopBody_dropped(1) [of item byName ranked date clock allItems i st]
    loopBody_kept [of item byName ranked date clock allItems i st]
  by blast

lemma loopBody_warnings_mono:
  "set (ls_warnings st) \<subseteq> set (ls_warnings (loopBody byName ranked date clock allItems i item st))"
  by (auto simp: loopBody_def convertLLMItemToItineraryItem_def Let_def split: option.splits)

lemma loopBody_items_mono:
  "set (ls_items st) \<subseteq> set (ls_items (loopBody byName ranked date clock allItems i item st))"
  using loopBody_items [of byName ranked date clock allItems i item st] by auto

lemma loopBody_main_matched:
  assumes "isMainEvent item" "fuzzyMatchEvent (item_name item) byName = Some r"
  shows "\<exists>it. ls_items (loopBody byName ranked date clock allItems i item st) = ls_items st @ [it]
           \<and> it_id it = ItemIndexed i (fst (clock i))
           \<and> it_event it = rk_event r
           \<and> scheduledTime it = timeSlot (rk_event r)"
    and "startTime item \<noteq> extractTimeFromISO (slot_start (timeSlot (rk_event r)))
         \<or> endTime item \<noteq> extractTimeFromISO (slot_end (timeSlot (rk_event r)))
         \<Longrightarrow> TimeCorrection (item_name item) (startTime item) (endTime item)
               (extractTimeFromISO (slot_start (timeSlot (rk_event r))))
               (extractTimeFromISO (slot_end (timeSlot (rk_event r))))
             \<in> set (ls_warnings (loopBody byName ranked date clock allItems i item st))"
  using assms
  by (auto simp: loopBody_def convertLLMItemToItineraryItem_def Let_def)

lemma convertLoop_mono:
  "set (ls_items st) \<subseteq> set (ls_items (convertLoop byName ranked date clock allItems i its st))
   \<and> set (ls_warnings st) \<subseteq> set (ls_warnings (convertLoop byName ranked date clock allItems i its st))"
proof (induction its arbitrary: i st)
  case Nil
  show ?case by simp
next
  case (Cons item rest)
  show ?case
    using Cons.IH [where i = "Suc i" and st = "loopBody byName ranked date clock allItems i item st"]
      loopBody_items_mono [of st byName ranked date clock allItems i item]
      loopBody_warnings_mono [of st byName ranked date clock allItems i item]
    by auto
qed

text \<open>Every position of the list is processed by the loop body, and what it adds stays.\<close>

lemma convertLoop_step:
  "k < length its \<Longrightarrow>
   \<exists>st'. set (ls_items (loopBody byName ranked date clock allItems (i + k) (its ! k) st'))
            \<subseteq> set (ls_items (convertLoop byName ranked date clock allItems i its st))
       \<and> set (ls_warnings (loopBody byName ranked date clock allItems (i + k) (its ! k) st'))
            \<subseteq> set (ls_warnings (convertLoop byName ranked date clock allItems i its st))"
proof (induction its arbitrary: i st k)
  case Nil
  then show ?case by simp
next
  case (Cons item rest)
  show ?case
  proof (cases k)
    case 0
    show ?thesis
      using convertLoop_mono [where st = "loopBody byName ranked date clock allItems i item st"
          and byName = byName and ranked = ranked and date = date and clock = clock
          and allItems = allItems and i = "Suc i" and its = rest] 0
      by (intro exI [of _ st]) simp
  next
    case (Suc k')
    with Cons.prems have "k' < length rest" by simp
    from Cons.IH [OF this, where i = "Suc i"
        and st = "loopBody byName ranked date clock allItems i item st"]
    show ?thesis using Suc by simp
  qed
qed

lemma applyItemCap_keeps_main:
  "permutes engine \<Longrightarrow> item \<in> set (plan_items plan) \<Longrightarrow> isMainEvent item
   \<Longrightarrow> item \<in> set (plan_items (fst (applyItemCap engine plan ws)))"
  by (simp add: applyItemCap_items set_sortByKey)

text \<open>A time-correction warning is only ever recorded for times that differ.\<close>

definition differing :: "Warning \<Rightarrow> bool" where
  "differing w =
     (case w of
        TimeCorrection itemName start end realStart realEnd \<Rightarrow> start \<noteq> realStart \<or> end \<noteq> realEnd
      | _ \<Rightarrow> True)"

lemma loopBody_differing:
  assumes "list_all differing (ls_warnings st)"
  shows "list_all differing (ls_warnings (loopBody byName ranked date clock allItems i item st))"
  using assms
  by (auto simp: loopBody_def convertLLMItemToItineraryItem_def gapWarnings_def Let_def
      differing_def split: option.splits)

lemma convertLoop_differing:
  assumes "list_all differing (ls_warnings st)"
  shows "list_all differing (ls_warnings (convertLoop byName ranked date clock allItems i its st))"
  using assms
proof (induction its arbitrary: i st)
  case Nil
  then show ?case by simp
next
  case (Cons item rest)
  show ?case
    using Cons.IH [OF loopBody_differing [OF Cons.prems, of byName ranked date clock allItems i item],
        of "Suc i"]
    by simp
qed

lemma tool_differing:
  assumes "parseLLMPlan raw = Some plan"
  shows "list_all differing
     (out_warnings (planItineraryTool engine raw ranked date budgetMax partySize clock now idNow))"
proof -
  have cap: "list_all differing (snd (applyItemCap engine plan []))"
    by (simp add: applyItemCap_def Let_def differing_def)
  have loop: "list_all differing
     (ls_warnings (convertLoop (buildEventsByName ranked) ranked date clock
       (plan_items (fst (applyItemCap engine plan []))) 0 (plan_items (fst (applyItemCap engine plan [])))
       \<lparr>ls_items = [], ls_totalCostPerPerson = 0, ls_totalDurationMinutes = 0,
        ls_prevEndMinutes = None, ls_warnings = snd (applyItemCap engine plan [])\<rparr>))"
    by (rule convertLoop_differing) (simp add: cap)
  have seq: "list_all differing (snd (validateTimeSequencing engine its ws))"
    if "list_all differing ws" for its ws
    using that
    by (auto simp: validateTimeSequencing_def Let_def differing_def split: option.splits)
  have bud: "list_all differing (validateBudget total budgetMax ws)"
    if "list_all differing ws" for total ws
    using that by (auto simp: validateBudget_def differing_def split: option.splits)
  show ?thesis
    using bud [OF seq [OF loop]] by (simp add: planItineraryTool_def assms Let_def)
qed

lemma tool_warnings:
  "parseLLMPlan raw = Some plan \<Longrightarrow>
   set (ls_warnings (convertLoop (buildEventsByName ranked) ranked date clock
       (plan_items (fst (applyItemCap engine plan []))) 0 (plan_items (fst (applyItemCap engine plan [])))
       \<lparr>ls_items = [], ls_totalCostPerPerson = 0, ls_totalDurationMinutes = 0,
        ls_prevEndMinutes = None, ls_warnings = snd (applyItemCap engine plan [])\<rparr>))
   \<subseteq> set (out_warnings (planItineraryTool engine raw ranked date budgetMax partySize clock now idNow))"
  by (auto simp: planItineraryTool_def Let_def validateTimeSequencing_def validateBudget_def
      split: option.splits prod.splits)

text \<open>
  C3, as stated, fails in its second half: the warning is decided by comparing the time
  strings of the draft with the Singapore time of day of the real event, and the date is
  not looked at. The draft of \<open>otherDayPlan\<close> for 8 March proposes 12:00 to 20:00; the
  item stands for 8 March 12:00 to 20:00. It is matched to the real event of 7 March
  12:00 to 20:00 and is scheduled there, a day away from what the draft proposed, and the
  result has no warning at all.
\<close>

theorem main_event_moved_a_day_unwarned:
  "parseLLMPlan (Some otherDayPlan) = Some otherDayPlan
   \<and> fuzzyMatchEvent ''HallyuCon Mar 26'' (buildEventsByName sampleRanked) = Some sampleMatch
   \<and> buildDatetime nextDay ''12:00'' = Some 1772942400000
   \<and> buildDatetime nextDay ''20:00'' = Some 1772971200000
   \<and> map scheduledTime (it_items (out_itinerary
         (planItineraryTool inPlace (Some otherDayPlan) sampleRanked nextDay None 1 sampleClock 5 6)))
       = [\<lparr>slot_start = Some 1772856000000, slot_end = Some 1772884800000\<rparr>]
   \<and> out_warnings
         (planItineraryTool inPlace (Some otherDayPlan) sampleRanked nextDay None 1 sampleClock 5 6)
       = []"
  by code_simp

text \<open>
  C3, amended. Take a valid draft plan and one of its items that is flagged as a main
  event and that \<open>fuzzyMatchEvent\<close> matches to the ranked event \<open>r\<close>. Then the itinerary
  holds an item, made from that draft item (its id carries the position of the draft item
  in the capped plan), whose event is the event of \<open>r\<close> and whose scheduled start and end
  are exactly the start and end of the time slot of that event, whatever times the draft
  proposed. And the warnings of the result hold the time-correction warning that names
  the times of the draft and of the event exactly when the start or end string of the
  draft differs from the Singapore time of day \<open>HH:MM\<close> of the real start or end; the
  date plays no part. This for an engine whose array sort rearranges the array.
\<close>

theorem main_event_time_override:
  assumes "parseLLMPlan raw = Some plan" and "permutes engine"
    and "item \<in> set (plan_items plan)" and "isMainEvent item"
    and "fuzzyMatchEvent (item_name item) (buildEventsByName ranked) = Some r"
  shows "(\<exists>it k. it \<in> set (it_items (out_itinerary
                    (planItineraryTool engine raw ranked date budgetMax partySize clock now idNow)))
            \<and> k < length (plan_items (fst (applyItemCap engine plan [])))
            \<and> plan_items (fst (applyItemCap engine plan [])) ! k = item
            \<and> it_id it = ItemIndexed k (fst (clock k))
            \<and> it_event it = rk_event r
            \<and> slot_start (scheduledTime it) = slot_start (timeSlot (rk_event r))
            \<and> slot_end (scheduledTime it) = slot_end (timeSlot (rk_event r)))
       \<and> (TimeCorrection (item_name item) (startTime item) (endTime item)
                (extractTimeFromISO (slot_start (timeSlot (rk_event r))))
                (extractTimeFromISO (slot_end (timeSlot (rk_event r))))
              \<in> set (out_warnings
                    (planItineraryTool engine raw ranked date budgetMax partySize clock now idNow))
          \<longleftrightarrow> startTime item \<noteq> extractTimeFromISO (slot_start (timeSlot (rk_event r)))
              \<or> endTime item \<noteq> extractTimeFromISO (slot_end (timeSlot (rk_event r))))"
proof -
  let ?capped = "plan_items (fst (applyItemCap engine plan []))"
  let ?byName = "buildEventsByName ranked"
  let ?st0 = "\<lparr>ls_items = [], ls_totalCostPerPerson = 0, ls_totalDurationMinutes = 0,
        ls_prevEndMinutes = None, ls_warnings = snd (applyItemCap engine plan [])\<rparr>"
  let ?final = "convertLoop ?byName ranked date clock ?capped 0 ?capped ?st0"
  let ?out = "planItineraryTool engine raw ranked date budgetMax partySize clock now idNow"
  have "item \<in> set ?capped"
    using applyItemCap_keeps_main [OF assms(2,3,4)] .
  then obtain k where k: "k < length ?capped" "?capped ! k = item"
    by (auto simp: in_set_conv_nth)
  from convertLoop_step [OF k(1), of ?byName ranked date clock ?capped 0 ?st0]
  obtain st' where st':
    "set (ls_items (loopBody ?byName ranked date clock ?capped k item st')) \<subseteq> set (ls_items ?final)"
    "set (ls_warnings (loopBody ?byName ranked date clock ?capped k item st')) \<subseteq> set (ls_warnings ?final)"
    using k(2) by auto
  from loopBody_main_matched(1) [OF assms(4,5), of ranked date clock ?capped k st']
  obtain it where it:
    "ls_items (loopBody ?byName ranked date clock ?capped k item st') = ls_items st' @ [it]"
    "it_id it = ItemIndexed k (fst (clock k))" "it_event it = rk_event r"
    "scheduledTime it = timeSlot (rk_event r)"
    by blast
  have "it \<in> set (ls_items ?final)"
    using st'(1) it(1) by auto
  then have mem: "it \<in> set (it_items (out_itinerary ?out))"
    by (simp add: tool_items [OF assms(1)] set_sortByKey [OF assms(2)])
  have part1: "\<exists>it k. it \<in> set (it_items (out_itinerary ?out))
            \<and> k < length ?capped \<and> ?capped ! k = item
            \<and> it_id it = ItemIndexed k (fst (clock k))
            \<and> it_event it = rk_event r
            \<and> slot_start (scheduledTime it) = slot_start (timeSlot (rk_event r))
            \<and> slot_end (scheduledTime it) = slot_end (timeSlot (rk_event r))"
    using mem k it(2,3,4) by (intro exI [of _ it] exI [of _ k]) simp
  have part2: "TimeCorrection (item_name item) (startTime item) (endTime item)
                (extractTimeFromISO (slot_start (timeSlot (rk_event r))))
                (extractTimeFromISO (slot_end (timeSlot (rk_event r))))
              \<in> set (out_warnings ?out)"
    if "startTime item \<noteq> extractTimeFromISO (slot_start (timeSlot (rk_event r)))
          \<or> endTime item \<noteq> extractTimeFromISO (slot_end (timeSlot (rk_event r)))"
    using loopBody_main_matched(2) [OF assms(4,5) that, of ranked date clock ?capped k st']
      st'(2) tool_warnings [OF assms(1), of ranked date clock engine budgetMax partySize now idNow]
    by blast
  have part3: "startTime item \<noteq> extractTimeFromISO (slot_start (timeSlot (rk_event r)))
          \<or> endTime item \<noteq> extractTimeFromISO (slot_end (timeSlot (rk_event r)))"
    if "TimeCorrection (item_name item) (startTime item) (endTime item)
                (extractTimeFromISO (slot_start (timeSlot (rk_event r))))
                (extractTimeFromISO (slot_end (timeSlot (rk_event r))))
              \<in> set (out_warnings ?out)"
    using that tool_differing [OF assms(1), of engine ranked date budgetMax partySize clock now idNow]
    by (auto simp: list_all_iff differing_def)
  show ?thesis
    using part1 part2 part3 by blast
qed

theorem main_event_time_override_witness:
  "parseLLMPlan (Some sixItemPlan) = Some sixItemPlan
   \<and> sampleMainItem \<in> set (plan_items sixItemPlan)
   \<and> isMainEvent sampleMainItem
   \<and> fuzzyMatchEvent (item_name sampleMainItem) (buildEventsByName sampleRanked) = Some sampleMatch
   \<and> startTime sampleMainItem = ''13:00''
   \<and> extractTimeFromISO (slot_start (timeSlot (rk_event sampleMatch))) = ''12:00''
   \<and> (\<exists>it k. it \<in> set (it_items (out_itinerary
                    (planItineraryTool inPlace (Some sixItemPlan) sampleRanked sampleDate None 1
                       sampleClock 5 6)))
            \<and> k < length (plan_items (fst (applyItemCap inPlace sixItemPlan [])))
            \<and> plan_items (fst (applyItemCap inPlace sixItemPlan [])) ! k = sampleMainItem
            \<and> it_id it = ItemIndexed k (fst (sampleClock k))
            \<and> it_event it = rk_event sampleMatch
            \<and> slot_start (scheduledTime it) = slot_start (timeSlot (rk_event sampleMatch))
            \<and> slot_end (scheduledTime it) = slot_end (timeSlot (rk_event sampleMatch)))
   \<and> TimeCorrection (item_name sampleMainItem) (startTime sampleMainItem) (endTime sampleMainItem)
         (extractTimeFromISO (slot_start (timeSlot (rk_event sampleMatch))))
         (extractTimeFromISO (slot_end (timeSlot (rk_event sampleMatch))))
       \<in> set (out_warnings
             (planItineraryTool inPlace (Some sixItemPlan) sampleRanked sampleDate None 1
                sampleClock 5 6))"
proof -
  have h1: "parseLLMPlan (Some sixItemPlan) = Some sixItemPlan"
    by code_simp
  have h2: "sampleMainItem \<in> set (plan_items sixItemPlan)"
    by code_simp
  have h3: "isMainEvent sampleMainItem"
    by code_simp
  have h4: "fuzzyMatchEvent (item_name sampleMainItem) (buildEventsByName sampleRanked)
              = Some sampleMatch"
    by code_simp
  have s: "startTime sampleMainItem = ''13:00''"
    by code_simp
  have e: "extractTimeFromISO (slot_start (timeSlot (rk_event sampleMatch))) = ''12:00''"
    by code_simp
  have d: "startTime sampleMainItem
             \<noteq> extractTimeFromISO (slot_start (timeSlot (rk_event sampleMatch)))
           \<or> endTime sampleMainItem
             \<noteq> extractTimeFromISO (slot_end (timeSlot (rk_event sampleMatch)))"
    by (simp add: s e)
  note inst = main_event_time_override
    [OF h1 permutes_inPlace h2 h3 h4, of sampleDate None 1 sampleClock 5 6]
  show ?thesis
    using h1 h2 h3 h4 s e inst [THEN conjunct1] inst [THEN conjunct2, THEN iffD2, OF d]
    by (intro conjI)
qed

text \<open>
  C4. The claim is not met by the code for a main event that ends after midnight. The
  conversion compares the minutes since midnight of the end with \<open>HARD_END_CUTOFF_MINUTES\<close>
  and means to warn for a main item past it; for a matched main item the end is the time
  of day of the real end, which \<open>extractTimeFromISO\<close> reduces modulo 24 hours. In
  \<open>lateNightPlan\<close> the only item is the main event, matched to a real event from 20:00 to
  00:30 of the next day: the item is kept, its end is later than 23:00 of the itinerary
  date (the instant \<open>buildDatetime\<close> gives for \<open>23:00\<close>), and the result has no warning at
  all; the unmatched main item of \<open>sixItemPlan\<close> that ends at 23:45 does get the warning.
  Likewise the complementary item of \<open>suffixPlan\<close>, whose end \<open>11:30 PM\<close> is no number for
  \<open>parseTime\<close>, is kept without a warning, with an end that is no timestamp.
\<close>

theorem main_event_after_midnight_unwarned:
  "parseLLMPlan (Some lateNightPlan) = Some lateNightPlan
   \<and> map scheduledTime (it_items (out_itinerary
         (planItineraryTool inPlace (Some lateNightPlan) lateNightRanked sampleDate None 1
            sampleClock 5 6)))
       = [\<lparr>slot_start = Some 1772884800000, slot_end = Some 1772901000000\<rparr>]
   \<and> buildDatetime sampleDate ''23:00'' = Some 1772895600000
   \<and> extractTimeFromISO (Some 1772901000000) = ''00:30''
   \<and> out_warnings
         (planItineraryTool inPlace (Some lateNightPlan) lateNightRanked sampleDate None 1
            sampleClock 5 6) = []
   \<and> MainPastCutoff ''Night show'' ''23:45''
       \<in> set (out_warnings
             (planItineraryTool inPlace (Some sixItemPlan) sampleRanked sampleDate None 1
                sampleClock 5 6))
   \<and> parseLLMPlan (Some suffixPlan) = Some suffixPlan
   \<and> map scheduledTime (it_items (out_itinerary
         (planItineraryTool inPlace (Some suffixPlan) sampleRanked sampleDate None 1
            sampleClock 5 6)))
       = [\<lparr>slot_start = Some 1772892000000, slot_end = None\<rparr>]
   \<and> out_warnings
         (planItineraryTool inPlace (Some suffixPlan) sampleRanked sampleDate None 1
            sampleClock 5 6) = []"
  by code_simp

section \<open>Properties of the retry wrapper\<close>

lemma attemptBody_sleeps_before_last:
  "attemptBody k retries outcome = Continue None caught \<Longrightarrow> \<not> k < retries"
  by (auto simp: attemptBody_def catchBlock_def split: FetchOutcome.splits Thrown.splits sum.splits if_splits)

lemma fetchLoop_extends:
  "\<exists>ext. run_sleeps (fetchLoop fetch retries a le sl) = sl @ ext"
proof (induction fetch retries a le sl rule: fetchLoop.induct)
  case (1 fetch retries attempt lastError sleeps)
  show ?case
  proof (cases "attempt \<le> retries")
    case False
    then show ?thesis by (simp add: fetchLoop.simps)
  next
    case True
    show ?thesis
    proof (cases "attemptBody attempt retries (fetch attempt)")
      case (Return r)
      then show ?thesis using True by (simp add: fetchLoop.simps)
    next
      case (Throw e)
      then show ?thesis using True by (simp add: fetchLoop.simps)
    next
      case (Continue slept caught)
      from "1.IH" [OF True Continue]
      obtain ext where "run_sleeps (fetchLoop fetch retries (Suc attempt)
               (case caught of None \<Rightarrow> lastError | Some e \<Rightarrow> Some e)
               (case slept of None \<Rightarrow> sleeps | Some ms \<Rightarrow> sleeps @ [ms]))
            = (case slept of None \<Rightarrow> sleeps | Some ms \<Rightarrow> sleeps @ [ms]) @ ext"
        by blast
      then show ?thesis
        using True Continue
        by (subst fetchLoop.simps) (auto split: option.splits)
    qed
  qed
qed

lemma fetchLoop_calls:
  "a \<le> Suc retries \<Longrightarrow>
   a \<le> run_calls (fetchLoop fetch retries a le sl)
   \<and> run_calls (fetchLoop fetch retries a le sl) \<le> Suc retries
   \<and> (a \<le> retries \<longrightarrow> a < run_calls (fetchLoop fetch retries a le sl))"
proof (induction fetch retries a le sl rule: fetchLoop.induct)
  case (1 fetch retries attempt lastError sleeps)
  show ?case
  proof (cases "attempt \<le> retries")
    case False
    then show ?thesis using "1.prems" by (simp add: fetchLoop.simps)
  next
    case True
    show ?thesis
    proof (cases "attemptBody attempt retries (fetch attempt)")
      case (Return r)
      then show ?thesis using True by (simp add: fetchLoop.simps)
    next
      case (Throw e)
      then show ?thesis using True by (simp add: fetchLoop.simps)
    next
      case (Continue slept caught)
      have "Suc attempt \<le> Suc retries" using True by simp
      from "1.IH" [OF True Continue this]
      show ?thesis
        using True Continue by (subst (1 2 3) fetchLoop.simps) auto
    qed
  qed
qed

text \<open>
  What the run does at each iteration it reaches, in terms of the step of that
  iteration.
\<close>

definition stepHonoured :: "FetchRun \<Rightarrow> nat \<Rightarrow> nat \<Rightarrow> Step \<Rightarrow> bool" where
  "stepHonoured run retries k step =
     (case step of
        Return r \<Rightarrow> run_calls run = Suc k \<and> run_result run = Inr r
      | Throw e \<Rightarrow> run_calls run = Suc k \<and> run_result run = Inl e
      | Continue slept caught \<Rightarrow>
          (k < retries \<longrightarrow> Suc k < run_calls run) \<and>
          (case slept of
             None \<Rightarrow> True
           | Some ms \<Rightarrow> k < length (run_sleeps run) \<and> run_sleeps run ! k = ms))"

lemma fetchLoop_steps:
  "a \<le> Suc retries \<Longrightarrow> (a \<le> retries \<longrightarrow> length sl = a) \<Longrightarrow>
   a \<le> k \<Longrightarrow> k < run_calls (fetchLoop fetch retries a le sl) \<Longrightarrow>
   stepHonoured (fetchLoop fetch retries a le sl) retries k (attemptBody k retries (fetch k))"
proof (induction fetch retries a le sl rule: fetchLoop.induct)
  case (1 fetch retries attempt lastError sleeps)
  show ?case
  proof (cases "attempt \<le> retries")
    case False
    then show ?thesis using "1.prems" by (simp add: fetchLoop.simps)
  next
    case True
    then have len: "length sleeps = attempt" using "1.prems"(2) by simp
    show ?thesis
    proof (cases "attemptBody attempt retries (fetch attempt)")
      case (Return r)
      have "k = attempt"
        using True "1.prems"(3,4) Return by (simp add: fetchLoop.simps)
      then show ?thesis
        using True Return by (simp add: fetchLoop.simps stepHonoured_def)
    next
      case (Throw e)
      have "k = attempt"
        using True "1.prems"(3,4) Throw by (simp add: fetchLoop.simps)
      then show ?thesis
        using True Throw by (simp add: fetchLoop.simps stepHonoured_def)
    next
      case (Continue slept caught)
      let ?le = "case caught of None \<Rightarrow> lastError | Some e \<Rightarrow> Some e"
      let ?sl = "case slept of None \<Rightarrow> sleeps | Some ms \<Rightarrow> sleeps @ [ms]"
      let ?next = "fetchLoop fetch retries (Suc attempt) ?le ?sl"
      have unfold: "fetchLoop fetch retries attempt lastError sleeps = ?next"
        using True Continue by (subst fetchLoop.simps) simp
      have a1: "Suc attempt \<le> Suc retries" using True by simp
      have a2: "Suc attempt \<le> retries \<longrightarrow> length ?sl = Suc attempt"
        using len attemptBody_sleeps_before_last [of attempt retries "fetch attempt" caught] Continue
        by (cases slept) auto
      show ?thesis
      proof (cases "k = attempt")
        case False
        then have "Suc attempt \<le> k" using "1.prems"(3) by simp
        from "1.IH" [OF True Continue a1 a2 this] "1.prems"(4)
        show ?thesis by (simp add: unfold)
      next
        case k: True
        have calls: "attempt < retries \<longrightarrow> Suc attempt < run_calls ?next"
          using fetchLoop_calls [OF a1, of fetch ?le ?sl] by simp
        have sleep: "k < length (run_sleeps ?next) \<and> run_sleeps ?next ! k = ms" if "slept = Some ms" for ms
        proof -
          obtain ext where "run_sleeps ?next = ?sl @ ext"
            using fetchLoop_extends [of fetch retries "Suc attempt" ?le ?sl] by blast
          then show ?thesis using that len k by (simp add: nth_append)
        qed
        show ?thesis
          unfolding unfold k stepHonoured_def Continue
          using calls sleep k by (cases slept) auto
      qed
    qed
  qed
qed


text \<open>
  C8, as stated, fails in the number of attempts: the loop runs for
  \<open>attempt = 0, ..., retries\<close>, so with \<open>MAX_RETRIES = 3\<close> a server that always answers
  503 is asked four times, with waits of 1100, 2200, 4400 and 8800 ms.
\<close>

theorem four_attempts_on_server_errors:
  "run_calls (fetchWithRetry always503 MAX_RETRIES) = 4
   \<and> run_sleeps (fetchWithRetry always503 MAX_RETRIES) = [Some 1100, Some 2200, Some 4400, Some 8800]
   \<and> run_result (fetchWithRetry always503 MAX_RETRIES)
       = Inl (ErrorObject ''HTTP request failed after retries'')"
  by code_simp

text \<open>
  C8, amended. With the default \<open>MAX_RETRIES = 3\<close> the wrapper calls \<open>fetch\<close> at least
  once and at most 4 times (the first attempt and up to 3 retries). At every attempt it
  makes: a 2xx response is returned at once; a 429 response is followed by a wait of
  \<open>parseInt(Retry-After) * 1000\<close> ms when the header is present and non-empty, of
  \<open>1100 * 2 ^ attempt\<close> ms otherwise, and by another attempt while fewer than 3 retries
  were made; a response with status 500 or more is followed by a wait of
  \<open>1100 * 2 ^ attempt\<close> ms and another attempt likewise; every other response below 500
  (so every 4xx but 429) whose body can be read makes the wrapper throw
  \<open>HTTP request failed (<status>): <body>\<close> at once, with no further attempt; and a
  thrown \<open>Error\<close> whose message does not itself begin with \<open>HTTP request failed\<close> is, while
  retries remain, followed by a wait of \<open>1100 * 2 ^ attempt\<close> ms and another attempt.
\<close>

theorem retry_policy:
  "1 \<le> run_calls (fetchWithRetry fetch MAX_RETRIES)
   \<and> run_calls (fetchWithRetry fetch MAX_RETRIES) \<le> 4
   \<and> (\<forall>k r. k < run_calls (fetchWithRetry fetch MAX_RETRIES) \<and> fetch k = Responded r \<longrightarrow>
         (resp_ok r \<longrightarrow>
            run_calls (fetchWithRetry fetch MAX_RETRIES) = Suc k
          \<and> run_result (fetchWithRetry fetch MAX_RETRIES) = Inr r)
       \<and> (\<not> resp_ok r \<and> resp_status r = 429 \<longrightarrow>
            run_sleeps (fetchWithRetry fetch MAX_RETRIES) ! k
              = (if truthy (resp_retryAfter r)
                 then map_option (\<lambda>n. n * 1000) (parseInt10 (the (resp_retryAfter r)))
                 else Some (1100 * 2 ^ k))
          \<and> (k < 3 \<longrightarrow> Suc k < run_calls (fetchWithRetry fetch MAX_RETRIES)))
       \<and> (\<not> resp_ok r \<and> resp_status r \<noteq> 429 \<and> resp_status r \<ge> 500 \<longrightarrow>
            run_sleeps (fetchWithRetry fetch MAX_RETRIES) ! k = Some (1100 * 2 ^ k)
          \<and> (k < 3 \<longrightarrow> Suc k < run_calls (fetchWithRetry fetch MAX_RETRIES)))
       \<and> (\<not> resp_ok r \<and> resp_status r \<noteq> 429 \<and> resp_status r < 500 \<longrightarrow>
            (\<forall>body. resp_text r = Inr body \<longrightarrow>
               run_calls (fetchWithRetry fetch MAX_RETRIES) = Suc k
             \<and> run_result (fetchWithRetry fetch MAX_RETRIES)
                 = Inl (ErrorObject (''HTTP request failed ('' @ showNat (resp_status r)
                                     @ ''): '' @ body)))))
   \<and> (\<forall>k message. k < run_calls (fetchWithRetry fetch MAX_RETRIES)
         \<and> fetch k = Threw (ErrorObject message)
         \<and> \<not> startsWith message ''HTTP request failed'' \<and> k < 3 \<longrightarrow>
           run_sleeps (fetchWithRetry fetch MAX_RETRIES) ! k = Some (1100 * 2 ^ k)
         \<and> Suc k < run_calls (fetchWithRetry fetch MAX_RETRIES))"
proof -
  let ?run = "fetchWithRetry fetch MAX_RETRIES"
  have calls: "1 \<le> run_calls ?run" "run_calls ?run \<le> 4"
    using fetchLoop_calls [of 0 MAX_RETRIES fetch None "[]"]
    by (simp_all add: fetchWithRetry_def MAX_RETRIES_def)
  have step: "stepHonoured ?run 3 k (attemptBody k 3 (fetch k))" if "k < run_calls ?run" for k
    using fetchLoop_steps [of 0 MAX_RETRIES "[]" k fetch None] that
    by (simp add: fetchWithRetry_def MAX_RETRIES_def)
  have prefix: "startsWith (''HTTP request failed ('' @ rest) ''HTTP request failed''" for rest
    by simp
  have resp: "(resp_ok r \<longrightarrow> run_calls ?run = Suc k \<and> run_result ?run = Inr r)
       \<and> (\<not> resp_ok r \<and> resp_status r = 429 \<longrightarrow>
            run_sleeps ?run ! k
              = (if truthy (resp_retryAfter r)
                 then map_option (\<lambda>n. n * 1000) (parseInt10 (the (resp_retryAfter r)))
                 else Some (1100 * 2 ^ k))
          \<and> (k < 3 \<longrightarrow> Suc k < run_calls ?run))
       \<and> (\<not> resp_ok r \<and> resp_status r \<noteq> 429 \<and> resp_status r \<ge> 500 \<longrightarrow>
            run_sleeps ?run ! k = Some (1100 * 2 ^ k)
          \<and> (k < 3 \<longrightarrow> Suc k < run_calls ?run))
       \<and> (\<not> resp_ok r \<and> resp_status r \<noteq> 429 \<and> resp_status r < 500 \<longrightarrow>
            (\<forall>body. resp_text r = Inr body \<longrightarrow>
               run_calls ?run = Suc k
             \<and> run_result ?run
                 = Inl (ErrorObject (''HTTP request failed ('' @ showNat (resp_status r)
                                     @ ''): '' @ body))))"
    if "k < run_calls ?run" "fetch k = Responded r" for k r
    using step [OF that(1)] prefix
    by (auto simp: that(2) attemptBody_def catchBlock_def stepHonoured_def backoff_def
        BASE_DELAY_MS_def)
  have thrown: "run_sleeps ?run ! k = Some (1100 * 2 ^ k) \<and> Suc k < run_calls ?run"
    if "k < run_calls ?run" "fetch k = Threw (ErrorObject message)"
      "\<not> startsWith message ''HTTP request failed''" "k < 3" for k message
    using step [OF that(1)] that(3,4)
    by (simp add: that(2) attemptBody_def catchBlock_def stepHonoured_def backoff_def
        BASE_DELAY_MS_def)
  show ?thesis
    using calls resp thrown by blast
qed


theorem retry_policy_witness:
  "run_calls (fetchWithRetry limitedThenMissing MAX_RETRIES) = 2
   \<and> run_sleeps (fetchWithRetry limitedThenMissing MAX_RETRIES) ! 0 = Some 2000
   \<and> run_result (fetchWithRetry limitedThenMissing MAX_RETRIES)
       = Inl (ErrorObject ''HTTP request failed (404): nope'')"
proof -
  let ?run = "fetchWithRetry limitedThenMissing MAX_RETRIES"
  let ?r0 = "\<lparr>resp_status = 429, resp_retryAfter = Some ''2'', resp_text = Inr []\<rparr>"
  let ?r1 = "\<lparr>resp_status = 404, resp_retryAfter = None, resp_text = Inr ''nope''\<rparr>"
  note inst = retry_policy [of limitedThenMissing]
  have two: "parseInt10 ''2'' = Some 2" and code: "showNat 404 = ''404''"
    by code_simp+
  have c0: "0 < run_calls ?run"
    using inst [THEN conjunct1] by simp
  have first: "run_sleeps ?run ! 0 = Some 2000 \<and> Suc 0 < run_calls ?run"
    using inst [THEN conjunct2, THEN conjunct2, THEN conjunct1, rule_format, of 0 ?r0] c0
    by (simp add: limitedThenMissing_def resp_ok_def truthy_def two)
  then have c1: "1 < run_calls ?run"
    by simp
  have second: "run_calls ?run = Suc 1
      \<and> run_result ?run = Inl (ErrorObject ''HTTP request failed (404): nope'')"
    using inst [THEN conjunct2, THEN conjunct2, THEN conjunct1, rule_format, of 1 ?r1] c1
    by (simp add: limitedThenMissing_def resp_ok_def code)
  show ?thesis
    using first second by simp
qed

section \<open>The final status of a booking attempt\<close>

text \<open>
  The attempt gets to the call of \<open>extractConfirmation\<close>: the guards pass, no call before
  it throws, the page opens, no blocking condition is found in the snapshot, and a
  booking button was clicked or an action manual exists.
\<close>

definition reachesExtraction :: "BookingInput \<Rightarrow> Backend \<Rightarrow> bool" where
  "reachesExtraction inp b =
     (in_sourceUrl inp \<noteq> [] \<and> trim (in_sourceUrl inp) \<noteq> [] \<and> in_bookingRequired inp \<and>
      (case fetchActionManual b of
         Inl e \<Rightarrow> False
       | Inr hasManual \<Rightarrow>
           (case browserOpen b of
              Inl e \<Rightarrow> False
            | Inr openResult \<Rightarrow>
                cmd_success openResult \<and>
                (case browserSnapshot b of
                   Inl e \<Rightarrow> False
                 | Inr snapshotResult \<Rightarrow>
                     checkBlockingConditions
                       (toLowerCase (if cmd_success snapshotResult
                                     then cmd_output snapshotResult else [])) = None \<and>
                     (case clickBookingButton b of
                        Inl e \<Rightarrow> False
                      | Inr click \<Rightarrow>
                          (if click_success click then returned (adjustTicketQuantity b)
                           else hasManual) \<and>
                          returned (runCheckoutLoop b) \<and> returned (browserScreenshot b))))))"

definition hasSuccessPhrase :: "string \<Rightarrow> bool" where
  "hasSuccessPhrase allPageText = list_ex (strIncludes (toLowerCase allPageText)) successPhrases"

lemma strIncludes_nonempty: "strIncludes s p \<Longrightarrow> p \<noteq> [] \<Longrightarrow> s \<noteq> []"
  by (cases s) auto

lemma hasSuccessPhrase_nonempty: "hasSuccessPhrase t \<Longrightarrow> t \<noteq> []"
  by (auto simp: hasSuccessPhrase_def successPhrases_def toLowerCase_def
      dest!: strIncludes_nonempty)

lemma matchOrderNumber_nonempty: "matchOrderNumber t = Some code \<Longrightarrow> code \<noteq> [] \<and> t \<noteq> []"
  by (induction t) (auto split: if_splits)

lemma captureCode_nonempty: "captureCode s \<noteq> Some []"
  by (simp add: captureCode_def Let_def split: list.splits)

lemma afterDelimiter_nonempty: "afterDelimiter s \<noteq> Some []"
  unfolding afterDelimiter_def Let_def by (rule captureCode_nonempty)

lemma firstCapture_nonempty: "firstCapture ds s \<noteq> Some []"
  by (induction ds) (auto simp: afterDelimiter_nonempty split: option.splits)

lemma afterKeyword_nonempty: "afterKeyword s \<noteq> Some []"
  unfolding afterKeyword_def by (rule firstCapture_nonempty)

lemma firstKeyword_nonempty: "firstKeyword ks s \<noteq> Some []"
  by (induction ks) (auto simp: afterKeyword_nonempty split: option.splits)

lemma matchConfirmationAt_nonempty: "matchConfirmationAt s \<noteq> Some []"
  unfolding matchConfirmationAt_def by (rule firstKeyword_nonempty)

lemma matchConfirmation_nonempty: "matchConfirmation t \<noteq> Some []"
  by (induction t) (auto simp: matchConfirmationAt_nonempty split: option.splits)

lemma matchConfirmationAt_Nil: "matchConfirmationAt [] = None"
  by (simp add: matchConfirmationAt_def)

text \<open>The three signals of \<open>extractConfirmation\<close>, and nothing else, give a result.\<close>

lemma confirmationIn_signal:
  "confirmationIn t = Some code \<longleftrightarrow>
     (matchOrderNumber t = Some code
      \<or> (matchOrderNumber t = None \<and> matchConfirmation t = Some code \<and> \<not> onlyLetters code)
      \<or> (matchOrderNumber t = None
          \<and> (case matchConfirmation t of None \<Rightarrow> True | Some c \<Rightarrow> onlyLetters c)
          \<and> hasSuccessPhrase t \<and> code = ''CONFIRMED''))"
proof (cases "t = []")
  case True
  then show ?thesis
    using hasSuccessPhrase_nonempty [of t]
    by (auto simp: confirmationIn_def matchConfirmationAt_Nil)
next
  case False
  then show ?thesis
    by (auto simp: confirmationIn_def hasSuccessPhrase_def split: option.splits)
qed

lemma confirmationIn_nonempty: "confirmationIn t \<noteq> Some []"
  using matchOrderNumber_nonempty [of t "[]"] matchConfirmation_nonempty [of t]
  by (auto simp: confirmationIn_signal)

lemma extractConfirmation_truthy:
  "extractConfirmation b = Inr confirmation \<Longrightarrow> truthy confirmation \<longleftrightarrow> confirmation \<noteq> None"
  using confirmationIn_nonempty
  by (auto simp: extractConfirmation_def truthy_def split: sum.splits option.splits)

lemma reaches_result:
  assumes "reachesExtraction inp b"
  shows "executeBookingTool inp b timestamp now =
     (case extractConfirmation b of
        Inl e \<Rightarrow> bookingFailed inp timestamp e
      | Inr confirmation \<Rightarrow>
          \<lparr>br_eventId = in_eventId inp, br_eventName = in_eventName inp,
           actionType = book,
           status = (if truthy confirmation then success else failed),
           confirmationNumber = confirmation,
           screenshotPath =
             Some (''/tmp/booking-'' @ in_eventId inp @ ''-'' @ showNat now @ ''.png''),
           br_error = None, br_timestamp = timestamp\<rparr>)"
  using assms
  by (auto simp: reachesExtraction_def executeBookingTool_def finishBooking_def returned_def Let_def
      split: sum.splits if_splits)


text \<open>
  C6. A booking attempt that gets past the blocking-condition checks to the extraction of
  the confirmation returns the status \<open>success\<close> if and only if the text collected
  from the page carries an explicit confirmation signal: the order-number pattern, a
  confirmation number next to a keyword that is not made of letters only, or one of the
  recognised success phrases. In every other case, also when the extraction throws or
  the checkout loop came to its end, the status is \<open>failed\<close>. On success the
  confirmation number of the result is the extracted code, and it is the sentinel
  \<open>CONFIRMED\<close> when a success phrase is the only signal.
\<close>

theorem success_only_on_confirmation:
  assumes "reachesExtraction inp b"
  shows "(status (executeBookingTool inp b timestamp now) = success \<longleftrightarrow>
            (\<exists>t. collectPageText b = Inr t \<and>
               (matchOrderNumber t \<noteq> None
                \<or> (\<exists>c. matchConfirmation t = Some c \<and> \<not> onlyLetters c)
                \<or> hasSuccessPhrase t)))
       \<and> (status (executeBookingTool inp b timestamp now) = success
          \<or> status (executeBookingTool inp b timestamp now) = failed)
       \<and> (status (executeBookingTool inp b timestamp now) = success \<longrightarrow>
            (\<exists>code. confirmationNumber (executeBookingTool inp b timestamp now) = Some code
               \<and> extractConfirmation b = Inr (Some code)))
       \<and> (\<forall>t. collectPageText b = Inr t \<and> matchOrderNumber t = None
              \<and> (\<forall>c. matchConfirmation t = Some c \<longrightarrow> onlyLetters c) \<and> hasSuccessPhrase t
            \<longrightarrow> confirmationNumber (executeBookingTool inp b timestamp now) = Some ''CONFIRMED'')"
proof (cases "collectPageText b")
  case (Inl e)
  then show ?thesis
    by (simp add: reaches_result [OF assms] extractConfirmation_def bookingFailed_def)
next
  case (Inr t)
  have ex: "extractConfirmation b = Inr (confirmationIn t)"
    by (simp add: extractConfirmation_def Inr)
  have tr: "truthy (confirmationIn t) \<longleftrightarrow> confirmationIn t \<noteq> None"
    using extractConfirmation_truthy [OF ex] .
  have sig: "confirmationIn t \<noteq> None \<longleftrightarrow>
      (matchOrderNumber t \<noteq> None
       \<or> (\<exists>c. matchConfirmation t = Some c \<and> \<not> onlyLetters c) \<or> hasSuccessPhrase t)"
  proof -
    have "confirmationIn t \<noteq> None \<longleftrightarrow> (\<exists>code. confirmationIn t = Some code)"
      by auto
    also have "\<dots> \<longleftrightarrow> (matchOrderNumber t \<noteq> None
       \<or> (\<exists>c. matchConfirmation t = Some c \<and> \<not> onlyLetters c) \<or> hasSuccessPhrase t)"
      unfolding confirmationIn_signal
      by (cases "matchOrderNumber t"; cases "matchConfirmation t";
          cases "onlyLetters (the (matchConfirmation t))"; simp; blast?)
    finally show ?thesis .
  qed
  have only: "confirmationIn t = Some ''CONFIRMED''"
    if "matchOrderNumber t = None" "\<forall>c. matchConfirmation t = Some c \<longrightarrow> onlyLetters c"
      "hasSuccessPhrase t"
    using that unfolding confirmationIn_signal by (cases "matchConfirmation t") auto
  show ?thesis
    using sig only
    by (auto simp: reaches_result [OF assms] ex tr Inr)
qed


theorem success_only_on_confirmation_witness:
  "reachesExtraction sampleBookingInput (sampleBackend ''Thanks for your order!'')
   \<and> status (executeBookingTool sampleBookingInput
         (sampleBackend ''Thanks for your order!'') 0 0) = success
   \<and> confirmationNumber (executeBookingTool sampleBookingInput
         (sampleBackend ''Thanks for your order!'') 0 0) = Some ''CONFIRMED''
   \<and> reachesExtraction sampleBookingInput (sampleBackend ''Checkout - step 3 of 3'')
   \<and> status (executeBookingTool sampleBookingInput
         (sampleBackend ''Checkout - step 3 of 3'') 0 0) = failed"
proof -
  have r1: "reachesExtraction sampleBookingInput (sampleBackend ''Thanks for your order!'')"
    by code_simp
  have c1: "collectPageText (sampleBackend ''Thanks for your order!'')
      = Inr ''Thanks for your order!''"
    by code_simp
  have o1: "matchOrderNumber ''Thanks for your order!'' = None"
    by code_simp
  have k1: "matchConfirmation ''Thanks for your order!'' = None"
    by code_simp
  have p1: "hasSuccessPhrase ''Thanks for your order!''"
    by code_simp
  note inst1 = success_only_on_confirmation [OF r1, of 0 0]
  have s1: "status (executeBookingTool sampleBookingInput
      (sampleBackend ''Thanks for your order!'') 0 0) = success"
    using inst1 [THEN conjunct1] c1 p1 by blast
  have n1: "confirmationNumber (executeBookingTool sampleBookingInput
      (sampleBackend ''Thanks for your order!'') 0 0) = Some ''CONFIRMED''"
    using inst1 [THEN conjunct2, THEN conjunct2, THEN conjunct2, rule_format,
        of "''Thanks for your order!''"] c1 o1 k1 p1
    by simp
  have r2: "reachesExtraction sampleBookingInput (sampleBackend ''Checkout - step 3 of 3'')"
    by code_simp
  have c2: "collectPageText (sampleBackend ''Checkout - step 3 of 3'')
      = Inr ''Checkout - step 3 of 3''"
    by code_simp
  have o2: "matchOrderNumber ''Checkout - step 3 of 3'' = None"
    by code_simp
  have k2: "matchConfirmation ''Checkout - step 3 of 3'' = None"
    by code_simp
  have p2: "\<not> hasSuccessPhrase ''Checkout - step 3 of 3''"
    by code_simp
  note inst2 = success_only_on_confirmation [OF r2, of 0 0]
  have "status (executeBookingTool sampleBookingInput
      (sampleBackend ''Checkout - step 3 of 3'') 0 0) \<noteq> success"
    using inst2 [THEN conjunct1] c2 o2 k2 p2 by simp
  then have s2: "status (executeBookingTool sampleBookingInput
      (sampleBackend ''Checkout - step 3 of 3'') 0 0) = failed"
    using inst2 [THEN conjunct2, THEN conjunct1] by blast
  show ?thesis
    using r1 s1 n1 r2 s2 by (intro conjI)
qed

section \<open>The ranking step passes on one event at most\<close>

definition rankedSeen :: "Thrown + RankOutput \<Rightarrow> RankedEvent list" where
  "rankedSeen answer =
     (case answer of
        Inl e \<Rightarrow> []
      | Inr out \<Rightarrow> (case rout_rankedEvents out of None \<Rightarrow> [] | Some rs \<Rightarrow> rs))"

text \<open>The agent's answer makes the building of the last trace event throw.\<close>

definition malformedNarrative ::
  "(RankedEvent list \<Rightarrow> FilterStats \<Rightarrow> Thrown + string) \<Rightarrow> (string \<Rightarrow> JsonValue option)
     \<Rightarrow> RankedEvent list \<Rightarrow> FilterStats \<Rightarrow> bool" where
  "malformedNarrative agent parse rankedEvents stats =
     (tradeoffsThrow (agentNarrative agent parse (take 3 rankedEvents) stats)
      \<or> topPickReasoningThrows (agentNarrative agent parse (take 3 rankedEvents) stats)
           (take 3 rankedEvents))"

lemma rankAndRecommend_returns:
  assumes "rin_events inputData \<noteq> []"
    and "rankEventsTool (rankRequest inputData) = Inr (Ranked rankedEvents stats)"
  shows "returned (rankAndRecommend emitTrace rankEventsTool agent parse inputData)
     \<longleftrightarrow> emitTrace RankingStarted = None
         \<and> \<not> malformedNarrative agent parse rankedEvents stats
         \<and> emitTrace RankingCompleted = None"
  using assms
  by (auto simp: rankAndRecommend_def malformedNarrative_def returned_def Let_def
      split: option.splits)

lemma rankAndRecommend_ranked:
  assumes "rin_events inputData \<noteq> []"
    and "rankEventsTool (rankRequest inputData) = Inr (Ranked rankedEvents stats)"
    and "rankAndRecommend emitTrace rankEventsTool agent parse inputData = Inr out"
  shows "rout_rankedEvents out = Some (take 1 rankedEvents)"
  using assms
  by (auto simp: rankAndRecommend_def Let_def split: option.splits if_splits)

lemma rankedSeen_le1:
  "length (rankedSeen (rankAndRecommend emitTrace rankEventsTool agent parse inputData)) \<le> 1"
  by (auto simp: rankedSeen_def rankAndRecommend_def unranked_def Let_def
      split: option.splits sum.splits RankResult.splits)

text \<open>
  C10, as stated, fails when the ranking tool succeeds with an empty list: for two
  events that the hard filters both drop, the step returns normally with
  \<open>rankedEvents = []\<close>, not with one element.
\<close>

theorem ranking_returns_no_event_when_all_filtered:
  "length (rin_events sampleRankInput) = 2
   \<and> filteringRanker (rankRequest sampleRankInput)
       = Inr (Ranked [] \<lparr>totalInput = 2, passedFilters = 0, finalCount = 0\<rparr>)
   \<and> map_sum id rout_rankedEvents
         (rankAndRecommend quietBus filteringRanker silentAgent noJson sampleRankInput)
       = Inr (Some [])"
  by code_simp

text \<open>
  C10, amended. The ranking step never hands on more than one ranked event. Whenever the
  ranking tool succeeds on a non-empty event list and the step returns, the step returns
  \<open>rankedEvents\<close> cut to the first element of the tool's list: exactly one element when
  the tool ranked at least one event, however many passed the filters, and none when no
  event passed them. The element kept is the highest-scored one when the tool's list is
  in descending order of score. The step returns exactly when neither of its two trace
  events throws and the answer of the agent does not make the building of the last trace
  event throw.
\<close>

theorem ranking_keeps_first_ranked_event:
  "length (rankedSeen (rankAndRecommend emitTrace rankEventsTool agent parse inputData)) \<le> 1
   \<and> (rin_events inputData \<noteq> []
        \<and> rankEventsTool (rankRequest inputData) = Inr (Ranked rankedEvents stats) \<longrightarrow>
      (returned (rankAndRecommend emitTrace rankEventsTool agent parse inputData)
         \<longleftrightarrow> emitTrace RankingStarted = None
             \<and> \<not> malformedNarrative agent parse rankedEvents stats
             \<and> emitTrace RankingCompleted = None)
      \<and> (\<forall>out. rankAndRecommend emitTrace rankEventsTool agent parse inputData = Inr out \<longrightarrow>
            rout_rankedEvents out = Some (take 1 rankedEvents)
            \<and> (rankedEvents \<noteq> [] \<longrightarrow> rout_rankedEvents out = Some [hd rankedEvents])
            \<and> (rankedEvents = [] \<longrightarrow> rout_rankedEvents out = Some [])
            \<and> (sorted_wrt (\<lambda>a b. score b \<le> score a) rankedEvents \<longrightarrow>
                 (\<forall>r \<in> set rankedEvents. \<forall>t \<in> set (take 1 rankedEvents). score r \<le> score t))))"
proof (intro conjI impI allI)
  show "length (rankedSeen (rankAndRecommend emitTrace rankEventsTool agent parse inputData)) \<le> 1"
    by (rule rankedSeen_le1)
next
  assume h: "rin_events inputData \<noteq> []
        \<and> rankEventsTool (rankRequest inputData) = Inr (Ranked rankedEvents stats)"
  show "returned (rankAndRecommend emitTrace rankEventsTool agent parse inputData)
         \<longleftrightarrow> emitTrace RankingStarted = None
             \<and> \<not> malformedNarrative agent parse rankedEvents stats
             \<and> emitTrace RankingCompleted = None"
    using h by (intro rankAndRecommend_returns) simp_all
next
  fix out
  assume h: "rin_events inputData \<noteq> []
        \<and> rankEventsTool (rankRequest inputData) = Inr (Ranked rankedEvents stats)"
    and r: "rankAndRecommend emitTrace rankEventsTool agent parse inputData = Inr out"
  show cut: "rout_rankedEvents out = Some (take 1 rankedEvents)"
    using h r by (intro rankAndRecommend_ranked [of inputData rankEventsTool rankedEvents stats
          emitTrace agent parse out]) simp_all
  show "rout_rankedEvents out = Some [hd rankedEvents]" if "rankedEvents \<noteq> []"
    using that unfolding cut by (cases rankedEvents) simp_all
  show "rout_rankedEvents out = Some []" if "rankedEvents = []"
    using that unfolding cut by simp
  show "\<forall>r \<in> set rankedEvents. \<forall>t \<in> set (take 1 rankedEvents). score r \<le> score t"
    if "sorted_wrt (\<lambda>a b. score b \<le> score a) rankedEvents"
    using that by (cases rankedEvents) auto
qed

theorem ranking_keeps_first_ranked_event_witness:
  "rin_events sampleRankInput \<noteq> []
   \<and> scoringRanker (rankRequest sampleRankInput)
       = Inr (Ranked scoredEvents \<lparr>totalInput = 2, passedFilters = 2, finalCount = 2\<rparr>)
   \<and> sorted_wrt (\<lambda>a b. score b \<le> score a) scoredEvents
   \<and> returned (rankAndRecommend quietBus scoringRanker silentAgent noJson sampleRankInput)
   \<and> map_sum id rout_rankedEvents
        (rankAndRecommend quietBus scoringRanker silentAgent noJson sampleRankInput)
       = Inr (Some [\<lparr>rk_event = foodFair, score = 4 / 5, reasoning = None\<rparr>])"
proof -
  have e: "rin_events sampleRankInput \<noteq> []"
    by code_simp
  have q: "quietBus RankingStarted = None" "quietBus RankingCompleted = None"
    by (simp_all add: quietBus_def)
  have r: "scoringRanker (rankRequest sampleRankInput)
       = Inr (Ranked scoredEvents \<lparr>totalInput = 2, passedFilters = 2, finalCount = 2\<rparr>)"
    by code_simp
  have s: "sorted_wrt (\<lambda>a b. score b \<le> score a) scoredEvents"
    by code_simp
  have n: "scoredEvents \<noteq> []"
    by code_simp
  have h: "hd scoredEvents = \<lparr>rk_event = foodFair, score = 4 / 5, reasoning = None\<rparr>"
    by (simp add: scoredEvents_def)
  have a: "\<not> malformedNarrative silentAgent noJson scoredEvents
      \<lparr>totalInput = 2, passedFilters = 2, finalCount = 2\<rparr>"
    by code_simp
  note inst = ranking_keeps_first_ranked_event
    [of quietBus scoringRanker silentAgent noJson sampleRankInput scoredEvents
        "\<lparr>totalInput = 2, passedFilters = 2, finalCount = 2\<rparr>",
     THEN conjunct2, rule_format, OF conjI [OF e r]]
  have ret: "returned (rankAndRecommend quietBus scoringRanker silentAgent noJson sampleRankInput)"
    using inst [THEN conjunct1] q a by simp
  then obtain out where
    out: "rankAndRecommend quietBus scoringRanker silentAgent noJson sampleRankInput = Inr out"
    by (auto simp: returned_def split: sum.splits)
  have "rout_rankedEvents out = Some [hd scoredEvents]"
    using inst [THEN conjunct2, rule_format, OF out] n by blast
  then have v: "map_sum id rout_rankedEvents
        (rankAndRecommend quietBus scoringRanker silentAgent noJson sampleRankInput)
       = Inr (Some [\<lparr>rk_event = foodFair, score = 4 / 5, reasoning = None\<rparr>])"
    by (simp add: out h)
  show ?thesis
    using e r s ret v by (intro conjI)
qed

section \<open>The booking loop of the execution step\<close>

text \<open>
  The answers of the booking tool to a list of requests made one after the other, each
  call starting in the state the call before it left.
\<close>

fun toolRun ::
  "(BookingInput \<Rightarrow> 'w \<Rightarrow> ToolOutcome \<times> 'w) \<Rightarrow> BookingInput list \<Rightarrow> 'w
     \<Rightarrow> ToolOutcome list \<times> 'w" where
  "toolRun tool [] w = ([], w)"
| "toolRun tool (request # requests) w =
     (let (rawResult, w1) = tool request w;
          (rawResults, w2) = toolRun tool requests w1
      in (rawResult # rawResults, w2))"

text \<open>The entry of the result list for an item, by what the tool did with its request.\<close>

definition entryFor :: "(nat \<Rightarrow> nat) \<Rightarrow> nat \<Rightarrow> ExecItem \<Rightarrow> ToolOutcome \<Rightarrow> BookingResult" where
  "entryFor clock i item rawResult =
     (case rawResult of
        ToolThrew err \<Rightarrow> itemFailed item (thrownMessage err ''Unknown error'') (clock i)
      | ToolInvalid \<Rightarrow> itemFailed item ''Tool returned validation error'' (clock i)
      | ToolResult result \<Rightarrow> result)"

fun entriesFrom ::
  "(nat \<Rightarrow> nat) \<Rightarrow> nat \<Rightarrow> ExecItem list \<Rightarrow> ToolOutcome list \<Rightarrow> BookingResult list" where
  "entriesFrom clock i (item # items) (rawResult # rawResults) =
     entryFor clock i item rawResult # entriesFrom clock (i + 1) items rawResults"
| "entriesFrom clock i items rawResults = []"

definition partySizeOf :: "'itin PipelineData \<Rightarrow> nat" where
  "partySizeOf inputData =
     (case pd_constraints inputData of
        None \<Rightarrow> 1
      | Some c \<Rightarrow> (case c_partySize c of None \<Rightarrow> 1 | Some n \<Rightarrow> n))"

definition itemsOf :: "ExecItinerary PipelineData \<Rightarrow> ExecItem list" where
  "itemsOf inputData =
     (case pd_itinerary inputData of
        None \<Rightarrow> []
      | Some itinerary \<Rightarrow> (case exec_items itinerary of None \<Rightarrow> [] | Some items \<Rightarrow> items))"

definition bookableItemsOf :: "ExecItinerary PipelineData \<Rightarrow> ExecItem list" where
  "bookableItemsOf inputData = filter bookable (itemsOf inputData)"

definition profileOr :: "UserProfile option \<Rightarrow> UserProfile" where
  "profileOr profile = (case profile of None \<Rightarrow> defaultProfile | Some p \<Rightarrow> p)"

text \<open>The requests the step makes of the booking tool for its input, in order.\<close>

definition requestsFor :: "ExecItinerary PipelineData \<Rightarrow> UserProfile option \<Rightarrow> BookingInput list" where
  "requestsFor inputData profile =
     map (bookingRequest (partySizeOf inputData) (profileOr profile)) (bookableItemsOf inputData)"

lemma length_toolRun: "length (fst (toolRun tool requests w)) = length requests"
proof (induction requests arbitrary: w)
  case Nil
  then show ?case by simp
next
  case (Cons request requests)
  show ?case
    using Cons.IH [of "snd (tool request w)"]
    by (simp add: Let_def case_prod_beta)
qed

lemma length_entriesFrom:
  "length rawResults = length items \<Longrightarrow> length (entriesFrom clock i items rawResults) = length items"
  by (induction clock i items rawResults rule: entriesFrom.induct) auto

lemma nth_entriesFrom:
  "length rawResults = length items \<Longrightarrow> k < length items \<Longrightarrow>
     entriesFrom clock i items rawResults ! k = entryFor clock (i + k) (items ! k) (rawResults ! k)"
proof (induction clock i items rawResults arbitrary: k rule: entriesFrom.induct)
  case (1 clock i item items rawResult rawResults)
  then show ?case
    by (cases k) auto
qed auto

lemma attemptItem_quiet:
  assumes "emitTrace (BookingItemDone i) = None"
  shows "attemptItem emitTrace tool clock partySize userProfile i item st =
     st\<lparr>world := snd (tool (bookingRequest partySize userProfile item) (world st)),
        calls := calls st @ [bookingRequest partySize userProfile item],
        results := results st
          @ [entryFor clock i item
               (fst (tool (bookingRequest partySize userProfile item) (world st)))]\<rparr>"
  using assms
  by (auto simp: attemptItem_def entryFor_def Let_def split: prod.splits ToolOutcome.splits)

lemma bookingLoop_quiet:
  assumes "\<forall>point. emitTrace point = None"
  shows "bookingLoop emitTrace tool clock partySize userProfile i items st =
     (None,
      st\<lparr>world := snd (toolRun tool (map (bookingRequest partySize userProfile) items) (world st)),
         calls := calls st @ map (bookingRequest partySize userProfile) items,
         results := results st
           @ entriesFrom clock i items
               (fst (toolRun tool (map (bookingRequest partySize userProfile) items)
                 (world st)))\<rparr>)"
proof (induction items arbitrary: i st)
  case Nil
  then show ?case by simp
next
  case (Cons item items)
  have start: "emitTrace (BookingItem i) = None" and fin: "emitTrace (BookingItemDone i) = None"
    using assms by simp_all
  show ?case
    by (simp add: start Cons.IH attemptItem_quiet [of emitTrace i, OF fin] Let_def
        case_prod_beta)
qed


lemma executeBookings_passthrough:
  assumes "itemsOf inputData = []"
  shows "executeBookings emitTrace getUserProfile tool clock inputData w =
     (Inr inputData, \<lparr>world = w, calls = [], results = []\<rparr>)"
  using assms by (simp add: executeBookings_def itemsOf_def Let_def)

lemma executeBookings_quiet:
  assumes quiet: "\<forall>point. emitTrace point = None"
    and profile: "getUserProfile = Inr profile"
    and items: "itemsOf inputData \<noteq> []"
  shows "executeBookings emitTrace getUserProfile tool clock inputData w =
     (Inr (inputData
            \<lparr>pd_bookingResults :=
               Some (entriesFrom clock 0 (bookableItemsOf inputData)
                      (fst (toolRun tool (requestsFor inputData profile) w))),
             pd_constraints := None, pd_formData := None\<rparr>),
      \<lparr>world = snd (toolRun tool (requestsFor inputData profile) w),
       calls = requestsFor inputData profile,
       results = entriesFrom clock 0 (bookableItemsOf inputData)
                   (fst (toolRun tool (requestsFor inputData profile) w))\<rparr>)"
proof -
  have e: "emitTrace ExecutionSkipped = None" "emitTrace ExecutionStarted = None"
    "emitTrace ExecutionCompleted = None"
    using quiet by simp_all
  have p: "partySizeOf inputData =
      (case pd_constraints inputData of
         None \<Rightarrow> 1
       | Some c \<Rightarrow> (case c_partySize c of None \<Rightarrow> 1 | Some n \<Rightarrow> n))"
    by (simp add: partySizeOf_def)
  show ?thesis
  proof (cases "bookableItemsOf inputData = []")
    case True
    then show ?thesis
      using items
      by (simp add: executeBookings_def Let_def e requestsFor_def
          bookableItemsOf_def itemsOf_def [symmetric])
  next
    case False
    then show ?thesis
      using items
      by (simp add: executeBookings_def Let_def e profile requestsFor_def profileOr_def
          bookingLoop_quiet [OF quiet] p [symmetric]
          bookableItemsOf_def itemsOf_def [symmetric])
  qed
qed


lemma executeBookings_run:
  assumes quiet: "\<forall>point. emitTrace point = None"
    and profile: "getUserProfile = Inr profile"
  shows "snd (executeBookings emitTrace getUserProfile tool clock inputData w) =
      \<lparr>world = snd (toolRun tool (requestsFor inputData profile) w),
       calls = requestsFor inputData profile,
       results = entriesFrom clock 0 (bookableItemsOf inputData)
                   (fst (toolRun tool (requestsFor inputData profile) w))\<rparr>"
proof (cases "itemsOf inputData = []")
  case True
  then show ?thesis
    by (simp add: executeBookings_passthrough requestsFor_def bookableItemsOf_def)
next
  case False
  then show ?thesis
    by (simp add: executeBookings_quiet [OF quiet profile])
qed

text \<open>
  What holds in a run in which no trace event and no reading of the user profile throws:
  whatever the booking tool does with each request, it is called once for every bookable
  item, in the order of the itinerary, each call in the state the call before it left, and
  the result list has one entry per bookable item.
\<close>

lemma bookable_items_attempted_on_quiet_bus:
  assumes "\<forall>point. emitTrace point = None"
    and "getUserProfile = Inr profile"
  shows "calls (snd (executeBookings emitTrace getUserProfile tool clock inputData w))
           = requestsFor inputData profile
       \<and> world (snd (executeBookings emitTrace getUserProfile tool clock inputData w))
           = snd (toolRun tool (requestsFor inputData profile) w)
       \<and> length (results (snd (executeBookings emitTrace getUserProfile tool clock inputData w)))
           = length (bookableItemsOf inputData)
       \<and> (\<forall>k < length (bookableItemsOf inputData).
             results (snd (executeBookings emitTrace getUserProfile tool clock inputData w)) ! k
               = entryFor clock k (bookableItemsOf inputData ! k)
                   (fst (toolRun tool (requestsFor inputData profile) w) ! k))
       \<and> (itemsOf inputData = [] \<longrightarrow>
             fst (executeBookings emitTrace getUserProfile tool clock inputData w) = Inr inputData)
       \<and> (itemsOf inputData \<noteq> [] \<longrightarrow>
             map_sum id pd_bookingResults
               (fst (executeBookings emitTrace getUserProfile tool clock inputData w))
               = Inr (Some (results
                   (snd (executeBookings emitTrace getUserProfile tool clock inputData w)))))"
proof -
  have len: "length (fst (toolRun tool (requestsFor inputData profile) w))
      = length (bookableItemsOf inputData)"
    by (simp add: length_toolRun requestsFor_def)
  have run: "snd (executeBookings emitTrace getUserProfile tool clock inputData w) =
      \<lparr>world = snd (toolRun tool (requestsFor inputData profile) w),
       calls = requestsFor inputData profile,
       results = entriesFrom clock 0 (bookableItemsOf inputData)
                   (fst (toolRun tool (requestsFor inputData profile) w))\<rparr>"
    using assms by (rule executeBookings_run)
  have nth: "\<forall>k < length (bookableItemsOf inputData).
      entriesFrom clock 0 (bookableItemsOf inputData)
          (fst (toolRun tool (requestsFor inputData profile) w)) ! k
        = entryFor clock k (bookableItemsOf inputData ! k)
            (fst (toolRun tool (requestsFor inputData profile) w) ! k)"
    using nth_entriesFrom [OF len, of _ clock 0] by simp
  have pass: "fst (executeBookings emitTrace getUserProfile tool clock inputData w) = Inr inputData"
    if "itemsOf inputData = []"
    using that by (simp add: executeBookings_passthrough)
  have list: "map_sum id pd_bookingResults
        (fst (executeBookings emitTrace getUserProfile tool clock inputData w))
      = Inr (Some (results
          (snd (executeBookings emitTrace getUserProfile tool clock inputData w))))"
    if "itemsOf inputData \<noteq> []"
    using that by (simp add: executeBookings_quiet [OF assms])
  show ?thesis
    using nth pass list by (simp add: run length_entriesFrom [OF len])
qed

lemma bookable_items_attempted_sample:
  "map in_eventId
      (calls (snd (executeBookings quietBus (Inr None) crashingTool sampleTimes sampleData 0)))
     = [''evt-1'', ''evt-2'']
   \<and> world (snd (executeBookings quietBus (Inr None) crashingTool sampleTimes sampleData 0)) = 2
   \<and> map br_error
        (results (snd (executeBookings quietBus (Inr None) crashingTool sampleTimes sampleData 0)))
     = [Some ''browser crashed'', Some ''Tool returned validation error'']
   \<and> map_sum id pd_bookingResults
        (fst (executeBookings quietBus (Inr None) crashingTool sampleTimes sampleData 0))
     = Inr (Some (results
         (snd (executeBookings quietBus (Inr None) crashingTool sampleTimes sampleData 0))))"
proof -
  have quiet: "\<forall>point. quietBus point = None"
    by (simp add: quietBus_def)
  note inst = bookable_items_attempted_on_quiet_bus
    [where tool = crashingTool and clock = sampleTimes and inputData = sampleData and w = 0
       and profile = None, OF quiet refl]
  have requests: "map in_eventId (requestsFor sampleData None) = [''evt-1'', ''evt-2'']"
    by code_simp
  have state: "snd (toolRun crashingTool (requestsFor sampleData None) 0) = 2"
    by code_simp
  have items: "itemsOf sampleData \<noteq> []"
    by code_simp
  have n: "length (bookableItemsOf sampleData) = 2"
    by code_simp
  have entries:
    "br_error (entryFor sampleTimes 0 (bookableItemsOf sampleData ! 0)
        (fst (toolRun crashingTool (requestsFor sampleData None) 0) ! 0))
       = Some ''browser crashed''"
    "br_error (entryFor sampleTimes 1 (bookableItemsOf sampleData ! 1)
        (fst (toolRun crashingTool (requestsFor sampleData None) 0) ! 1))
       = Some ''Tool returned validation error''"
    by code_simp+
  have c: "map in_eventId
      (calls (snd (executeBookings quietBus (Inr None) crashingTool sampleTimes sampleData 0)))
     = [''evt-1'', ''evt-2'']"
    using inst [THEN conjunct1] requests by simp
  have w: "world (snd (executeBookings quietBus (Inr None) crashingTool sampleTimes sampleData 0))
      = 2"
    using inst [THEN conjunct2, THEN conjunct1] state by simp
  have l: "length (results
      (snd (executeBookings quietBus (Inr None) crashingTool sampleTimes sampleData 0))) = 2"
    using inst [THEN conjunct2, THEN conjunct2, THEN conjunct1] n by simp
  have k0: "br_error (results
      (snd (executeBookings quietBus (Inr None) crashingTool sampleTimes sampleData 0)) ! 0)
      = Some ''browser crashed''"
    using inst [THEN conjunct2, THEN conjunct2, THEN conjunct2, THEN conjunct1, rule_format, of 0]
      n entries(1)
    by simp
  have k1: "br_error (results
      (snd (executeBookings quietBus (Inr None) crashingTool sampleTimes sampleData 0)) ! 1)
      = Some ''Tool returned validation error''"
    using inst [THEN conjunct2, THEN conjunct2, THEN conjunct2, THEN conjunct1, rule_format, of 1]
      n entries(2)
    by simp
  have r: "map br_error (results
      (snd (executeBookings quietBus (Inr None) crashingTool sampleTimes sampleData 0)))
     = [Some ''browser crashed'', Some ''Tool returned validation error'']"
    using l k0 k1 by (simp add: list_eq_iff_nth_eq nth_Cons' less_Suc_eq numeral_2_eq_2)
  have b: "map_sum id pd_bookingResults
        (fst (executeBookings quietBus (Inr None) crashingTool sampleTimes sampleData 0))
     = Inr (Some (results
         (snd (executeBookings quietBus (Inr None) crashingTool sampleTimes sampleData 0))))"
    using inst [THEN conjunct2, THEN conjunct2, THEN conjunct2, THEN conjunct2, THEN conjunct2]
      items
    by simp
  show ?thesis
    using c w r b by (intro conjI)
qed


text \<open>
  C5. The claim is not met by the code when a trace event throws during the loop. The
  event that opens the turn of an item is emitted before the \<open>try\<close>: when it throws for
  the second of two bookable items, the step throws and that item is never attempted.
  The event that reports a result is emitted inside the \<open>try\<close>, after the result was
  pushed: when it throws, the \<open>catch\<close> pushes a second entry for the same item, and two
  bookable items give three entries.
\<close>

theorem trace_failure_breaks_isolation:
  "length (bookableItemsOf sampleData) = 2
   \<and> fst (executeBookings (failingAt (BookingItem 1)) (Inr None) confirmingTool sampleTimes
            sampleData 0)
       = Inl (ErrorObject ''listener failed'')
   \<and> map in_eventId
        (calls (snd (executeBookings (failingAt (BookingItem 1)) (Inr None) confirmingTool
                       sampleTimes sampleData 0)))
       = [''evt-1'']
   \<and> map_sum id (map_option (map br_eventId) \<circ> pd_bookingResults)
        (fst (executeBookings (failingAt (BookingItemDone 0)) (Inr None) confirmingTool
                sampleTimes sampleData 0))
       = Inr (Some [''evt-1'', ''evt-1'', ''evt-2''])
   \<and> map_sum id (map_option (map status) \<circ> pd_bookingResults)
        (fst (executeBookings (failingAt (BookingItemDone 0)) (Inr None) confirmingTool
                sampleTimes sampleData 0))
       = Inr (Some [success, failed, success])"
  by code_simp

section \<open>The approval gate\<close>

lemma awaitApproval_rejected:
  assumes "pd_itinerary inputData = Some itinerary"
    and "emitTrace ApprovalRequired = None" and "emitTrace ApprovalRejected = None"
  shows "awaitApproval emitTrace (Inr False) inputData =
     Inr (inputData\<lparr>pd_itinerary := None, pd_planMetadata := None,
                     pd_planWarnings := Some [''Plan rejected by user''],
                     pd_bookingResults := None\<rparr>)"
  using assms by (simp add: awaitApproval_def)

lemma awaitApproval_approved:
  assumes "pd_itinerary inputData = Some itinerary"
    and "emitTrace ApprovalRequired = None" and "emitTrace ApprovalApproved = None"
  shows "awaitApproval emitTrace (Inr True) inputData =
     Inr (inputData\<lparr>pd_bookingResults := None\<rparr>)"
  using assms by (simp add: awaitApproval_def)

lemma requestsFor_approved:
  "requestsFor (inputData\<lparr>pd_bookingResults := None\<rparr>) profile = requestsFor inputData profile"
  by (simp add: requestsFor_def bookableItemsOf_def itemsOf_def partySizeOf_def)

text \<open>
  C7. With an itinerary at the gate and a trace bus that does not throw: when the gate
  resolves with a rejection, the approval step returns with the itinerary and the plan
  metadata discarded and the warning \<open>Plan rejected by user\<close> recorded, and the
  execution step that follows makes no call of the booking tool and hands that data on
  as it is; when the gate resolves with an approval, the approval step returns the
  itinerary, the metadata and the warnings as they were, and the execution step makes
  its requests for the bookable items of that itinerary.
\<close>

theorem rejection_skips_execution:
  assumes "pd_itinerary inputData = Some itinerary"
    and "\<forall>point. emitTrace point = None"
  shows "(waitForApproval = Inr False \<longrightarrow>
            (\<exists>out. awaitApproval emitTrace waitForApproval inputData = Inr out
               \<and> pd_itinerary out = None \<and> pd_planMetadata out = None
               \<and> pd_planWarnings out = Some [''Plan rejected by user'']
               \<and> executeBookings executionTrace getUserProfile tool clock out w
                   = (Inr out, \<lparr>world = w, calls = [], results = []\<rparr>)))
       \<and> (waitForApproval = Inr True \<longrightarrow>
            (\<exists>out. awaitApproval emitTrace waitForApproval inputData = Inr out
               \<and> pd_itinerary out = Some itinerary
               \<and> pd_planMetadata out = pd_planMetadata inputData
               \<and> pd_planWarnings out = pd_planWarnings inputData
               \<and> (getUserProfile = Inr profile \<longrightarrow>
                    calls (snd (executeBookings emitTrace getUserProfile tool clock out w))
                      = requestsFor inputData profile)))"
proof (intro conjI impI)
  assume "waitForApproval = Inr False"
  then have "awaitApproval emitTrace waitForApproval inputData =
     Inr (inputData\<lparr>pd_itinerary := None, pd_planMetadata := None,
                     pd_planWarnings := Some [''Plan rejected by user''],
                     pd_bookingResults := None\<rparr>)"
    using assms by (simp add: awaitApproval_rejected)
  moreover have "executeBookings executionTrace getUserProfile tool clock
      (inputData\<lparr>pd_itinerary := None, pd_planMetadata := None,
                  pd_planWarnings := Some [''Plan rejected by user''],
                  pd_bookingResults := None\<rparr>) w
     = (Inr (inputData\<lparr>pd_itinerary := None, pd_planMetadata := None,
                  pd_planWarnings := Some [''Plan rejected by user''],
                  pd_bookingResults := None\<rparr>), \<lparr>world = w, calls = [], results = []\<rparr>)"
    by (rule executeBookings_passthrough) (simp add: itemsOf_def)
  ultimately show "\<exists>out. awaitApproval emitTrace waitForApproval inputData = Inr out
               \<and> pd_itinerary out = None \<and> pd_planMetadata out = None
               \<and> pd_planWarnings out = Some [''Plan rejected by user'']
               \<and> executeBookings executionTrace getUserProfile tool clock out w
                   = (Inr out, \<lparr>world = w, calls = [], results = []\<rparr>)"
    by simp
next
  assume "waitForApproval = Inr True"
  then have "awaitApproval emitTrace waitForApproval inputData =
     Inr (inputData\<lparr>pd_bookingResults := None\<rparr>)"
    using assms by (simp add: awaitApproval_approved)
  moreover have "calls (snd (executeBookings emitTrace getUserProfile tool clock
      (inputData\<lparr>pd_bookingResults := None\<rparr>) w)) = requestsFor inputData profile"
    if "getUserProfile = Inr profile"
    using executeBookings_run [OF assms(2) that, of tool clock "inputData\<lparr>pd_bookingResults := None\<rparr>" w]
    by (simp add: requestsFor_approved)
  ultimately show "\<exists>out. awaitApproval emitTrace waitForApproval inputData = Inr out
               \<and> pd_itinerary out = Some itinerary
               \<and> pd_planMetadata out = pd_planMetadata inputData
               \<and> pd_planWarnings out = pd_planWarnings inputData
               \<and> (getUserProfile = Inr profile \<longrightarrow>
                    calls (snd (executeBookings emitTrace getUserProfile tool clock out w))
                      = requestsFor inputData profile)"
    using assms(1) by simp
qed

theorem rejection_skips_execution_witness:
  "map_sum id pd_planWarnings (awaitApproval quietBus (Inr False) sampleData)
     = Inr (Some [''Plan rejected by user''])
   \<and> map_sum id pd_itinerary (awaitApproval quietBus (Inr False) sampleData) = Inr None
   \<and> map_sum id (\<lambda>out. calls (snd (executeBookings quietBus (Inr None) crashingTool
                                     sampleTimes out 0)))
        (awaitApproval quietBus (Inr False) sampleData) = Inr []
   \<and> map_sum id (\<lambda>out. map in_eventId (calls (snd (executeBookings quietBus (Inr None)
                                     crashingTool sampleTimes out 0))))
        (awaitApproval quietBus (Inr True) sampleData) = Inr [''evt-1'', ''evt-2'']"
proof -
  have quiet: "\<forall>point. quietBus point = None"
    by (simp add: quietBus_def)
  have itin: "pd_itinerary sampleData = Some \<lparr>exec_items = Some sampleItems\<rparr>"
    by (simp add: sampleData_def)
  have requests: "map in_eventId (requestsFor sampleData None) = [''evt-1'', ''evt-2'']"
    by code_simp
  note no = rejection_skips_execution
    [where waitForApproval = "Inr False" and executionTrace = quietBus
       and getUserProfile = "Inr None" and tool = crashingTool and clock = sampleTimes
       and w = 0 and profile = None, OF itin quiet, THEN conjunct1, rule_format, OF refl]
  note yes = rejection_skips_execution
    [where waitForApproval = "Inr True" and executionTrace = quietBus
       and getUserProfile = "Inr None" and tool = crashingTool and clock = sampleTimes
       and w = 0 and profile = None, OF itin quiet, THEN conjunct2, rule_format, OF refl]
  obtain out where out: "awaitApproval quietBus (Inr False) sampleData = Inr out"
    "pd_itinerary out = None" "pd_planWarnings out = Some [''Plan rejected by user'']"
    "executeBookings quietBus (Inr None) crashingTool sampleTimes out 0
       = (Inr out, \<lparr>world = 0, calls = [], results = []\<rparr>)"
    using no by blast
  have a: "map_sum id pd_planWarnings (awaitApproval quietBus (Inr False) sampleData)
     = Inr (Some [''Plan rejected by user''])"
    by (simp add: out)
  have b: "map_sum id pd_itinerary (awaitApproval quietBus (Inr False) sampleData) = Inr None"
    by (simp add: out)
  have c: "map_sum id (\<lambda>out. calls (snd (executeBookings quietBus (Inr None) crashingTool
                                     sampleTimes out 0)))
        (awaitApproval quietBus (Inr False) sampleData) = Inr []"
    by (simp add: out)
  obtain ok where ok: "awaitApproval quietBus (Inr True) sampleData = Inr ok"
    "calls (snd (executeBookings quietBus (Inr None) crashingTool sampleTimes ok 0))
       = requestsFor sampleData None"
    using yes by blast
  have d: "map_sum id (\<lambda>out. map in_eventId (calls (snd (executeBookings quietBus (Inr None)
                                     crashingTool sampleTimes out 0))))
        (awaitApproval quietBus (Inr True) sampleData) = Inr [''evt-1'', ''evt-2'']"
    by (simp add: ok requests)
  show ?thesis
    using a b c d by (intro conjI)
qed

end
